(* ===== verification/Prelude.thy ===== *)
theory Prelude
  imports Main
begin

text \<open>
  Shared vocabulary of the development: Go's error values as a datatype, the result
  type \<open>error + 'a\<close> of every fallible call (\<open>Inl\<close> is the \<open>err != nil\<close> branch),
  the byte and string types, and the few functions of Go's \<open>strings\<close> package the
  controllers call (\<open>strings.HasPrefix\<close>, \<open>strings.TrimPrefix\<close>,
  \<open>strings.TrimSuffix\<close>). The collection \<open>go_simps\<close> gathers the rewrite rules that
  evaluate these helpers; component proofs use it with \<open>simp add: go_simps\<close>.
\<close>

named_theorems go_simps "rewrite rules evaluating the Go helpers of the model"

subsection \<open>Errors\<close>

text \<open>
  The error values the sources construct:
  \<^item> \<open>Sentinel n\<close>: a package-level sentinel such as \<open>herrors.ErrParamInvalid\<close>;
  \<^item> \<open>Wrapf e msg\<close>: \<open>perror.Wrapf(e, msg)\<close>, which keeps \<open>e\<close> as its cause;
  \<^item> \<open>OpErr op e\<close>: \<open>errors.E(op, err)\<close>, the operation name put around a lower error;
  \<^item> \<open>HttpErr op status code msg\<close>: \<open>errors.E(op, status, code, msg)\<close>;
  \<^item> \<open>Text msg\<close>: \<open>fmt.Errorf\<close> and \<open>errors.New\<close>;
  \<^item> \<open>Panic msg\<close>: a Go runtime panic (a method called on a nil interface);
  \<^item> \<open>NumError func num e\<close>: \<open>strconv.NumError{Func, Num, Err}\<close>, a failed number parse.
  Failures of the collaborators (database, Git host, CI engine, object store) are
  whatever error value their model returns.
\<close>

datatype error =
    Sentinel string
  | Wrapf error string
  | OpErr string error
  | HttpErr string nat string string
  | Text string
  | Panic string
  | NumError string string error

type_synonym 'a result = "error + 'a"

type_synonym bytes = string

abbreviation ErrParamInvalid :: error where
  "ErrParamInvalid \<equiv> Sentinel ''ErrParamInvalid''"

abbreviation ErrNotFound :: error where
  "ErrNotFound \<equiv> Sentinel ''ErrNotFound''"

abbreviation ErrConflict :: error where
  "ErrConflict \<equiv> Sentinel ''ErrConflict''"

abbreviation ErrInvalidTransition :: error where
  "ErrInvalidTransition \<equiv> Sentinel ''ErrInvalidTransition''"

text \<open>\<open>perror.Cause\<close>: strip the \<open>Wrapf\<close> layers.\<close>

fun Cause :: "error \<Rightarrow> error" where
  "Cause (Wrapf e _) = Cause e"
| "Cause e = e"

subsection \<open>The strings package\<close>

text \<open>\<open>strings.HasPrefix(s, prefix)\<close>: \<open>len(s) >= len(prefix) && s[:len(prefix)] == prefix\<close>.\<close>

definition HasPrefix :: "string \<Rightarrow> string \<Rightarrow> bool" where
  "HasPrefix s p \<longleftrightarrow> length p \<le> length s \<and> take (length p) s = p"

text \<open>\<open>strings.HasSuffix\<close>, \<open>strings.TrimPrefix\<close> and \<open>strings.TrimSuffix\<close>.\<close>

definition HasSuffix :: "string \<Rightarrow> string \<Rightarrow> bool" where
  "HasSuffix s p \<longleftrightarrow> length p \<le> length s \<and> drop (length s - length p) s = p"

definition TrimPrefix :: "string \<Rightarrow> string \<Rightarrow> string" where
  "TrimPrefix s p = (if HasPrefix s p then drop (length p) s else s)"

definition TrimSuffix :: "string \<Rightarrow> string \<Rightarrow> string" where
  "TrimSuffix s p = (if HasSuffix s p then take (length s - length p) s else s)"

subsection \<open>Lemmas on results\<close>

lemma case_sum_err_Inr [go_simps]:
  "((case x of Inl e \<Rightarrow> Inl e | Inr a \<Rightarrow> f a) = Inr b) \<longleftrightarrow> (\<exists>a. x = Inr a \<and> f a = Inr b)"
  by (cases x) auto

lemma case_sum_err_Inl [go_simps]:
  "((case x of Inl e \<Rightarrow> Inl e | Inr a \<Rightarrow> f a) = Inl e') \<longleftrightarrow>
     (x = Inl e' \<or> (\<exists>a. x = Inr a \<and> f a = Inl e'))"
  by (cases x) auto

subsection \<open>Lemmas on the strings helpers\<close>

lemma HasPrefix_iff: "HasPrefix s p \<longleftrightarrow> (\<exists>r. s = p @ r)"
proof
  assume "HasPrefix s p"
  then have "s = p @ drop (length p) s"
    unfolding HasPrefix_def by (metis append_take_drop_id)
  then show "\<exists>r. s = p @ r" by blast
next
  assume "\<exists>r. s = p @ r"
  then show "HasPrefix s p" by (auto simp: HasPrefix_def)
qed

lemma HasPrefix_append [go_simps]: "HasPrefix (p @ r) p"
  by (simp add: HasPrefix_iff)

lemma HasSuffix_iff: "HasSuffix s p \<longleftrightarrow> (\<exists>r. s = r @ p)"
proof
  assume "HasSuffix s p"
  then have "s = take (length s - length p) s @ p"
    unfolding HasSuffix_def by (metis append_take_drop_id)
  then show "\<exists>r. s = r @ p" by blast
next
  assume "\<exists>r. s = r @ p"
  then show "HasSuffix s p" by (auto simp: HasSuffix_def)
qed

lemma TrimPrefix_append [go_simps]: "TrimPrefix (p @ r) p = r"
  by (simp add: TrimPrefix_def HasPrefix_append)

lemma TrimSuffix_append [go_simps]: "TrimSuffix (r @ p) p = r"
  by (auto simp: TrimSuffix_def HasSuffix_iff)

lemma TrimPrefix_not [go_simps]: "\<not> HasPrefix s p \<Longrightarrow> TrimPrefix s p = s"
  by (simp add: TrimPrefix_def)

lemma TrimSuffix_not [go_simps]: "\<not> HasSuffix s p \<Longrightarrow> TrimSuffix s p = s"
  by (simp add: TrimSuffix_def)

subsection \<open>Lemmas on lists searched by a key\<close>

text \<open>
  The stores of the model keep records in a list, searched with \<open>find\<close> on a key that
  increases strictly along the list (creation order), so the key identifies a record.
\<close>

lemma find_map: "find P (map f xs) = map_option f (find (P \<circ> f) xs)"
  by (induction xs) auto

lemma find_Some_in: "find P xs = Some x \<Longrightarrow> x \<in> set xs \<and> P x"
  by (induction xs) (auto split: if_splits)

lemma find_None_not: "find P xs = None \<Longrightarrow> x \<in> set xs \<Longrightarrow> \<not> P x"
  by (induction xs) (auto split: if_splits)

lemma find_append: "find P (xs @ ys) = (case find P xs of None \<Rightarrow> find P ys | Some x \<Rightarrow> Some x)"
  by (induction xs) auto

lemma sorted_key_unique:
  "sorted_wrt (<) (map f xs) \<Longrightarrow> x \<in> set xs \<Longrightarrow> y \<in> set xs \<Longrightarrow> f x = (f y :: nat) \<Longrightarrow> x = y"
  by (induction xs) auto

lemma find_key_Some_iff:
  assumes "sorted_wrt (<) (map f xs)"
  shows "find (\<lambda>r. f r = (k :: nat)) xs = Some x \<longleftrightarrow> x \<in> set xs \<and> f x = k"
proof
  assume "find (\<lambda>r. f r = k) xs = Some x"
  then show "x \<in> set xs \<and> f x = k" by (auto dest: find_Some_in)
next
  assume x: "x \<in> set xs \<and> f x = k"
  show "find (\<lambda>r. f r = k) xs = Some x"
  proof (cases "find (\<lambda>r. f r = k) xs")
    case None
    with x show ?thesis by (auto dest: find_None_not)
  next
    case (Some y)
    then have "y \<in> set xs \<and> f y = k" by (auto dest: find_Some_in)
    with x assms have "y = x" by (auto intro: sorted_key_unique)
    with Some show ?thesis by simp
  qed
qed

lemma find_rev_max:
  assumes "find P (rev xs) = Some x" and "sorted_wrt (<) (map f xs)"
    and "y \<in> set xs" and "P y"
  shows "f y \<le> (f x :: nat)"
  using assms
proof (induction xs rule: rev_induct)
  case Nil
  then show ?case by simp
next
  case (snoc a xs)
  show ?case
  proof (cases "P a")
    case True
    with snoc.prems(1) have "x = a" by simp
    with snoc.prems(2,3) show ?thesis by (auto simp: sorted_wrt_append less_imp_le)
  next
    case False
    with snoc.prems have "find P (rev xs) = Some x" and "y \<in> set xs"
      by auto
    with snoc.IH snoc.prems(2,4) show ?thesis by (simp add: sorted_wrt_append)
  qed
qed

end
