(* ===== verification/Models.thy ===== *)
theory Models
  imports Prelude
begin

text \<open>
  The persisted entities the orchestrator reads and writes (the \<open>models\<close> packages of
  pipelineruns, clusters, applications, environment regions and template releases) and
  the manager interfaces through which the controllers reach them. The model packages
  are not part of the sources; their fields are the ones the controllers use, with the
  types the spec gives (section 3). The run status carries the partial order of the
  spec, \<open>Created < Pending < Running < {Ok, Failed, Cancelled}\<close>, as an instance of
  the library's \<open>order\<close> class.
\<close>

subsection \<open>Pipelinerun\<close>

datatype action = ActionBuildDeploy | ActionDeploy | ActionRestart | ActionRollback

text \<open>\<open>%v\<close> of an action prints its string constant.\<close>

fun action_str :: "action \<Rightarrow> string" where
  "action_str ActionBuildDeploy = ''builddeploy''"
| "action_str ActionDeploy = ''deploy''"
| "action_str ActionRestart = ''restart''"
| "action_str ActionRollback = ''rollback''"

datatype pipeline_status =
    StatusCreated | StatusPending | StatusRunning | StatusOK | StatusFailed | StatusCancelled

fun status_rank :: "pipeline_status \<Rightarrow> nat" where
  "status_rank StatusCreated = 0"
| "status_rank StatusPending = 1"
| "status_rank StatusRunning = 2"
| "status_rank _ = 3"

definition is_terminal :: "pipeline_status \<Rightarrow> bool" where
  "is_terminal s \<longleftrightarrow> status_rank s = 3"

instantiation pipeline_status :: order
begin

definition less_eq_pipeline_status :: "pipeline_status \<Rightarrow> pipeline_status \<Rightarrow> bool" where
  "less_eq_pipeline_status a b \<longleftrightarrow> a = b \<or> status_rank a < status_rank b"

definition less_pipeline_status :: "pipeline_status \<Rightarrow> pipeline_status \<Rightarrow> bool" where
  "less_pipeline_status a b \<longleftrightarrow> status_rank a < status_rank b"

instance
proof
  fix x y z :: pipeline_status
  show "(x < y) = (x \<le> y \<and> \<not> y \<le> x)"
    by (auto simp: less_eq_pipeline_status_def less_pipeline_status_def)
  show "x \<le> x"
    by (simp add: less_eq_pipeline_status_def)
  show "x \<le> y \<Longrightarrow> y \<le> z \<Longrightarrow> x \<le> z"
    by (auto simp: less_eq_pipeline_status_def)
  show "x \<le> y \<Longrightarrow> y \<le> x \<Longrightarrow> x = y"
    by (auto simp: less_eq_pipeline_status_def)
qed

end

text \<open>
  One execution attempt (\<open>prmodels.Pipelinerun\<close>). The position of a run in the
  store's list is its creation order, which stands for \<open>created_at\<close>.
\<close>

record pipelinerun =
  pr_ID :: nat
  pr_ClusterID :: nat
  pr_Action :: action
  pr_Status :: pipeline_status
  pr_GitURL :: string
  pr_GitBranch :: string
  pr_GitCommit :: string
  pr_LastConfigCommit :: string
  pr_ConfigCommit :: string
  pr_PrObject :: string
  pr_CIEventID :: string
  pr_Result :: string

subsection \<open>Cluster, application, environment region, template release\<close>

record cluster =
  cluster_ID :: nat
  cluster_Name :: string
  cluster_ApplicationID :: nat
  cluster_EnvironmentRegionID :: nat
  cluster_Template :: string
  cluster_TemplateRelease :: string

record application =
  app_ID :: nat
  app_Name :: string

record environment_region =
  er_ID :: nat
  er_EnvironmentName :: string

record template_release =
  tr_TemplateName :: string
  tr_Name :: string
  tr_GitlabName :: string
  tr_GitlabProject :: string

subsection \<open>Manager interfaces\<close>

text \<open>
  A Go interface the controllers hold is a record of functions; a nil interface
  value is \<open>None\<close> where the code can leave a field unset. The pipelinerun manager's
  interface is implemented over the run store in theory \<open>PipelineRun\<close>.
\<close>

record pr_manager =
  prm_GetByID :: "nat \<Rightarrow> pipelinerun result"
  prm_GetLatestByClusterIDAndActions :: "nat \<Rightarrow> action list \<Rightarrow> pipelinerun option result"

type_synonym cluster_get = "nat \<Rightarrow> cluster result"
type_synonym application_get = "nat \<Rightarrow> application result"
type_synonym env_region_get = "nat \<Rightarrow> environment_region result"

lemma status_le_rank: "a \<le> b \<Longrightarrow> status_rank a \<le> status_rank b"
  by (auto simp: less_eq_pipeline_status_def)

lemma terminal_le_eq: "is_terminal a \<Longrightarrow> a \<le> b \<Longrightarrow> b = a"
proof -
  assume t: "is_terminal a" and le: "a \<le> b"
  have "status_rank b \<le> 3" by (cases b) auto
  with t le show "b = a"
    by (auto simp: is_terminal_def less_eq_pipeline_status_def)
qed

end
