(* ===== verification/PipelineRun.thy ===== *)
theory PipelineRun
  imports Models
begin

text \<open>
  The pipeline run state tracker: \<open>pkg/pipelinerun/manager/manager.go\<close> and the DAO it
  delegates every call to. The DAO (\<open>pkg/pipelinerun/dao\<close>) is not part of the sources,
  so its operations follow the spec's contract (sections 4.1 and 6): the store keeps the
  runs in creation order and hands out fresh identities; \<open>Create\<close> refuses a second
  in-flight run of the same action on a cluster; \<open>UpdateStatusByID\<close> refuses a status
  regression with \<open>ErrInvalidTransition\<close> and leaves the store as it was; the
  \<open>GetLatest\<close> queries return the newest matching run, and \<open>None\<close> (no error) when
  there is none. The manager itself is a dispatch of each operation to the DAO, modelled
  as a datatype of the state-changing operations and one step function.
\<close>

record pr_store =
  runs :: "pipelinerun list"
  next_id :: nat

definition empty_store :: pr_store where
  "empty_store = \<lparr>runs = [], next_id = 1\<rparr>"

subsection \<open>DAO operations\<close>

definition find_run :: "pr_store \<Rightarrow> nat \<Rightarrow> pipelinerun option" where
  "find_run st i = find (\<lambda>r. pr_ID r = i) (runs st)"

definition update_run :: "nat \<Rightarrow> (pipelinerun \<Rightarrow> pipelinerun) \<Rightarrow> pr_store \<Rightarrow> pr_store" where
  "update_run i f st = st\<lparr>runs := map (\<lambda>r. if pr_ID r = i then f r else r) (runs st)\<rparr>"

definition dao_Create :: "pipelinerun \<Rightarrow> pr_store \<Rightarrow> (pipelinerun \<times> pr_store) result" where
  "dao_Create pr st =
     (if (\<exists>r \<in> set (runs st). pr_ClusterID r = pr_ClusterID pr \<and> pr_Action r = pr_Action pr
                             \<and> \<not> is_terminal (pr_Status r))
      then Inl ErrConflict
      else (let r = pr\<lparr>pr_ID := next_id st, pr_Status := StatusCreated\<rparr>
            in Inr (r, st\<lparr>runs := runs st @ [r], next_id := Suc (next_id st)\<rparr>)))"

definition dao_GetByID :: "pr_store \<Rightarrow> nat \<Rightarrow> pipelinerun result" where
  "dao_GetByID st i =
     (case find_run st i of None \<Rightarrow> Inl (Wrapf ErrNotFound ''pipelinerun'') | Some r \<Rightarrow> Inr r)"

definition dao_GetByCIEventID :: "pr_store \<Rightarrow> string \<Rightarrow> pipelinerun result" where
  "dao_GetByCIEventID st e =
     (case find (\<lambda>r. pr_CIEventID r = e) (runs st) of
        None \<Rightarrow> Inl (Wrapf ErrNotFound ''pipelinerun'') | Some r \<Rightarrow> Inr r)"

definition dao_UpdateStatusByID :: "nat \<Rightarrow> pipeline_status \<Rightarrow> pr_store \<Rightarrow> pr_store result" where
  "dao_UpdateStatusByID i s st =
     (case find_run st i of
        None \<Rightarrow> Inl (Wrapf ErrNotFound ''pipelinerun'')
      | Some r \<Rightarrow> if pr_Status r \<le> s then Inr (update_run i (\<lambda>r. r\<lparr>pr_Status := s\<rparr>) st)
                 else Inl ErrInvalidTransition)"

definition dao_UpdateConfigCommitByID :: "nat \<Rightarrow> string \<Rightarrow> pr_store \<Rightarrow> pr_store result" where
  "dao_UpdateConfigCommitByID i c st = Inr (update_run i (\<lambda>r. r\<lparr>pr_ConfigCommit := c\<rparr>) st)"

definition dao_UpdateCIEventIDByID :: "nat \<Rightarrow> string \<Rightarrow> pr_store \<Rightarrow> pr_store result" where
  "dao_UpdateCIEventIDByID i e st = Inr (update_run i (\<lambda>r. r\<lparr>pr_CIEventID := e\<rparr>) st)"

definition dao_UpdateResultByID :: "nat \<Rightarrow> string \<Rightarrow> pr_store \<Rightarrow> pr_store result" where
  "dao_UpdateResultByID i res st = Inr (update_run i (\<lambda>r. r\<lparr>pr_Result := res\<rparr>) st)"

definition dao_DeleteByID :: "nat \<Rightarrow> pr_store \<Rightarrow> pr_store result" where
  "dao_DeleteByID i st = Inr (st\<lparr>runs := filter (\<lambda>r. pr_ID r \<noteq> i) (runs st)\<rparr>)"

definition dao_DeleteByClusterID :: "nat \<Rightarrow> pr_store \<Rightarrow> pr_store result" where
  "dao_DeleteByClusterID c st = Inr (st\<lparr>runs := filter (\<lambda>r. pr_ClusterID r \<noteq> c) (runs st)\<rparr>)"

definition dao_GetLatestByClusterIDAndActions ::
  "pr_store \<Rightarrow> nat \<Rightarrow> action list \<Rightarrow> pipelinerun option result" where
  "dao_GetLatestByClusterIDAndActions st c acts =
     Inr (find (\<lambda>r. pr_ClusterID r = c \<and> pr_Action r \<in> set acts) (rev (runs st)))"

definition dao_GetLatestByClusterIDAndActionAndStatus ::
  "pr_store \<Rightarrow> nat \<Rightarrow> action \<Rightarrow> pipeline_status \<Rightarrow> pipelinerun option result" where
  "dao_GetLatestByClusterIDAndActionAndStatus st c a s =
     Inr (find (\<lambda>r. pr_ClusterID r = c \<and> pr_Action r = a \<and> pr_Status r = s) (rev (runs st)))"

definition dao_GetLatestSuccessByClusterID :: "pr_store \<Rightarrow> nat \<Rightarrow> pipelinerun option result" where
  "dao_GetLatestSuccessByClusterID st c =
     Inr (find (\<lambda>r. pr_ClusterID r = c \<and> pr_Status r = StatusOK) (rev (runs st)))"

subsection \<open>The manager\<close>

text \<open>
  The state-changing methods of \<open>manager.Manager\<close>, one constructor each, and the
  manager's dispatch of each to its DAO call. \<open>Create\<close> also returns the stored run;
  \<open>manager_step\<close> keeps only the new store.
\<close>

datatype pr_op =
    Create pipelinerun
  | UpdateStatusByID nat pipeline_status
  | UpdateConfigCommitByID nat string
  | UpdateCIEventIDByID nat string
  | UpdateResultByID nat string
  | DeleteByID nat
  | DeleteByClusterID nat

fun manager_step :: "pr_op \<Rightarrow> pr_store \<Rightarrow> pr_store result" where
  "manager_step (Create pr) st = map_sum id snd (dao_Create pr st)"
| "manager_step (UpdateStatusByID i s) st = dao_UpdateStatusByID i s st"
| "manager_step (UpdateConfigCommitByID i c) st = dao_UpdateConfigCommitByID i c st"
| "manager_step (UpdateCIEventIDByID i e) st = dao_UpdateCIEventIDByID i e st"
| "manager_step (UpdateResultByID i res) st = dao_UpdateResultByID i res st"
| "manager_step (DeleteByID i) st = dao_DeleteByID i st"
| "manager_step (DeleteByClusterID c) st = dao_DeleteByClusterID c st"

text \<open>
  A sequence of calls; a call that fails leaves the store as it was (the DAO does not
  write on an error) and the sequence goes on, as independent requests do.
\<close>

definition manager_apply :: "pr_op \<Rightarrow> pr_store \<Rightarrow> pr_store" where
  "manager_apply op st = (case manager_step op st of Inl _ \<Rightarrow> st | Inr st' \<Rightarrow> st')"

fun manager_run :: "pr_op list \<Rightarrow> pr_store \<Rightarrow> pr_store" where
  "manager_run [] st = st"
| "manager_run (op # ops) st = manager_run ops (manager_apply op st)"

text \<open>The read side of the manager, as the interface the controllers hold.\<close>

definition prMgr_of :: "pr_store \<Rightarrow> pr_manager" where
  "prMgr_of st = \<lparr>prm_GetByID = dao_GetByID st,
                  prm_GetLatestByClusterIDAndActions = dao_GetLatestByClusterIDAndActions st\<rparr>"

text \<open>
  The read methods of \<open>manager.Manager\<close>, one constructor each, and their dispatch to
  the DAO: a run, or a run pointer that is \<open>nil\<close> (\<open>None\<close>) when no run matches.
  \<open>GetByClusterID\<close> and \<open>GetFirstCanRollbackPipelinerun\<close> are not modelled: their
  paging (\<open>q.Query\<close>) and rollback filter are not in the sources or the spec.
\<close>

datatype pr_query =
    QGetByID nat
  | QGetByCIEventID string
  | QGetLatestByClusterIDAndActions nat "action list"
  | QGetLatestSuccessByClusterID nat
  | QGetLatestByClusterIDAndActionAndStatus nat action pipeline_status

datatype pr_answer = ARun pipelinerun | ARunOpt "pipelinerun option"

text \<open>\<open>GetLatestByClusterIDAndActionAndStatus\<close>, declared last in \<open>manager.go\<close>.\<close>

definition mgr_GetLatestByClusterIDAndActionAndStatus ::
  "pr_store \<Rightarrow> nat \<Rightarrow> action \<Rightarrow> pipeline_status \<Rightarrow> pipelinerun option result" where
  "mgr_GetLatestByClusterIDAndActionAndStatus st clusterID action status =
     dao_GetLatestByClusterIDAndActionAndStatus st clusterID action status"

fun manager_query :: "pr_query \<Rightarrow> pr_store \<Rightarrow> pr_answer result" where
  "manager_query (QGetByID i) st = map_sum id ARun (dao_GetByID st i)"
| "manager_query (QGetByCIEventID e) st = map_sum id ARun (dao_GetByCIEventID st e)"
| "manager_query (QGetLatestByClusterIDAndActions c acts) st =
     map_sum id ARunOpt (dao_GetLatestByClusterIDAndActions st c acts)"
| "manager_query (QGetLatestSuccessByClusterID c) st =
     map_sum id ARunOpt (dao_GetLatestSuccessByClusterID st c)"
| "manager_query (QGetLatestByClusterIDAndActionAndStatus c a s) st =
     map_sum id ARunOpt (mgr_GetLatestByClusterIDAndActionAndStatus st c a s)"

text \<open>The filter each \<open>GetLatest\<close> query applies to the runs, newest first.\<close>

fun latest_filter :: "pr_query \<Rightarrow> (pipelinerun \<Rightarrow> bool) option" where
  "latest_filter (QGetLatestByClusterIDAndActions c acts) =
     Some (\<lambda>r. pr_ClusterID r = c \<and> pr_Action r \<in> set acts)"
| "latest_filter (QGetLatestSuccessByClusterID c) = Some (\<lambda>r. pr_ClusterID r = c \<and> pr_Status r = StatusOK)"
| "latest_filter (QGetLatestByClusterIDAndActionAndStatus c a s) =
     Some (\<lambda>r. pr_ClusterID r = c \<and> pr_Action r = a \<and> pr_Status r = s)"
| "latest_filter _ = None"

subsection \<open>Well-formedness\<close>

text \<open>
  Identities are distinct, increase along the creation order, and stay below the next
  identity to hand out, so that an identity is never reused after a delete.
\<close>

definition pr_store_wf :: "pr_store \<Rightarrow> bool" where
  "pr_store_wf st \<longleftrightarrow> sorted_wrt (<) (map pr_ID (runs st)) \<and> (\<forall>r \<in> set (runs st). pr_ID r < next_id st)"

text \<open>The status each identity has in a store, as a map.\<close>

definition status_of :: "pr_store \<Rightarrow> nat \<Rightarrow> pipeline_status option" where
  "status_of st i = map_option pr_Status (find_run st i)"

text \<open>A build-deploy run of cluster 7, used by the witnesses below.\<close>

definition demo_run :: pipelinerun where
  "demo_run = \<lparr>pr_ID = 0, pr_ClusterID = 7, pr_Action = ActionBuildDeploy,
     pr_Status = StatusCreated, pr_GitURL = ''ssh://git@host/app.git'', pr_GitBranch = ''main'',
     pr_GitCommit = ''c1'', pr_LastConfigCommit = ''k0'', pr_ConfigCommit = ''k1'',
     pr_PrObject = '''', pr_CIEventID = ''ev1'', pr_Result = ''''\<rparr>"

subsection \<open>Lemmas: the store operations\<close>

lemma find_run_Some_iff:
  "pr_store_wf st \<Longrightarrow> find_run st i = Some r \<longleftrightarrow> r \<in> set (runs st) \<and> pr_ID r = i"
  unfolding pr_store_wf_def find_run_def by (auto simp: find_key_Some_iff)

lemma pr_ID_upd:
  "(\<And>r. pr_ID (f r) = pr_ID r) \<Longrightarrow> pr_ID (if pr_ID r = i then f r else r) = pr_ID r"
  by simp

lemma next_id_update_run [simp]: "next_id (update_run i f st) = next_id st"
  by (simp add: update_run_def)

lemma update_run_set:
  "set (runs (update_run i f st)) = (\<lambda>r. if pr_ID r = i then f r else r) ` set (runs st)"
  by (simp add: update_run_def)

lemma update_run_wf:
  assumes "\<And>r. pr_ID (f r) = pr_ID r" and "pr_store_wf st"
  shows "pr_store_wf (update_run i f st)"
proof -
  have "sorted_wrt (<) (map pr_ID (runs (update_run i f st)))"
    using assms(2) by (simp add: update_run_def comp_def pr_store_wf_def pr_ID_upd [OF assms(1)])
  moreover have "\<forall>r' \<in> set (runs (update_run i f st)). pr_ID r' < next_id (update_run i f st)"
    using assms(2) by (auto simp: update_run_set pr_store_wf_def assms(1))
  ultimately show ?thesis by (simp add: pr_store_wf_def)
qed

lemma find_run_update_run:
  assumes "\<And>r. pr_ID (f r) = pr_ID r"
  shows "find_run (update_run i f st) j = map_option (\<lambda>r. if pr_ID r = i then f r else r) (find_run st j)"
  by (simp add: find_run_def update_run_def find_map comp_def pr_ID_upd [OF assms])

lemma filter_runs_wf:
  "pr_store_wf st \<Longrightarrow> pr_store_wf (st\<lparr>runs := filter P (runs st)\<rparr>)"
  by (auto simp: pr_store_wf_def sorted_wrt_map intro: sorted_wrt_filter)

lemma dao_Create_Inr:
  assumes "dao_Create pr st = Inr (r, st')"
  shows "r = pr\<lparr>pr_ID := next_id st, pr_Status := StatusCreated\<rparr>"
    and "st' = st\<lparr>runs := runs st @ [r], next_id := Suc (next_id st)\<rparr>"
  using assms by (auto simp: dao_Create_def Let_def split: if_splits)

lemma dao_Create_wf:
  assumes "dao_Create pr st = Inr (r, st')" and "pr_store_wf st"
  shows "pr_store_wf st'"
  using assms dao_Create_Inr [OF assms(1)]
  by (auto simp: pr_store_wf_def sorted_wrt_append)

lemma manager_step_cases:
  assumes "manager_step op st = Inr st'"
  obtains (create) pr r where "dao_Create pr st = Inr (r, st')"
  | (status) i s r where "find_run st i = Some r" "pr_Status r \<le> s"
      "st' = update_run i (\<lambda>r. r\<lparr>pr_Status := s\<rparr>) st"
  | (field) i f where "\<And>r. pr_ID (f r) = pr_ID r" "\<And>r. pr_Status (f r) = pr_Status r"
      "st' = update_run i f st"
  | (delete) P where "st' = st\<lparr>runs := filter P (runs st)\<rparr>"
proof (cases op)
  case (Create pr)
  with assms obtain r where "dao_Create pr st = Inr (r, st')"
    by (cases "dao_Create pr st") force+
  then show ?thesis by (rule that(1))
next
  case (UpdateStatusByID i s)
  with assms show ?thesis
    by (auto intro: that(2) simp: dao_UpdateStatusByID_def split: option.splits if_splits)
next
  case (UpdateConfigCommitByID i c)
  with assms show ?thesis
    by (auto intro: that(3) [of "\<lambda>r. r\<lparr>pr_ConfigCommit := c\<rparr>"] simp: dao_UpdateConfigCommitByID_def)
next
  case (UpdateCIEventIDByID i e)
  with assms show ?thesis
    by (auto intro: that(3) [of "\<lambda>r. r\<lparr>pr_CIEventID := e\<rparr>"] simp: dao_UpdateCIEventIDByID_def)
next
  case (UpdateResultByID i res)
  with assms show ?thesis
    by (auto intro: that(3) [of "\<lambda>r. r\<lparr>pr_Result := res\<rparr>"] simp: dao_UpdateResultByID_def)
next
  case (DeleteByID i)
  with assms show ?thesis by (auto intro: that(4) simp: dao_DeleteByID_def)
next
  case (DeleteByClusterID c)
  with assms show ?thesis by (auto intro: that(4) simp: dao_DeleteByClusterID_def)
qed

lemma manager_step_wf_helper:
  "pr_store_wf st \<Longrightarrow> manager_step op st = Inr st' \<Longrightarrow> pr_store_wf st'"
proof (erule manager_step_cases)
  show "\<And>pr r. pr_store_wf st \<Longrightarrow> dao_Create pr st = Inr (r, st') \<Longrightarrow> pr_store_wf st'"
    by (rule dao_Create_wf)
qed (auto intro: update_run_wf filter_runs_wf)

lemma manager_step_next_id:
  "manager_step op st = Inr st' \<Longrightarrow> next_id st \<le> next_id st'"
  by (erule manager_step_cases) (auto dest: dao_Create_Inr(2))

lemma manager_step_old_ids:
  assumes "manager_step op st = Inr st'" and "r' \<in> set (runs st')" and "pr_ID r' < next_id st"
  shows "\<exists>r \<in> set (runs st). pr_ID r = pr_ID r'"
  using assms(1)
proof (cases rule: manager_step_cases)
  case (create pr r)
  note eqs = dao_Create_Inr [OF create]
  with assms(2,3) show ?thesis by auto
next
  case (status i s r)
  with assms(2) show ?thesis by (auto simp: update_run_set)
next
  case (field i f)
  with assms(2) show ?thesis by (auto simp: update_run_set)
next
  case (delete P)
  with assms(2) show ?thesis by auto
qed

text \<open>One call never moves the status of a run backwards.\<close>

lemma manager_step_status_mono:
  assumes wf: "pr_store_wf st" and step: "manager_step op st = Inr st'"
    and r: "r \<in> set (runs st)" and r': "r' \<in> set (runs st')" and eq: "pr_ID r = pr_ID r'"
  shows "pr_Status r \<le> pr_Status r'"
  using step
proof (cases rule: manager_step_cases)
  case (create pr n)
  from wf r have "pr_ID r < next_id st" by (simp add: pr_store_wf_def)
  with r' eq dao_Create_Inr [OF create] have "r' \<in> set (runs st)" by auto
  with wf r eq have "r' = r" by (auto simp: pr_store_wf_def intro: sorted_key_unique)
  then show ?thesis by simp
next
  case (status i s r0)
  from r' status(3) obtain r1 where r1: "r1 \<in> set (runs st)"
    and r'_eq: "r' = (if pr_ID r1 = i then r1\<lparr>pr_Status := s\<rparr> else r1)"
    by (auto simp: update_run_set)
  with eq have "pr_ID r1 = pr_ID r" by (auto split: if_splits)
  with wf r r1 have r1r: "r1 = r" by (auto simp: pr_store_wf_def intro: sorted_key_unique)
  from wf status(1) have r0: "r0 \<in> set (runs st)" "pr_ID r0 = i"
    by (simp_all add: find_run_Some_iff)
  show ?thesis
  proof (cases "pr_ID r = i")
    case True
    with wf r r0 have "r0 = r" by (auto simp: pr_store_wf_def intro: sorted_key_unique)
    with True r'_eq r1r status(2) show ?thesis by simp
  next
    case False
    with r'_eq r1r show ?thesis by simp
  qed
next
  case (field i f)
  from r' field(3) obtain r1 where r1: "r1 \<in> set (runs st)"
    and r'_eq: "r' = (if pr_ID r1 = i then f r1 else r1)"
    by (auto simp: update_run_set)
  with eq field(1) have "pr_ID r1 = pr_ID r" by (auto split: if_splits)
  with wf r r1 have "r1 = r" by (auto simp: pr_store_wf_def intro: sorted_key_unique)
  with r'_eq field(2) show ?thesis by simp
next
  case (delete P)
  with r' have "r' \<in> set (runs st)" by simp
  with wf r eq have "r' = r" by (auto simp: pr_store_wf_def intro: sorted_key_unique)
  then show ?thesis by simp
qed

lemmas manager_step_facts =
  manager_step_wf_helper manager_step_next_id manager_step_old_ids manager_step_status_mono

lemma manager_apply_wf: "pr_store_wf st \<Longrightarrow> pr_store_wf (manager_apply op st)"
  by (auto simp: manager_apply_def intro: manager_step_wf_helper split: sum.splits)

lemma manager_apply_next_id: "next_id st \<le> next_id (manager_apply op st)"
  by (auto simp: manager_apply_def dest: manager_step_next_id split: sum.splits)

lemma manager_apply_old_ids:
  "r' \<in> set (runs (manager_apply op st)) \<Longrightarrow> pr_ID r' < next_id st \<Longrightarrow>
     \<exists>r \<in> set (runs st). pr_ID r = pr_ID r'"
  by (auto simp: manager_apply_def dest: manager_step_old_ids split: sum.splits)

lemma manager_apply_status_mono:
  "pr_store_wf st \<Longrightarrow> r \<in> set (runs st) \<Longrightarrow> r' \<in> set (runs (manager_apply op st)) \<Longrightarrow>
     pr_ID r = pr_ID r' \<Longrightarrow> pr_Status r \<le> pr_Status r'"
  by (auto simp: manager_apply_def dest: manager_step_status_mono
           split: sum.splits intro: sorted_key_unique)
     (metis pr_store_wf_def sorted_key_unique order_refl)

lemma manager_run_wf: "pr_store_wf st \<Longrightarrow> pr_store_wf (manager_run ops st)"
  by (induction ops arbitrary: st) (auto intro: manager_apply_wf)

lemma manager_run_next_id: "next_id st \<le> next_id (manager_run ops st)"
  by (induction ops arbitrary: st) (auto intro: order_trans [OF manager_apply_next_id])

lemma manager_run_old_ids:
  "r' \<in> set (runs (manager_run ops st)) \<Longrightarrow> pr_ID r' < next_id st \<Longrightarrow>
     \<exists>r \<in> set (runs st). pr_ID r = pr_ID r'"
proof (induction ops arbitrary: st)
  case Nil
  then show ?case by auto
next
  case (Cons op ops)
  have "next_id st \<le> next_id (manager_apply op st)" by (rule manager_apply_next_id)
  with Cons.prems obtain r1 where "r1 \<in> set (runs (manager_apply op st))" "pr_ID r1 = pr_ID r'"
    using Cons.IH by fastforce
  with Cons.prems(2) show ?case by (metis manager_apply_old_ids)
qed

lemma runs_find_run:
  "pr_store_wf st \<Longrightarrow> r \<in> set (runs st) \<Longrightarrow> find_run st (pr_ID r) = Some r"
  by (simp add: find_run_Some_iff)

lemma dao_GetLatest_Some:
  assumes "pr_store_wf st" and "dao_GetLatestByClusterIDAndActions st c acts = Inr (Some r)"
  shows "r \<in> set (runs st)" "pr_ClusterID r = c" "pr_Action r \<in> set acts"
    "\<And>r'. r' \<in> set (runs st) \<Longrightarrow> pr_ClusterID r' = c \<Longrightarrow> pr_Action r' \<in> set acts \<Longrightarrow> pr_ID r' \<le> pr_ID r"
proof -
  let ?P = "\<lambda>r. pr_ClusterID r = c \<and> pr_Action r \<in> set acts"
  from assms(2) have f: "find ?P (rev (runs st)) = Some r"
    by (simp add: dao_GetLatestByClusterIDAndActions_def)
  then show "r \<in> set (runs st)" "pr_ClusterID r = c" "pr_Action r \<in> set acts"
    by (auto dest: find_Some_in)
  show "pr_ID r' \<le> pr_ID r" if "r' \<in> set (runs st)" "pr_ClusterID r' = c" "pr_Action r' \<in> set acts" for r'
    using f assms(1) that by (auto simp: pr_store_wf_def intro: find_rev_max)
qed

text \<open>
  Every \<open>GetLatest\<close> read of the manager succeeds; it answers a run that passes its
  filter and has the greatest id among those that do, or \<open>None\<close> when none does.
\<close>

lemma manager_query_latest:
  assumes "pr_store_wf st" and "latest_filter q = Some P"
  shows "manager_query q st = Inr (ARunOpt (find P (rev (runs st))))"
    "find P (rev (runs st)) = Some r \<Longrightarrow>
       r \<in> set (runs st) \<and> P r \<and> (\<forall>r' \<in> set (runs st). P r' \<longrightarrow> pr_ID r' \<le> pr_ID r)"
    "find P (rev (runs st)) = None \<longleftrightarrow> (\<forall>r \<in> set (runs st). \<not> P r)"
proof -
  show "manager_query q st = Inr (ARunOpt (find P (rev (runs st))))"
    using assms(2)
    by (cases q) (auto simp: dao_GetLatestByClusterIDAndActions_def dao_GetLatestSuccessByClusterID_def
        dao_GetLatestByClusterIDAndActionAndStatus_def mgr_GetLatestByClusterIDAndActionAndStatus_def)
  show "r \<in> set (runs st) \<and> P r \<and> (\<forall>r' \<in> set (runs st). P r' \<longrightarrow> pr_ID r' \<le> pr_ID r)"
    if "find P (rev (runs st)) = Some r"
    using that assms(1) by (auto simp: pr_store_wf_def dest: find_Some_in intro: find_rev_max)
  show "find P (rev (runs st)) = None \<longleftrightarrow> (\<forall>r \<in> set (runs st). \<not> P r)"
    by (auto simp: find_None_iff)
qed

subsection \<open>Properties of the tracker\<close>

text \<open>
  C4. Status monotonicity (spec 3 and 8): along any sequence of manager calls, the
  status a run has at a later point is never below the status it had earlier, in the
  order \<open>Created < Pending < Running < {Ok, Failed, Cancelled}\<close>.
\<close>

theorem manager_run_status_mono:
  assumes wf: "pr_store_wf st" and r: "r \<in> set (runs st)"
    and r': "r' \<in> set (runs (manager_run ops st))" and eq: "pr_ID r = pr_ID r'"
  shows "pr_Status r \<le> pr_Status r'"
  using wf r r' eq
proof (induction ops arbitrary: st r)
  case Nil
  then have "r = r'" by (auto simp: pr_store_wf_def intro: sorted_key_unique)
  then show ?case by simp
next
  case (Cons op ops)
  let ?st1 = "manager_apply op st"
  from Cons.prems(1,2) have "pr_ID r < next_id st" by (simp add: pr_store_wf_def)
  also have "next_id st \<le> next_id ?st1" by (rule manager_apply_next_id)
  finally have "pr_ID r' < next_id ?st1" using Cons.prems(4) by simp
  with Cons.prems(3) obtain r1 where r1: "r1 \<in> set (runs ?st1)" "pr_ID r1 = pr_ID r'"
    by (auto dest: manager_run_old_ids)
  from Cons.prems(1,2) r1 Cons.prems(4) have "pr_Status r \<le> pr_Status r1"
    by (auto intro: manager_apply_status_mono)
  also from Cons.prems(1) r1 Cons.prems(3) have "pr_Status r1 \<le> pr_Status r'"
    by (auto intro: Cons.IH manager_apply_wf)
  finally show ?case .
qed

theorem manager_run_status_mono_witness:
  "let st = manager_run [Create demo_run] empty_store;
       r = demo_run\<lparr>pr_ID := 1\<rparr>;
       ops = [UpdateStatusByID 1 StatusRunning, UpdateStatusByID 1 StatusCreated];
       r' = demo_run\<lparr>pr_ID := 1, pr_Status := StatusRunning\<rparr>
   in pr_store_wf st \<and> r \<in> set (runs st) \<and> r' \<in> set (runs (manager_run ops st)) \<and>
      pr_ID r = pr_ID r' \<and> pr_Status r \<le> pr_Status r'"
proof -
  let ?st = "manager_run [Create demo_run] empty_store"
  let ?ops = "[UpdateStatusByID 1 StatusRunning, UpdateStatusByID 1 StatusCreated]"
  have st: "?st = \<lparr>runs = [demo_run\<lparr>pr_ID := 1\<rparr>], next_id = 2\<rparr>"
    by (simp add: manager_apply_def dao_Create_def empty_store_def demo_run_def Let_def)
  have wf: "pr_store_wf ?st" unfolding st by (simp add: pr_store_wf_def)
  have r: "demo_run\<lparr>pr_ID := 1\<rparr> \<in> set (runs ?st)" unfolding st by simp
  have r': "demo_run\<lparr>pr_ID := 1, pr_Status := StatusRunning\<rparr> \<in> set (runs (manager_run ?ops ?st))"
    unfolding st by (simp add: manager_apply_def dao_UpdateStatusByID_def find_run_def update_run_def
        demo_run_def less_eq_pipeline_status_def)
  show ?thesis
    using manager_run_status_mono [OF wf r r'] wf r r' by (simp add: demo_run_def)
qed

text \<open>
  C10. Identities are never reused: from a well-formed store, along any sequence of
  manager calls the store stays well formed, and an identity below the next one that
  no run of the store carries (its run was deleted) is never carried by a run again.
\<close>

theorem manager_run_ids_never_reused:
  assumes "pr_store_wf st" and "x < next_id st" and "x \<notin> pr_ID ` set (runs st)"
  shows "pr_store_wf (manager_run ops st) \<and> x \<notin> pr_ID ` set (runs (manager_run ops st))"
proof
  show "pr_store_wf (manager_run ops st)" by (rule manager_run_wf [OF assms(1)])
  show "x \<notin> pr_ID ` set (runs (manager_run ops st))"
  proof
    assume "x \<in> pr_ID ` set (runs (manager_run ops st))"
    then obtain r' where "r' \<in> set (runs (manager_run ops st))" "pr_ID r' = x" by blast
    with assms(2) obtain r where "r \<in> set (runs st)" "pr_ID r = x"
      using manager_run_old_ids by metis
    with assms(3) show False by blast
  qed
qed

text \<open>
  C12. A status regression is refused and retries are harmless (spec 4.1 and 7): when
  the run's status is not below or equal to the requested one, \<open>UpdateStatusByID\<close> fails
  with \<open>ErrInvalidTransition\<close> and the store is as before; and sending the same update
  twice leaves the store as sending it once, whether the first call succeeded or not.
\<close>

theorem UpdateStatusByID_retry:
  "manager_run [UpdateStatusByID i s, UpdateStatusByID i s] st = manager_run [UpdateStatusByID i s] st \<and>
   (\<forall>r. find_run st i = Some r \<longrightarrow> \<not> pr_Status r \<le> s \<longrightarrow>
        manager_step (UpdateStatusByID i s) st = Inl ErrInvalidTransition \<and>
        manager_run [UpdateStatusByID i s] st = st)"
proof (intro conjI allI impI)
  show "manager_run [UpdateStatusByID i s, UpdateStatusByID i s] st = manager_run [UpdateStatusByID i s] st"
  proof (cases "find_run st i")
    case None
    then show ?thesis by (simp add: manager_apply_def dao_UpdateStatusByID_def)
  next
    case (Some r)
    show ?thesis
    proof (cases "pr_Status r \<le> s")
      case True
      let ?f = "\<lambda>r. r\<lparr>pr_Status := s\<rparr>"
      from Some have "pr_ID r = i" by (auto simp: find_run_def dest: find_Some_in)
      with Some have "find_run (update_run i ?f st) i = Some (?f r)"
        by (simp add: find_run_update_run)
      moreover have "update_run i ?f (update_run i ?f st) = update_run i ?f st"
        by (simp add: update_run_def comp_def)
      ultimately show ?thesis using Some True
        by (simp add: manager_apply_def dao_UpdateStatusByID_def)
    next
      case False
      with Some show ?thesis by (simp add: manager_apply_def dao_UpdateStatusByID_def)
    qed
  qed

  fix r assume "find_run st i = Some r" and "\<not> pr_Status r \<le> s"
  then show "manager_step (UpdateStatusByID i s) st = Inl ErrInvalidTransition"
    and "manager_run [UpdateStatusByID i s] st = st"
    by (simp_all add: manager_apply_def dao_UpdateStatusByID_def)
qed

text \<open>
  C25. Create then look up (insert/lookup round trip): a successful \<open>Create\<close> stores
  the run in state \<open>Created\<close> under an identity no earlier run had, and
  \<open>GetByID\<close> on the new store returns exactly that run.
\<close>

theorem Create_GetByID:
  assumes "dao_Create pr st = Inr (r, st')" and "pr_store_wf st"
  shows "dao_GetByID st' (pr_ID r) = Inr r \<and> pr_Status r = StatusCreated \<and> find_run st (pr_ID r) = None"
proof -
  note eqs = dao_Create_Inr [OF assms(1)]
  have wf': "pr_store_wf st'" using assms by (rule dao_Create_wf)
  have "r \<in> set (runs st')" by (simp add: eqs)
  with wf' have "find_run st' (pr_ID r) = Some r" by (rule runs_find_run)
  moreover have "find_run st (pr_ID r) = None"
    using assms(2) by (auto simp: eqs find_run_def find_None_iff pr_store_wf_def)
  ultimately show ?thesis by (simp add: dao_GetByID_def eqs)
qed

theorem Create_GetByID_witness:
  "dao_Create demo_run empty_store = Inr (demo_run\<lparr>pr_ID := 1\<rparr>, \<lparr>runs = [demo_run\<lparr>pr_ID := 1\<rparr>], next_id = 2\<rparr>)
   \<and> pr_store_wf empty_store
   \<and> dao_GetByID \<lparr>runs = [demo_run\<lparr>pr_ID := 1\<rparr>], next_id = 2\<rparr> 1 = Inr (demo_run\<lparr>pr_ID := 1\<rparr>)"
proof -
  have c: "dao_Create demo_run empty_store =
      Inr (demo_run\<lparr>pr_ID := 1\<rparr>, \<lparr>runs = [demo_run\<lparr>pr_ID := 1\<rparr>], next_id = 2\<rparr>)"
    by (simp add: dao_Create_def empty_store_def demo_run_def Let_def)
  have wf: "pr_store_wf empty_store" by (simp add: pr_store_wf_def empty_store_def)
  from Create_GetByID [OF c wf] c wf show ?thesis by simp
qed

text \<open>
  \<open>GetLatestByClusterIDAndActions\<close> returns the newest run of the cluster with one
  of the actions: the run it returns matches the filter, and every matching run in the
  store was created no later than it (spec 4.1, "ordered by creation time descending").
\<close>

theorem GetLatest_newest:
  assumes "pr_store_wf st" and "dao_GetLatestByClusterIDAndActions st c acts = Inr (Some r)"
  shows "r \<in> set (runs st) \<and> pr_ClusterID r = c \<and> pr_Action r \<in> set acts \<and>
         (\<forall>r' \<in> set (runs st). pr_ClusterID r' = c \<and> pr_Action r' \<in> set acts \<longrightarrow> pr_ID r' \<le> pr_ID r)"
  using dao_GetLatest_Some [OF assms] by blast

theorem GetLatest_newest_witness:
  "let st = \<lparr>runs = [demo_run\<lparr>pr_ID := 1\<rparr>, demo_run\<lparr>pr_ID := 2, pr_Action := ActionRestart\<rparr>,
                     demo_run\<lparr>pr_ID := 3\<rparr>], next_id = 4\<rparr>
   in pr_store_wf st \<and> dao_GetLatestByClusterIDAndActions st 7 [ActionBuildDeploy] = Inr (Some (demo_run\<lparr>pr_ID := 3\<rparr>))
      \<and> pr_ID (demo_run\<lparr>pr_ID := 1\<rparr>) \<le> 3"
proof -
  let ?st = "\<lparr>runs = [demo_run\<lparr>pr_ID := 1\<rparr>, demo_run\<lparr>pr_ID := 2, pr_Action := ActionRestart\<rparr>,
                     demo_run\<lparr>pr_ID := 3\<rparr>], next_id = 4\<rparr>"
  have wf: "pr_store_wf ?st" by (simp add: pr_store_wf_def)
  have q: "dao_GetLatestByClusterIDAndActions ?st 7 [ActionBuildDeploy] = Inr (Some (demo_run\<lparr>pr_ID := 3\<rparr>))"
    by (simp add: dao_GetLatestByClusterIDAndActions_def demo_run_def)
  from GetLatest_newest [OF wf q] wf q show ?thesis by (simp add: Let_def)
qed

text \<open>
  "Not found" is not an error (spec 4.1): \<open>GetLatestByClusterIDAndActions\<close>
  always succeeds, and answers \<open>None\<close> exactly when no run of the cluster has one of
  the actions.
\<close>

lemma GetLatest_None:
  "dao_GetLatestByClusterIDAndActions st c acts = Inr None \<longleftrightarrow>
     filter (\<lambda>r. pr_ClusterID r = c \<and> pr_Action r \<in> set acts) (runs st) = []"
  by (auto simp: dao_GetLatestByClusterIDAndActions_def find_None_iff filter_empty_conv)

theorem manager_run_ids_never_reused_witness:
  "let st = \<lparr>runs = [], next_id = 2\<rparr> in
   pr_store_wf st \<and> (1::nat) < next_id st \<and> 1 \<notin> pr_ID ` set (runs st) \<and>
   pr_store_wf (manager_run [Create demo_run] st) \<and>
   1 \<notin> pr_ID ` set (runs (manager_run [Create demo_run] st))"
proof -
  let ?st = "\<lparr>runs = [], next_id = 2\<rparr>"
  have wf: "pr_store_wf ?st" by (simp add: pr_store_wf_def)
  have x: "(1::nat) < next_id ?st" "1 \<notin> pr_ID ` set (runs ?st)" by simp_all
  from manager_run_ids_never_reused [OF wf x, of "[Create demo_run]"] wf x
  show ?thesis by (simp add: Let_def)
qed

theorem UpdateStatusByID_retry_witness:
  "let st = \<lparr>runs = [demo_run\<lparr>pr_ID := 1, pr_Status := StatusOK\<rparr>], next_id = 2\<rparr> in
   find_run st 1 = Some (demo_run\<lparr>pr_ID := 1, pr_Status := StatusOK\<rparr>) \<and>
   \<not> pr_Status (demo_run\<lparr>pr_ID := 1, pr_Status := StatusOK\<rparr>) \<le> StatusRunning \<and>
   manager_step (UpdateStatusByID 1 StatusRunning) st = Inl ErrInvalidTransition \<and>
   manager_run [UpdateStatusByID 1 StatusRunning] st = st"
proof -
  let ?r = "demo_run\<lparr>pr_ID := 1, pr_Status := StatusOK\<rparr>"
  let ?st = "\<lparr>runs = [?r], next_id = 2\<rparr>"
  have f: "find_run ?st 1 = Some ?r" by (simp add: find_run_def)
  have n: "\<not> pr_Status ?r \<le> StatusRunning" by (simp add: less_eq_pipeline_status_def)
  from UpdateStatusByID_retry [of 1 StatusRunning ?st] f n show ?thesis by (simp add: Let_def)
qed

end
