(* ===== verification/PipelinerunController.thy ===== *)
theory PipelinerunController
  imports Models
begin

text \<open>
  The pipelinerun controller, \<open>core/controller/pipelinerun/controller.go\<close>: the log
  resolver (\<open>GetPrLog\<close>, \<open>GetClusterLatestLog\<close> and their shared \<open>getPrLog\<close>) and the
  drift calculator (\<open>GetDiff\<close>). The controller struct becomes a record whose fields
  are the interfaces it holds; an interface field the constructor leaves unset is
  \<open>None\<close>, and calling a method on it is the runtime panic Go raises for a nil
  interface. Every early \<open>return nil, err\<close> is an \<open>Inl\<close> branch, with the
  \<open>errors.E(op, err)\<close> wrapping where the code has it. A live log is the pair of
  channels the CI engine client opened, named by the identities that client returns;
  their later consumption and cancellation are outside the model.
\<close>

subsection \<open>Collaborators\<close>

record commit =
  commit_Message :: string

record commit_getter =
  GetCommit :: "string \<Rightarrow> string \<Rightarrow> commit result"

text \<open>\<open>CompareConfig(ctx, application, cluster, from, to)\<close>.\<close>

record cluster_git_repo =
  CompareConfig :: "string \<Rightarrow> string \<Rightarrow> string \<Rightarrow> string \<Rightarrow> string result"

type_synonym chan = nat

record tekton =
  GetPipelineRunLogByID :: "string \<Rightarrow> nat \<Rightarrow> nat \<Rightarrow> (chan \<times> chan) result"

record tekton_collector =
  GetLatestPipelineRunLog :: "string \<Rightarrow> string \<Rightarrow> bytes result"

record tekton_factory =
  GetTekton :: "string \<Rightarrow> tekton result"
  GetTektonCollector :: "string \<Rightarrow> tekton_collector result"

record controller =
  prMgr :: pr_manager
  clusterMgr :: cluster_get
  applicationMgr :: application_get
  envMgr :: env_region_get
  tektonFty :: tekton_factory
  commitGetter :: "commit_getter option"
  clusterGitRepo :: "cluster_git_repo option"

text \<open>
  \<open>NewController\<close> fills the managers from the package-level singletons (here its
  first four arguments) and the factory; it leaves \<open>commitGetter\<close> and
  \<open>clusterGitRepo\<close> unset.
\<close>

definition NewController ::
  "pr_manager \<Rightarrow> cluster_get \<Rightarrow> application_get \<Rightarrow> env_region_get \<Rightarrow> tekton_factory \<Rightarrow> controller" where
  "NewController prm cm am em fty =
     \<lparr>prMgr = prm, clusterMgr = cm, applicationMgr = am, envMgr = em, tektonFty = fty,
      commitGetter = None, clusterGitRepo = None\<rparr>"

definition nil_deref :: error where
  "nil_deref = Panic ''runtime error: invalid memory address or nil pointer dereference''"

definition call_GetCommit :: "commit_getter option \<Rightarrow> string \<Rightarrow> string \<Rightarrow> commit result" where
  "call_GetCommit g url c = (case g of None \<Rightarrow> Inl nil_deref | Some g \<Rightarrow> GetCommit g url c)"

definition call_CompareConfig ::
  "cluster_git_repo option \<Rightarrow> string \<Rightarrow> string \<Rightarrow> string \<Rightarrow> string \<Rightarrow> string result" where
  "call_CompareConfig r a cl f t = (case r of None \<Rightarrow> Inl nil_deref | Some r \<Rightarrow> CompareConfig r a cl f t)"

subsection \<open>Log resolver\<close>

text \<open>The \<open>Log\<close> struct: the two channels of a live log, or the bytes of an archived one.\<close>

record prlog =
  LogChannel :: "chan option"
  ErrChannel :: "chan option"
  LogBytes :: "bytes option"

definition op_getPrLog :: string where
  "op_getPrLog = ''pipeline controller: get pipelinerun log''"

definition op_GetPrLog :: string where
  "op_GetPrLog = ''pipelinerun controller: get pipelinerun log''"

definition op_GetClusterLatestLog :: string where
  "op_GetClusterLatestLog = ''pipelinerun controller: get cluster latest log''"

text \<open>
  \<open>getPrLog\<close>: an empty \<open>PrObject\<close> means the run is still held by the CI engine, and
  its log is read live from Tekton in the run's environment; otherwise the latest
  archived log of the (application, cluster) pair is read from the collector.
\<close>

definition getPrLog :: "controller \<Rightarrow> pipelinerun \<Rightarrow> cluster \<Rightarrow> string \<Rightarrow> string \<Rightarrow> prlog result" where
  "getPrLog c pr cl application environment =
     (if pr_PrObject pr = [] then
        (case GetTekton (tektonFty c) environment of
           Inl e \<Rightarrow> Inl (OpErr op_getPrLog e)
         | Inr tc \<Rightarrow>
             (case GetPipelineRunLogByID tc (cluster_Name cl) (cluster_ID cl) (pr_ID pr) of
                Inl e \<Rightarrow> Inl (OpErr op_getPrLog e)
              | Inr (logCh, errCh) \<Rightarrow>
                  Inr \<lparr>LogChannel = Some logCh, ErrChannel = Some errCh, LogBytes = None\<rparr>))
      else
        (case GetTektonCollector (tektonFty c) environment of
           Inl e \<Rightarrow> Inl (OpErr op_getPrLog e)
         | Inr col \<Rightarrow>
             (case GetLatestPipelineRunLog col application (cluster_Name cl) of
                Inl e \<Rightarrow> Inl (OpErr op_getPrLog e)
              | Inr logBytes \<Rightarrow> Inr \<lparr>LogChannel = None, ErrChannel = None, LogBytes = Some logBytes\<rparr>)))"

text \<open>
  Both entry points look up the run's cluster, its application and its environment
  region before calling \<open>getPrLog\<close>. \<open>GetPrLog\<close> refuses a run whose action is not
  build-deploy, and it tests this only after the three lookups.
\<close>

definition GetPrLog :: "controller \<Rightarrow> nat \<Rightarrow> prlog result" where
  "GetPrLog c prID =
     (case prm_GetByID (prMgr c) prID of
        Inl e \<Rightarrow> Inl (OpErr op_GetPrLog e)
      | Inr pr \<Rightarrow>
     (case clusterMgr c (pr_ClusterID pr) of
        Inl e \<Rightarrow> Inl (OpErr op_GetPrLog e)
      | Inr cl \<Rightarrow>
     (case applicationMgr c (cluster_ApplicationID cl) of
        Inl e \<Rightarrow> Inl (OpErr op_GetPrLog e)
      | Inr app \<Rightarrow>
     (case envMgr c (cluster_EnvironmentRegionID cl) of
        Inl e \<Rightarrow> Inl (OpErr op_GetPrLog e)
      | Inr er \<Rightarrow>
          if pr_Action pr \<noteq> ActionBuildDeploy
          then Inl (OpErr op_GetPrLog (Text (action_str (pr_Action pr) @ '' action has no log'')))
          else getPrLog c pr cl (app_Name app) (er_EnvironmentName er)))))"

definition GetClusterLatestLog :: "controller \<Rightarrow> nat \<Rightarrow> prlog result" where
  "GetClusterLatestLog c clusterID =
     (case prm_GetLatestByClusterIDAndActions (prMgr c) clusterID [ActionBuildDeploy] of
        Inl e \<Rightarrow> Inl (OpErr op_GetClusterLatestLog e)
      | Inr None \<Rightarrow> Inl (OpErr op_GetClusterLatestLog (Text ''no builddeploy pipelinerun''))
      | Inr (Some pr) \<Rightarrow>
     (case clusterMgr c clusterID of
        Inl e \<Rightarrow> Inl (OpErr op_GetClusterLatestLog e)
      | Inr cl \<Rightarrow>
     (case applicationMgr c (cluster_ApplicationID cl) of
        Inl e \<Rightarrow> Inl (OpErr op_GetClusterLatestLog e)
      | Inr app \<Rightarrow>
     (case envMgr c (cluster_EnvironmentRegionID cl) of
        Inl e \<Rightarrow> Inl (OpErr op_GetClusterLatestLog e)
      | Inr er \<Rightarrow> getPrLog c pr cl (app_Name app) (er_EnvironmentName er)))))"

subsection \<open>Drift calculator\<close>

record code_info =
  ci_Branch :: string
  ci_CommitID :: string
  ci_CommitMsg :: string
  ci_Link :: string

record config_diff =
  cd_From :: string
  cd_To :: string
  cd_Diff :: string

record diff_response =
  resp_CodeInfo :: "code_info option"
  resp_ConfigDiff :: "config_diff option"

text \<open>
  The internal Git host's constants and URL rewrite of package \<open>core/common\<close>, which
  this snapshot does not contain (spec 4.3: an internal SSH URL is rewritten to its HTTP
  form and a fixed history path is appended). They are parameters of the model.
\<close>

record git_conf =
  InternalGitSSHPrefix :: string
  CommitHistoryMiddle :: string
  InternalSSHToHTTPURL :: "string \<Rightarrow> string"

text \<open>Step 3 of \<open>GetDiff\<close>: the code half, when URL, commit and branch are all set.\<close>

definition get_code_diff :: "controller \<Rightarrow> git_conf \<Rightarrow> pipelinerun \<Rightarrow> code_info option result" where
  "get_code_diff c gc pr =
     (if pr_GitURL pr \<noteq> [] \<and> pr_GitCommit pr \<noteq> [] \<and> pr_GitBranch pr \<noteq> [] then
        (case call_GetCommit (commitGetter c) (pr_GitURL pr) (pr_GitCommit pr) of
           Inl e \<Rightarrow> Inl e
         | Inr cm \<Rightarrow>
             (let historyLink =
                (if HasPrefix (pr_GitURL pr) (InternalGitSSHPrefix gc)
                 then InternalSSHToHTTPURL gc (pr_GitURL pr) @ CommitHistoryMiddle gc @ pr_GitCommit pr
                 else [])
              in Inr (Some \<lparr>ci_Branch = pr_GitBranch pr, ci_CommitID = pr_GitCommit pr,
                            ci_CommitMsg = commit_Message cm, ci_Link = historyLink\<rparr>)))
      else Inr None)"

text \<open>Step 4 of \<open>GetDiff\<close>: the configuration half, when both config commits are set.\<close>

definition get_config_diff ::
  "controller \<Rightarrow> pipelinerun \<Rightarrow> application \<Rightarrow> cluster \<Rightarrow> config_diff option result" where
  "get_config_diff c pr app cl =
     (if pr_ConfigCommit pr \<noteq> [] \<and> pr_LastConfigCommit pr \<noteq> [] then
        (case call_CompareConfig (clusterGitRepo c) (app_Name app) (cluster_Name cl)
                (pr_LastConfigCommit pr) (pr_ConfigCommit pr) of
           Inl e \<Rightarrow> Inl e
         | Inr diff \<Rightarrow> Inr (Some \<lparr>cd_From = pr_LastConfigCommit pr, cd_To = pr_ConfigCommit pr,
                                   cd_Diff = diff\<rparr>))
      else Inr None)"

definition GetDiff :: "controller \<Rightarrow> git_conf \<Rightarrow> nat \<Rightarrow> diff_response result" where
  "GetDiff c gc pipelinerunID =
     (case prm_GetByID (prMgr c) pipelinerunID of
        Inl e \<Rightarrow> Inl e
      | Inr pr \<Rightarrow>
     (case clusterMgr c (pr_ClusterID pr) of
        Inl e \<Rightarrow> Inl e
      | Inr cl \<Rightarrow>
     (case applicationMgr c (cluster_ApplicationID cl) of
        Inl e \<Rightarrow> Inl e
      | Inr app \<Rightarrow>
     (case get_code_diff c gc pr of
        Inl e \<Rightarrow> Inl e
      | Inr codeDiff \<Rightarrow>
     (case get_config_diff c pr app cl of
        Inl e \<Rightarrow> Inl e
      | Inr configDiff \<Rightarrow> Inr \<lparr>resp_CodeInfo = codeDiff, resp_ConfigDiff = configDiff\<rparr>)))))"

subsection \<open>The controller interface\<close>

text \<open>
  The \<open>Controller\<close> interface, a record of its three methods, and the assertion
  \<open>var _ Controller = (*controller)(nil)\<close>: the methods of \<open>controller\<close> above are
  its implementation.
\<close>

record pr_Controller =
  Ctl_GetPrLog :: "nat \<Rightarrow> prlog result"
  Ctl_GetClusterLatestLog :: "nat \<Rightarrow> prlog result"
  Ctl_GetDiff :: "nat \<Rightarrow> diff_response result"

definition controller_Controller :: "controller \<Rightarrow> git_conf \<Rightarrow> pr_Controller" where
  "controller_Controller c gc =
     \<lparr>Ctl_GetPrLog = GetPrLog c, Ctl_GetClusterLatestLog = GetClusterLatestLog c,
      Ctl_GetDiff = GetDiff c gc\<rparr>"

subsection \<open>A concrete controller\<close>

text \<open>
  A controller over one run, used by the witnesses: cluster 7 of application 3 in
  environment \<open>test\<close>; the CI engine opens channels numbered after the run, the
  collector answers with the application and cluster names, the Git repository with the
  commit range.
\<close>

definition demo_cluster :: cluster where
  "demo_cluster = \<lparr>cluster_ID = 7, cluster_Name = ''c7'', cluster_ApplicationID = 3,
     cluster_EnvironmentRegionID = 2, cluster_Template = ''javaapp'', cluster_TemplateRelease = ''v1''\<rparr>"

definition demo_pr :: "string \<Rightarrow> action \<Rightarrow> pipelinerun" where
  "demo_pr obj a = \<lparr>pr_ID = 5, pr_ClusterID = 7, pr_Action = a, pr_Status = StatusRunning,
     pr_GitURL = ''ssh://git@host/app.git'', pr_GitBranch = ''main'', pr_GitCommit = ''c1'',
     pr_LastConfigCommit = ''k0'', pr_ConfigCommit = ''k1'', pr_PrObject = obj,
     pr_CIEventID = [], pr_Result = []\<rparr>"

definition demo_prMgr :: "pipelinerun \<Rightarrow> pr_manager" where
  "demo_prMgr pr = \<lparr>prm_GetByID = (\<lambda>i. if i = pr_ID pr then Inr pr else Inl ErrNotFound),
     prm_GetLatestByClusterIDAndActions = (\<lambda>c acts.
        Inr (if pr_ClusterID pr = c \<and> pr_Action pr \<in> set acts then Some pr else None))\<rparr>"

definition demo_clusterMgr :: cluster_get where
  "demo_clusterMgr i = (if i = 7 then Inr demo_cluster else Inl ErrNotFound)"

definition demo_fty :: tekton_factory where
  "demo_fty = \<lparr>GetTekton = (\<lambda>env. Inr \<lparr>GetPipelineRunLogByID = (\<lambda>cn cid pid. Inr (pid, Suc pid))\<rparr>),
     GetTektonCollector = (\<lambda>env. Inr \<lparr>GetLatestPipelineRunLog = (\<lambda>a cn. Inr (a @ ''/'' @ cn))\<rparr>)\<rparr>"

definition demo_controller :: "pipelinerun \<Rightarrow> cluster_get \<Rightarrow> controller" where
  "demo_controller pr cm = \<lparr>prMgr = demo_prMgr pr, clusterMgr = cm,
     applicationMgr = (\<lambda>i. Inr \<lparr>app_ID = i, app_Name = ''app''\<rparr>),
     envMgr = (\<lambda>i. Inr \<lparr>er_ID = i, er_EnvironmentName = ''test''\<rparr>),
     tektonFty = demo_fty,
     commitGetter = Some \<lparr>GetCommit = (\<lambda>u c. Inr \<lparr>commit_Message = ''fix''\<rparr>)\<rparr>,
     clusterGitRepo = Some \<lparr>CompareConfig = (\<lambda>a cn f t. Inr (f @ ''..'' @ t))\<rparr>\<rparr>"

definition demo_git_conf :: git_conf where
  "demo_git_conf = \<lparr>InternalGitSSHPrefix = ''ssh://git@host'', CommitHistoryMiddle = ''/-/commits/'',
     InternalSSHToHTTPURL = (\<lambda>u. ''https://host'' @ TrimSuffix (TrimPrefix u ''ssh://git@host'') ''.git'')\<rparr>"

subsection \<open>Lemmas: unfolding the handlers\<close>

lemma getPrLog_Inr:
  assumes "getPrLog c pr cl a env = Inr l"
  shows "(pr_PrObject pr = [] \<and> (\<exists>tc lc ec. GetTekton (tektonFty c) env = Inr tc \<and>
            GetPipelineRunLogByID tc (cluster_Name cl) (cluster_ID cl) (pr_ID pr) = Inr (lc, ec) \<and>
            l = \<lparr>LogChannel = Some lc, ErrChannel = Some ec, LogBytes = None\<rparr>)) \<or>
         (pr_PrObject pr \<noteq> [] \<and> (\<exists>col b. GetTektonCollector (tektonFty c) env = Inr col \<and>
            GetLatestPipelineRunLog col a (cluster_Name cl) = Inr b \<and>
            l = \<lparr>LogChannel = None, ErrChannel = None, LogBytes = Some b\<rparr>))"
  using assms by (auto simp: getPrLog_def split: if_splits sum.splits prod.splits)

lemma GetPrLog_found:
  assumes "prm_GetByID (prMgr c) i = Inr pr" "clusterMgr c (pr_ClusterID pr) = Inr cl"
    "applicationMgr c (cluster_ApplicationID cl) = Inr app"
    "envMgr c (cluster_EnvironmentRegionID cl) = Inr er"
  shows "GetPrLog c i =
    (if pr_Action pr \<noteq> ActionBuildDeploy
     then Inl (OpErr op_GetPrLog (Text (action_str (pr_Action pr) @ '' action has no log'')))
     else getPrLog c pr cl (app_Name app) (er_EnvironmentName er))"
  using assms by (simp add: GetPrLog_def)

lemma GetPrLog_Inr:
  assumes "GetPrLog c i = Inr l"
  obtains pr cl app er where "prm_GetByID (prMgr c) i = Inr pr"
    "clusterMgr c (pr_ClusterID pr) = Inr cl" "applicationMgr c (cluster_ApplicationID cl) = Inr app"
    "envMgr c (cluster_EnvironmentRegionID cl) = Inr er" "pr_Action pr = ActionBuildDeploy"
    "getPrLog c pr cl (app_Name app) (er_EnvironmentName er) = Inr l"
  using assms by (auto simp: GetPrLog_def split: sum.splits if_splits)

lemma GetDiff_Inr:
  assumes "GetDiff c gc i = Inr d"
  obtains pr cl app where "prm_GetByID (prMgr c) i = Inr pr"
    "clusterMgr c (pr_ClusterID pr) = Inr cl" "applicationMgr c (cluster_ApplicationID cl) = Inr app"
    "get_code_diff c gc pr = Inr (resp_CodeInfo d)" "get_config_diff c pr app cl = Inr (resp_ConfigDiff d)"
  using assms by (auto simp: GetDiff_def split: sum.splits)

lemma get_code_diff_Some:
  assumes "get_code_diff c gc pr = Inr (Some ci)"
  shows "pr_GitURL pr \<noteq> [] \<and> pr_GitCommit pr \<noteq> [] \<and> pr_GitBranch pr \<noteq> [] \<and>
         (\<exists>cm. call_GetCommit (commitGetter c) (pr_GitURL pr) (pr_GitCommit pr) = Inr cm \<and>
               ci = \<lparr>ci_Branch = pr_GitBranch pr, ci_CommitID = pr_GitCommit pr,
                     ci_CommitMsg = commit_Message cm,
                     ci_Link = (if HasPrefix (pr_GitURL pr) (InternalGitSSHPrefix gc)
                                then InternalSSHToHTTPURL gc (pr_GitURL pr) @ CommitHistoryMiddle gc @ pr_GitCommit pr
                                else [])\<rparr>)"
  using assms by (auto simp: get_code_diff_def Let_def split: if_splits sum.splits)

lemma get_code_diff_None:
  "get_code_diff c gc pr = Inr None \<longleftrightarrow> \<not> (pr_GitURL pr \<noteq> [] \<and> pr_GitCommit pr \<noteq> [] \<and> pr_GitBranch pr \<noteq> [])"
  by (auto simp: get_code_diff_def Let_def split: sum.splits)

lemma get_config_diff_Some:
  assumes "get_config_diff c pr app cl = Inr (Some cd)"
  shows "pr_ConfigCommit pr \<noteq> [] \<and> pr_LastConfigCommit pr \<noteq> [] \<and>
         call_CompareConfig (clusterGitRepo c) (app_Name app) (cluster_Name cl)
            (pr_LastConfigCommit pr) (pr_ConfigCommit pr) = Inr (cd_Diff cd) \<and>
         cd_From cd = pr_LastConfigCommit pr \<and> cd_To cd = pr_ConfigCommit pr"
  using assms by (auto simp: get_config_diff_def split: if_splits sum.splits)

lemma get_config_diff_None:
  "get_config_diff c pr app cl = Inr None \<longleftrightarrow> \<not> (pr_ConfigCommit pr \<noteq> [] \<and> pr_LastConfigCommit pr \<noteq> [])"
  by (auto simp: get_config_diff_def split: sum.splits)

lemma demo_lookups:
  "prm_GetByID (prMgr (demo_controller pr cm)) (pr_ID pr) = Inr pr"
  "applicationMgr (demo_controller pr cm) i = Inr \<lparr>app_ID = i, app_Name = ''app''\<rparr>"
  "envMgr (demo_controller pr cm) i = Inr \<lparr>er_ID = i, er_EnvironmentName = ''test''\<rparr>"
  "tektonFty (demo_controller pr cm) = demo_fty"
  "clusterMgr (demo_controller pr cm) = cm"
  by (simp_all add: demo_controller_def demo_prMgr_def)

subsection \<open>Properties of the log resolver\<close>

text \<open>
  C7. Live and archived logs exclude each other (spec 8): when \<open>GetPrLog\<close> returns a
  log for a run, it is a pair of live channels and no bytes exactly when the run's
  \<open>PrObject\<close> is empty, and bytes and no channels otherwise.
\<close>

theorem GetPrLog_live_or_archived:
  assumes "prm_GetByID (prMgr c) i = Inr pr" and "GetPrLog c i = Inr l"
  shows "(pr_PrObject pr = [] \<longrightarrow> LogBytes l = None \<and> LogChannel l \<noteq> None \<and> ErrChannel l \<noteq> None) \<and>
         (pr_PrObject pr \<noteq> [] \<longrightarrow> LogChannel l = None \<and> ErrChannel l = None \<and> LogBytes l \<noteq> None)"
proof -
  from assms(2) obtain pr' cl and app :: application and er :: environment_region where
    "prm_GetByID (prMgr c) i = Inr pr'" and log: "getPrLog c pr' cl (app_Name app) (er_EnvironmentName er) = Inr l"
    by (elim GetPrLog_Inr) blast
  with assms(1) have "pr' = pr" by simp
  with getPrLog_Inr [OF log] show ?thesis by auto
qed

theorem GetPrLog_live_or_archived_witness:
  "prm_GetByID (prMgr (demo_controller (demo_pr [] ActionBuildDeploy) demo_clusterMgr)) 5 = Inr (demo_pr [] ActionBuildDeploy)
   \<and> GetPrLog (demo_controller (demo_pr [] ActionBuildDeploy) demo_clusterMgr) 5 =
       Inr \<lparr>LogChannel = Some 5, ErrChannel = Some 6, LogBytes = None\<rparr>
   \<and> LogBytes \<lparr>LogChannel = Some (5::nat), ErrChannel = Some 6, LogBytes = (None :: bytes option)\<rparr> = None"
proof -
  let ?c = "demo_controller (demo_pr [] ActionBuildDeploy) demo_clusterMgr"
  have g: "prm_GetByID (prMgr ?c) 5 = Inr (demo_pr [] ActionBuildDeploy)"
    by (simp add: demo_controller_def demo_prMgr_def demo_pr_def)
  have l: "GetPrLog ?c 5 = Inr \<lparr>LogChannel = Some 5, ErrChannel = Some 6, LogBytes = None\<rparr>"
    by (simp add: GetPrLog_def getPrLog_def demo_controller_def demo_prMgr_def demo_pr_def
                  demo_clusterMgr_def demo_cluster_def demo_fty_def)
  from GetPrLog_live_or_archived [OF g l] g l show ?thesis by simp
qed

text \<open>
  C22. The live path (spec 4.2): for a build-deploy run whose \<open>PrObject\<close> is empty,
  \<open>GetPrLog\<close> obtains the Tekton client of the run's environment, opens the live log
  session keyed by (cluster name, cluster id, run id) and returns its two channels
  unchanged, with no bytes.
\<close>

theorem GetPrLog_live_session:
  assumes "prm_GetByID (prMgr c) i = Inr pr" "clusterMgr c (pr_ClusterID pr) = Inr cl"
    "applicationMgr c (cluster_ApplicationID cl) = Inr app"
    "envMgr c (cluster_EnvironmentRegionID cl) = Inr er"
    "pr_Action pr = ActionBuildDeploy" "pr_PrObject pr = []"
    "GetTekton (tektonFty c) (er_EnvironmentName er) = Inr tc"
    "GetPipelineRunLogByID tc (cluster_Name cl) (cluster_ID cl) (pr_ID pr) = Inr (lc, ec)"
  shows "GetPrLog c i = Inr \<lparr>LogChannel = Some lc, ErrChannel = Some ec, LogBytes = None\<rparr>"
  using assms by (simp add: GetPrLog_found getPrLog_def)

theorem GetPrLog_live_session_witness:
  "GetPrLog (demo_controller (demo_pr [] ActionBuildDeploy) demo_clusterMgr) 5 =
     Inr \<lparr>LogChannel = Some 5, ErrChannel = Some 6, LogBytes = None\<rparr>"
proof -
  let ?pr = "demo_pr [] ActionBuildDeploy"
  let ?c = "demo_controller ?pr demo_clusterMgr"
  let ?tc = "\<lparr>GetPipelineRunLogByID = (\<lambda>cn cid pid. Inr (pid, Suc pid))\<rparr> :: tekton"
  have "prm_GetByID (prMgr ?c) 5 = Inr ?pr"
    by (simp add: demo_controller_def demo_prMgr_def demo_pr_def)
  moreover have "clusterMgr ?c (pr_ClusterID ?pr) = Inr demo_cluster"
    by (simp add: demo_controller_def demo_clusterMgr_def demo_pr_def)
  moreover have "applicationMgr ?c (cluster_ApplicationID demo_cluster) = Inr \<lparr>app_ID = 3, app_Name = ''app''\<rparr>"
    by (simp add: demo_lookups demo_cluster_def)
  moreover have "envMgr ?c (cluster_EnvironmentRegionID demo_cluster) = Inr \<lparr>er_ID = 2, er_EnvironmentName = ''test''\<rparr>"
    by (simp add: demo_lookups demo_cluster_def)
  moreover have "GetTekton (tektonFty ?c) ''test'' = Inr ?tc"
    by (simp add: demo_lookups demo_fty_def)
  moreover have "GetPipelineRunLogByID ?tc (cluster_Name demo_cluster) (cluster_ID demo_cluster) (pr_ID ?pr) = Inr (5, 6)"
    by (simp add: demo_pr_def)
  ultimately show ?thesis
    using GetPrLog_live_session [of ?c 5 ?pr demo_cluster "\<lparr>app_ID = 3, app_Name = ''app''\<rparr>"
          "\<lparr>er_ID = 2, er_EnvironmentName = ''test''\<rparr>" ?tc 5 6]
    by (simp add: demo_pr_def)
qed

text \<open>
  C16. The archived path ignores the run (the open question of spec 9): for two runs
  whose \<open>PrObject\<close> is set, \<open>getPrLog\<close> on the same cluster, application and
  environment returns the same result, the latest archived log of the pair, whatever
  object each run names.
\<close>

theorem getPrLog_archive_ignores_run:
  assumes "pr_PrObject pr1 \<noteq> []" and "pr_PrObject pr2 \<noteq> []"
  shows "getPrLog c pr1 cl a env = getPrLog c pr2 cl a env"
  using assms by (simp add: getPrLog_def)

theorem getPrLog_archive_ignores_run_witness:
  "pr_PrObject (demo_pr ''obj-1'' ActionBuildDeploy) \<noteq> [] \<and> pr_PrObject (demo_pr ''obj-2'' ActionBuildDeploy) \<noteq> []
   \<and> getPrLog (demo_controller (demo_pr ''obj-1'' ActionBuildDeploy) demo_clusterMgr) (demo_pr ''obj-1'' ActionBuildDeploy) demo_cluster ''app'' ''test''
     = getPrLog (demo_controller (demo_pr ''obj-1'' ActionBuildDeploy) demo_clusterMgr) (demo_pr ''obj-2'' ActionBuildDeploy) demo_cluster ''app'' ''test''"
proof -
  have a: "pr_PrObject (demo_pr ''obj-1'' ActionBuildDeploy) \<noteq> []" by (simp add: demo_pr_def)
  have b: "pr_PrObject (demo_pr ''obj-2'' ActionBuildDeploy) \<noteq> []" by (simp add: demo_pr_def)
  from a b getPrLog_archive_ignores_run [OF a b] show ?thesis by blast
qed

text \<open>
  C13. Logs exist only for build-deploy runs (spec 4.2 and 8): \<open>GetPrLog\<close> on a run
  whose action is not build-deploy never returns a log.
\<close>

theorem GetPrLog_not_builddeploy:
  assumes "prm_GetByID (prMgr c) i = Inr pr" and "pr_Action pr \<noteq> ActionBuildDeploy"
  shows "\<exists>e. GetPrLog c i = Inl e"
  using assms by (auto simp: GetPrLog_def split: sum.splits)

theorem GetPrLog_not_builddeploy_witness:
  "GetPrLog (demo_controller (demo_pr [] ActionRestart) demo_clusterMgr) 5 =
     Inl (OpErr op_GetPrLog (Text ''restart action has no log''))"
proof -
  let ?c = "demo_controller (demo_pr [] ActionRestart) demo_clusterMgr"
  have g: "prm_GetByID (prMgr ?c) 5 = Inr (demo_pr [] ActionRestart)"
    by (simp add: demo_controller_def demo_prMgr_def demo_pr_def)
  have "pr_Action (demo_pr [] ActionRestart) \<noteq> ActionBuildDeploy" by (simp add: demo_pr_def)
  from GetPrLog_not_builddeploy [OF g this] show ?thesis
    by (simp add: GetPrLog_def demo_controller_def demo_prMgr_def demo_pr_def demo_clusterMgr_def demo_cluster_def)
qed

text \<open>
  C26. The action is checked after the lookups: when the cluster of a run cannot be
  loaded, \<open>GetPrLog\<close> fails with that lookup's error, whatever the run's action, so a
  non-build-deploy run does not always fail with the unsupported-action error that
  spec 8 asks for.
\<close>

theorem GetPrLog_lookup_error_first:
  assumes "prm_GetByID (prMgr c) i = Inr pr" and "clusterMgr c (pr_ClusterID pr) = Inl e"
  shows "GetPrLog c i = Inl (OpErr op_GetPrLog e)"
  using assms by (simp add: GetPrLog_def)

theorem GetPrLog_lookup_error_first_witness:
  "GetPrLog (demo_controller (demo_pr [] ActionRestart) (\<lambda>_. Inl ErrNotFound)) 5 = Inl (OpErr op_GetPrLog ErrNotFound)"
proof -
  let ?c = "demo_controller (demo_pr [] ActionRestart) (\<lambda>_. Inl ErrNotFound)"
  have g: "prm_GetByID (prMgr ?c) 5 = Inr (demo_pr [] ActionRestart)"
    by (simp add: demo_controller_def demo_prMgr_def demo_pr_def)
  have "clusterMgr ?c (pr_ClusterID (demo_pr [] ActionRestart)) = Inl ErrNotFound"
    by (simp add: demo_controller_def)
  from GetPrLog_lookup_error_first [OF g this] show ?thesis .
qed

subsection \<open>Properties of the drift calculator\<close>

text \<open>
  C8. Each half of the diff is present exactly when its commit fields are set (spec
  4.3 and 8): in a diff \<open>GetDiff\<close> returns for a run, the code half is present iff the
  run's Git URL, commit and branch are all non-empty, and the configuration half is
  present iff both configuration commits are non-empty; the two are independent.
\<close>

theorem GetDiff_halves:
  assumes "prm_GetByID (prMgr c) i = Inr pr" and "GetDiff c gc i = Inr d"
  shows "(resp_CodeInfo d \<noteq> None \<longleftrightarrow> pr_GitURL pr \<noteq> [] \<and> pr_GitCommit pr \<noteq> [] \<and> pr_GitBranch pr \<noteq> []) \<and>
         (resp_ConfigDiff d \<noteq> None \<longleftrightarrow> pr_ConfigCommit pr \<noteq> [] \<and> pr_LastConfigCommit pr \<noteq> [])"
proof -
  from assms(2) obtain pr' cl and app :: application where
    g: "prm_GetByID (prMgr c) i = Inr pr'" and code: "get_code_diff c gc pr' = Inr (resp_CodeInfo d)"
    and conf: "get_config_diff c pr' app cl = Inr (resp_ConfigDiff d)"
    by (elim GetDiff_Inr) blast
  from g assms(1) have pr': "pr' = pr" by simp
  have "resp_CodeInfo d \<noteq> None \<longleftrightarrow> pr_GitURL pr \<noteq> [] \<and> pr_GitCommit pr \<noteq> [] \<and> pr_GitBranch pr \<noteq> []"
  proof (cases "resp_CodeInfo d")
    case None
    with code pr' show ?thesis by (simp add: get_code_diff_None)
  next
    case (Some ci)
    with code pr' show ?thesis by (auto dest: get_code_diff_Some)
  qed
  moreover have "resp_ConfigDiff d \<noteq> None \<longleftrightarrow> pr_ConfigCommit pr \<noteq> [] \<and> pr_LastConfigCommit pr \<noteq> []"
  proof (cases "resp_ConfigDiff d")
    case None
    with conf pr' show ?thesis by (simp add: get_config_diff_None)
  next
    case (Some cd)
    with conf pr' show ?thesis by (auto dest: get_config_diff_Some)
  qed
  ultimately show ?thesis ..
qed

theorem GetDiff_halves_witness:
  "let c = demo_controller ((demo_pr [] ActionBuildDeploy)\<lparr>pr_GitCommit := []\<rparr>) demo_clusterMgr
   in prm_GetByID (prMgr c) 5 = Inr ((demo_pr [] ActionBuildDeploy)\<lparr>pr_GitCommit := []\<rparr>) \<and>
      GetDiff c demo_git_conf 5 =
        Inr \<lparr>resp_CodeInfo = None, resp_ConfigDiff = Some \<lparr>cd_From = ''k0'', cd_To = ''k1'', cd_Diff = ''k0..k1''\<rparr>\<rparr>"
proof -
  let ?pr = "(demo_pr [] ActionBuildDeploy)\<lparr>pr_GitCommit := []\<rparr>"
  let ?c = "demo_controller ?pr demo_clusterMgr"
  have g: "prm_GetByID (prMgr ?c) 5 = Inr ?pr"
    by (simp add: demo_controller_def demo_prMgr_def demo_pr_def)
  have d: "GetDiff ?c demo_git_conf 5 =
        Inr \<lparr>resp_CodeInfo = None, resp_ConfigDiff = Some \<lparr>cd_From = ''k0'', cd_To = ''k1'', cd_Diff = ''k0..k1''\<rparr>\<rparr>"
    by (simp add: GetDiff_def get_code_diff_def get_config_diff_def call_CompareConfig_def
                  demo_controller_def demo_prMgr_def demo_pr_def demo_clusterMgr_def demo_cluster_def)
  from GetDiff_halves [OF g d] g d show ?thesis by (simp add: Let_def)
qed

text \<open>
  C23. The code half (spec 4.3): when present, it carries the run's branch and commit,
  the message the code host returned for (Git URL, commit), and a history link that is
  the HTTP form of the URL, the fixed history path and the commit when the URL is in
  the internal SSH form, and empty otherwise.
\<close>

theorem GetDiff_code_info:
  assumes "prm_GetByID (prMgr c) i = Inr pr" and "GetDiff c gc i = Inr d"
    and "resp_CodeInfo d = Some ci"
  shows "ci_Branch ci = pr_GitBranch pr \<and> ci_CommitID ci = pr_GitCommit pr \<and>
         call_GetCommit (commitGetter c) (pr_GitURL pr) (pr_GitCommit pr) = Inr \<lparr>commit_Message = ci_CommitMsg ci\<rparr> \<and>
         ci_Link ci = (if HasPrefix (pr_GitURL pr) (InternalGitSSHPrefix gc)
                       then InternalSSHToHTTPURL gc (pr_GitURL pr) @ CommitHistoryMiddle gc @ pr_GitCommit pr
                       else [])"
proof -
  from assms(2) obtain pr' where
    "prm_GetByID (prMgr c) i = Inr pr'" and code: "get_code_diff c gc pr' = Inr (resp_CodeInfo d)"
    by (elim GetDiff_Inr) blast
  with assms(1) have "get_code_diff c gc pr = Inr (Some ci)" using assms(3) by simp
  then show ?thesis by (auto dest!: get_code_diff_Some)
qed

theorem GetDiff_code_info_witness:
  "let c = demo_controller (demo_pr [] ActionBuildDeploy) demo_clusterMgr;
       ci = \<lparr>ci_Branch = ''main'', ci_CommitID = ''c1'', ci_CommitMsg = ''fix'',
             ci_Link = ''https://host/app/-/commits/c1''\<rparr>
   in prm_GetByID (prMgr c) 5 = Inr (demo_pr [] ActionBuildDeploy) \<and>
      GetDiff c demo_git_conf 5 =
        Inr \<lparr>resp_CodeInfo = Some ci, resp_ConfigDiff = Some \<lparr>cd_From = ''k0'', cd_To = ''k1'', cd_Diff = ''k0..k1''\<rparr>\<rparr> \<and>
      ci_Link ci = ''https://host/app/-/commits/c1''"
proof -
  let ?pr = "demo_pr [] ActionBuildDeploy"
  let ?c = "demo_controller ?pr demo_clusterMgr"
  let ?ci = "\<lparr>ci_Branch = ''main'', ci_CommitID = ''c1'', ci_CommitMsg = ''fix'',
             ci_Link = ''https://host/app/-/commits/c1''\<rparr>"
  have g: "prm_GetByID (prMgr ?c) 5 = Inr ?pr"
    by (simp add: demo_controller_def demo_prMgr_def demo_pr_def)
  have pre: "HasPrefix ''ssh://git@host/app.git'' ''ssh://git@host''"
    by (simp add: HasPrefix_def)
  have url: "TrimSuffix (TrimPrefix ''ssh://git@host/app.git'' ''ssh://git@host'') ''.git'' = ''/app''"
    using TrimPrefix_append [of "''ssh://git@host''" "''/app.git''"] TrimSuffix_append [of "''/app''" "''.git''"]
    by simp
  have d: "GetDiff ?c demo_git_conf 5 =
        Inr \<lparr>resp_CodeInfo = Some ?ci, resp_ConfigDiff = Some \<lparr>cd_From = ''k0'', cd_To = ''k1'', cd_Diff = ''k0..k1''\<rparr>\<rparr>"
    using pre url
    by (simp add: GetDiff_def get_code_diff_def get_config_diff_def call_CompareConfig_def call_GetCommit_def
                  demo_controller_def demo_prMgr_def demo_pr_def demo_clusterMgr_def demo_cluster_def
                  demo_git_conf_def)
  have "resp_CodeInfo \<lparr>resp_CodeInfo = Some ?ci, resp_ConfigDiff = Some \<lparr>cd_From = ''k0'', cd_To = ''k1'', cd_Diff = ''k0..k1''\<rparr>\<rparr> = Some ?ci"
    by simp
  from GetDiff_code_info [OF g d this] g d show ?thesis by (simp add: Let_def)
qed

text \<open>
  The configuration half (spec 4.3): when present, it runs from the run's previous
  configuration commit to its current one, and its text is exactly what the GitOps
  repository returned when asked to compare those commits for the run's application
  and cluster.
\<close>

theorem GetDiff_config_verbatim:
  assumes "prm_GetByID (prMgr c) i = Inr pr" and "GetDiff c gc i = Inr d"
    and "resp_ConfigDiff d = Some cd"
  shows "\<exists>cl app. clusterMgr c (pr_ClusterID pr) = Inr cl \<and> applicationMgr c (cluster_ApplicationID cl) = Inr app \<and>
           cd_From cd = pr_LastConfigCommit pr \<and> cd_To cd = pr_ConfigCommit pr \<and>
           call_CompareConfig (clusterGitRepo c) (app_Name app) (cluster_Name cl)
              (pr_LastConfigCommit pr) (pr_ConfigCommit pr) = Inr (cd_Diff cd)"
proof -
  from assms(2) obtain pr' cl and app :: application where
    "prm_GetByID (prMgr c) i = Inr pr'" and cl: "clusterMgr c (pr_ClusterID pr') = Inr cl"
    and app: "applicationMgr c (cluster_ApplicationID cl) = Inr app"
    and conf: "get_config_diff c pr' app cl = Inr (resp_ConfigDiff d)"
    by (elim GetDiff_Inr) blast
  with assms(1) have "pr' = pr" by simp
  with cl app conf assms(3) show ?thesis by (auto dest!: get_config_diff_Some)
qed

theorem GetDiff_config_verbatim_witness:
  "let c = demo_controller (demo_pr [] ActionBuildDeploy) demo_clusterMgr
   in prm_GetByID (prMgr c) 5 = Inr (demo_pr [] ActionBuildDeploy) \<and>
      resp_ConfigDiff (projr (GetDiff c demo_git_conf 5)) = Some \<lparr>cd_From = ''k0'', cd_To = ''k1'', cd_Diff = ''k0..k1''\<rparr> \<and>
      call_CompareConfig (clusterGitRepo c) ''app'' ''c7'' ''k0'' ''k1'' = Inr ''k0..k1''"
proof -
  let ?pr = "demo_pr [] ActionBuildDeploy"
  let ?c = "demo_controller ?pr demo_clusterMgr"
  let ?cd = "\<lparr>cd_From = ''k0'', cd_To = ''k1'', cd_Diff = ''k0..k1''\<rparr>"
  have g: "prm_GetByID (prMgr ?c) 5 = Inr ?pr"
    by (simp add: demo_controller_def demo_prMgr_def demo_pr_def)
  obtain d where d: "GetDiff ?c demo_git_conf 5 = Inr d" and cdd: "resp_ConfigDiff d = Some ?cd"
    by (simp add: GetDiff_def get_code_diff_def get_config_diff_def call_CompareConfig_def call_GetCommit_def
                  demo_controller_def demo_prMgr_def demo_pr_def demo_clusterMgr_def demo_cluster_def Let_def)
  from GetDiff_config_verbatim [OF g d cdd] g d cdd show ?thesis
    by (simp add: Let_def demo_controller_def demo_pr_def demo_clusterMgr_def demo_cluster_def)
qed

text \<open>
  C24. No partial diff (spec 4.3): when the code half is active and the code host fails,
  \<open>GetDiff\<close> fails with that error and does not go on to the configuration half.
\<close>

theorem GetDiff_no_partial:
  assumes "prm_GetByID (prMgr c) i = Inr pr" "clusterMgr c (pr_ClusterID pr) = Inr cl"
    "applicationMgr c (cluster_ApplicationID cl) = Inr app"
    "pr_GitURL pr \<noteq> []" "pr_GitCommit pr \<noteq> []" "pr_GitBranch pr \<noteq> []"
    "call_GetCommit (commitGetter c) (pr_GitURL pr) (pr_GitCommit pr) = Inl e"
  shows "GetDiff c gc i = Inl e"
  using assms by (simp add: GetDiff_def get_code_diff_def)

theorem GetDiff_no_partial_witness:
  "GetDiff ((demo_controller (demo_pr [] ActionBuildDeploy) demo_clusterMgr)
              \<lparr>commitGetter := Some \<lparr>GetCommit = (\<lambda>u c. Inl (Text ''unreachable''))\<rparr>\<rparr>) demo_git_conf 5
   = Inl (Text ''unreachable'')"
proof -
  let ?pr = "demo_pr [] ActionBuildDeploy"
  let ?c = "(demo_controller ?pr demo_clusterMgr)
              \<lparr>commitGetter := Some \<lparr>GetCommit = (\<lambda>u c. Inl (Text ''unreachable''))\<rparr>\<rparr>"
  show ?thesis
    by (rule GetDiff_no_partial [of ?c 5 ?pr demo_cluster "\<lparr>app_ID = 3, app_Name = ''app''\<rparr>"])
       (simp_all add: demo_controller_def demo_prMgr_def demo_pr_def demo_clusterMgr_def demo_cluster_def
                      call_GetCommit_def)
qed

text \<open>
  C17. A controller built by \<open>NewController\<close> cannot compute a diff: the constructor
  leaves the code host client and the GitOps repository unset, so for any run whose
  code half or configuration half is active (and whose cluster and application are
  found), \<open>GetDiff\<close> ends in the nil-interface panic instead of a diff.
\<close>

theorem NewController_GetDiff_panics:
  assumes "prm_GetByID prm i = Inr pr" "cm (pr_ClusterID pr) = Inr cl"
    "am (cluster_ApplicationID cl) = Inr app"
    and active: "(pr_GitURL pr \<noteq> [] \<and> pr_GitCommit pr \<noteq> [] \<and> pr_GitBranch pr \<noteq> []) \<or>
                 (pr_ConfigCommit pr \<noteq> [] \<and> pr_LastConfigCommit pr \<noteq> [])"
  shows "GetDiff (NewController prm cm am em fty) gc i = Inl nil_deref"
  using assms
  by (auto simp: GetDiff_def NewController_def get_code_diff_def get_config_diff_def
                 call_GetCommit_def call_CompareConfig_def)

theorem NewController_GetDiff_panics_witness:
  "GetDiff (NewController (demo_prMgr (demo_pr [] ActionBuildDeploy)) demo_clusterMgr
              (\<lambda>i. Inr \<lparr>app_ID = i, app_Name = ''app''\<rparr>) (\<lambda>i. Inr \<lparr>er_ID = i, er_EnvironmentName = ''test''\<rparr>)
              demo_fty) demo_git_conf 5 = Inl nil_deref"
  by (rule NewController_GetDiff_panics [of _ 5 "demo_pr [] ActionBuildDeploy" _ demo_cluster])
     (simp_all add: demo_prMgr_def demo_pr_def demo_clusterMgr_def demo_cluster_def)

text \<open>
  C27. \<open>GetDiff\<close> passes lower errors through without context: when the run cannot
  be loaded, \<open>GetDiff\<close> returns the manager's error unchanged, while \<open>GetPrLog\<close> wraps
  the same error with its operation name; spec 7 asks every component to add the
  operation and entity to the errors it propagates.
\<close>

theorem GetDiff_error_unwrapped:
  assumes "prm_GetByID (prMgr c) i = Inl e"
  shows "GetDiff c gc i = Inl e \<and> GetPrLog c i = Inl (OpErr op_GetPrLog e)"
  using assms by (simp add: GetDiff_def GetPrLog_def)

theorem GetDiff_error_unwrapped_witness:
  "GetDiff (demo_controller (demo_pr [] ActionBuildDeploy) demo_clusterMgr) demo_git_conf 4 = Inl ErrNotFound \<and>
   GetPrLog (demo_controller (demo_pr [] ActionBuildDeploy) demo_clusterMgr) 4 = Inl (OpErr op_GetPrLog ErrNotFound)"
  by (rule GetDiff_error_unwrapped) (simp add: demo_controller_def demo_prMgr_def demo_pr_def)

end
