(* ===== verification/ClusterUpgrade.thy ===== *)
theory ClusterUpgrade
  imports Models
begin

text \<open>
  The template migration engine, \<open>UpgradeToV2\<close> of
  \<open>core/controller/cluster/controller_operation_v2.go\<close>. It reads the cluster and its
  application from the database, the committed template from the cluster's GitOps
  repository, maps that template through the injected upgrade table, loads the target
  release, merges the default branch into the GitOps branch, rewrites and commits the
  values files, and only then writes the new template into the cluster row.

  The state is a \<open>world\<close> record: the database tables the managers read and write,
  one GitOps repository per (application, cluster) pair, and the ordered log of durable
  effects (merges, commits, database updates), so that ordering claims are claims about
  that log. A collaborator call fails when the world's fault table names it, with the
  error value the table gives; this stands for a transport failure of the database or
  Git host. The collaborators (cluster, application and template release managers, the
  GitOps repository client and \<open>mergeDefaultBranchIntoGitOps\<close>) are not part of the
  sources; they follow their contracts in spec 4.4 and 6. \<open>UpgradeToV2\<close> returns its
  result together with the world it leaves, since a failure after the commit leaves the
  commit in place.
\<close>

subsection \<open>State\<close>

text \<open>\<open>TemplateUpgradeTarget\<close>: an entry of the upgrade table.\<close>

record template_target =
  tt_Name :: string
  tt_Release :: string
  tt_BuildConfig :: string

text \<open>The template recorded in a cluster's committed values files.\<close>

record cluster_template =
  ct_Name :: string
  ct_Release :: string

text \<open>
  A GitOps repository: the template its GitOps branch holds, the commit at its head,
  whether the default branch has commits not merged into it (left by a restart), and
  whether merging them would conflict.
\<close>

record gitops_repo =
  repo_template :: cluster_template
  repo_head :: nat
  repo_default_ahead :: bool
  repo_conflict :: bool

datatype effect = EMerge string string nat | ECommit string string nat | EDbUpdate nat

datatype fault =
    FGetCluster | FGetApplication | FGetClusterTemplate | FGetRelease
  | FMerge | FUpgradeValuesFiles | FUpdateCluster

record world =
  w_clusters :: "nat \<rightharpoonup> cluster"
  w_apps :: "nat \<rightharpoonup> application"
  w_releases :: "(string \<times> string) \<rightharpoonup> template_release"
  w_repos :: "(string \<times> string) \<rightharpoonup> gitops_repo"
  w_faults :: "fault \<rightharpoonup> error"
  w_log :: "effect list"
  w_next_commit :: nat

text \<open>\<open>gitrepo.UpgradeValuesParam\<close>.\<close>

record upgrade_param =
  up_Application :: string
  up_Cluster :: string
  up_Template :: cluster_template
  up_TargetRelease :: template_release
  up_BuildConfig :: string

subsection \<open>Collaborators\<close>

definition with_fault :: "world \<Rightarrow> fault \<Rightarrow> 'a result \<Rightarrow> 'a result" where
  "with_fault w f r = (case w_faults w f of Some e \<Rightarrow> Inl e | None \<Rightarrow> r)"

definition cm_GetByID :: "world \<Rightarrow> nat \<Rightarrow> cluster result" where
  "cm_GetByID w i = with_fault w FGetCluster
     (case w_clusters w i of None \<Rightarrow> Inl (Wrapf ErrNotFound ''cluster'') | Some c \<Rightarrow> Inr c)"

definition am_GetByID :: "world \<Rightarrow> nat \<Rightarrow> application result" where
  "am_GetByID w i = with_fault w FGetApplication
     (case w_apps w i of None \<Rightarrow> Inl (Wrapf ErrNotFound ''application'') | Some a \<Rightarrow> Inr a)"

definition GetClusterTemplate :: "world \<Rightarrow> string \<Rightarrow> string \<Rightarrow> cluster_template result" where
  "GetClusterTemplate w a c = with_fault w FGetClusterTemplate
     (case w_repos w (a, c) of None \<Rightarrow> Inl (Wrapf ErrNotFound ''gitops repo'') | Some r \<Rightarrow> Inr (repo_template r))"

definition GetByTemplateNameAndRelease :: "world \<Rightarrow> string \<Rightarrow> string \<Rightarrow> template_release result" where
  "GetByTemplateNameAndRelease w t r = with_fault w FGetRelease
     (case w_releases w (t, r) of None \<Rightarrow> Inl (Wrapf ErrNotFound ''template release'') | Some tr \<Rightarrow> Inr tr)"

text \<open>
  \<open>mergeDefaultBranchIntoGitOps\<close>: when the default branch is ahead (a restart left
  commits there), merge it into the GitOps branch as one new commit; a conflict is an
  error and nothing is written; with nothing to merge it does nothing.
\<close>

definition mergeDefaultBranchIntoGitOps :: "world \<Rightarrow> string \<Rightarrow> string \<Rightarrow> world result" where
  "mergeDefaultBranchIntoGitOps w a c = with_fault w FMerge
     (case w_repos w (a, c) of
        None \<Rightarrow> Inl (Wrapf ErrNotFound ''gitops repo'')
      | Some r \<Rightarrow>
          if \<not> repo_default_ahead r then Inr w
          else if repo_conflict r then Inl (Text ''merge default branch into gitops branch: conflict'')
          else Inr (w\<lparr>w_repos := (w_repos w)((a, c) \<mapsto> r\<lparr>repo_head := w_next_commit w, repo_default_ahead := False\<rparr>),
                      w_log := w_log w @ [EMerge a c (w_next_commit w)],
                      w_next_commit := Suc (w_next_commit w)\<rparr>))"

text \<open>
  \<open>UpgradeValuesFiles\<close>: rewrite the values files to the target release's schema and
  commit them as one commit, whose id it returns.
\<close>

definition UpgradeValuesFiles :: "world \<Rightarrow> upgrade_param \<Rightarrow> (nat \<times> world) result" where
  "UpgradeValuesFiles w p = with_fault w FUpgradeValuesFiles
     (case w_repos w (up_Application p, up_Cluster p) of
        None \<Rightarrow> Inl (Wrapf ErrNotFound ''gitops repo'')
      | Some r \<Rightarrow>
          (let k = w_next_commit w;
               t = \<lparr>ct_Name = tr_TemplateName (up_TargetRelease p), ct_Release = tr_Name (up_TargetRelease p)\<rparr>
           in Inr (k, w\<lparr>w_repos := (w_repos w)((up_Application p, up_Cluster p) \<mapsto> r\<lparr>repo_template := t, repo_head := k\<rparr>),
                        w_log := w_log w @ [ECommit (up_Application p) (up_Cluster p) k],
                        w_next_commit := Suc k\<rparr>)))"

definition cm_UpdateByID :: "world \<Rightarrow> nat \<Rightarrow> cluster \<Rightarrow> world result" where
  "cm_UpdateByID w i c = with_fault w FUpdateCluster
     (case w_clusters w i of
        None \<Rightarrow> Inl (Wrapf ErrNotFound ''cluster'')
      | Some _ \<Rightarrow> Inr (w\<lparr>w_clusters := (w_clusters w)(i \<mapsto> c), w_log := w_log w @ [EDbUpdate i]\<rparr>))"

subsection \<open>The operation\<close>

definition unsupported_msg :: "string \<Rightarrow> string" where
  "unsupported_msg t = ''cluster template '' @ t @ '' does not support upgrade''"

definition UpgradeToV2 :: "(string \<rightharpoonup> template_target) \<Rightarrow> world \<Rightarrow> nat \<Rightarrow> nat result \<times> world" where
  "UpgradeToV2 mapper w clusterID =
     (case cm_GetByID w clusterID of
        Inl e \<Rightarrow> (Inl e, w)
      | Inr cl \<Rightarrow>
     (case am_GetByID w (cluster_ApplicationID cl) of
        Inl e \<Rightarrow> (Inl e, w)
      | Inr app \<Rightarrow>
     (case GetClusterTemplate w (app_Name app) (cluster_Name cl) of
        Inl e \<Rightarrow> (Inl e, w)
      | Inr templateFromFile \<Rightarrow>
     (case mapper (ct_Name templateFromFile) of
        None \<Rightarrow> (Inl (Wrapf ErrParamInvalid (unsupported_msg (ct_Name templateFromFile))), w)
      | Some targetTemplate \<Rightarrow>
     (case GetByTemplateNameAndRelease w (tt_Name targetTemplate) (tt_Release targetTemplate) of
        Inl e \<Rightarrow> (Inl e, w)
      | Inr targetRelease \<Rightarrow>
     (case mergeDefaultBranchIntoGitOps w (app_Name app) (cluster_Name cl) of
        Inl e \<Rightarrow> (Inl e, w)
      | Inr w1 \<Rightarrow>
     (case UpgradeValuesFiles w1 \<lparr>up_Application = app_Name app, up_Cluster = cluster_Name cl,
              up_Template = templateFromFile, up_TargetRelease = targetRelease,
              up_BuildConfig = tt_BuildConfig targetTemplate\<rparr> of
        Inl e \<Rightarrow> (Inl e, w1)
      | Inr (newCommit, w2) \<Rightarrow>
     (case cm_UpdateByID w2 clusterID
             (cl\<lparr>cluster_Template := tr_TemplateName targetRelease,
                 cluster_TemplateRelease := tr_Name targetRelease\<rparr>) of
        Inl e \<Rightarrow> (Inl e, w2)
      | Inr w3 \<Rightarrow> (Inr newCommit, w3)))))))))"

subsection \<open>Abstract specification\<close>

text \<open>
  What a migration promises (spec 4.4): Git and the database agree on the cluster's
  template. \<open>db_template\<close> and \<open>git_template\<close> read the two records.
\<close>

definition db_template :: "world \<Rightarrow> nat \<Rightarrow> (string \<times> string) option" where
  "db_template w i = map_option (\<lambda>c. (cluster_Template c, cluster_TemplateRelease c)) (w_clusters w i)"

definition git_template :: "world \<Rightarrow> string \<Rightarrow> string \<Rightarrow> (string \<times> string) option" where
  "git_template w a c = map_option (\<lambda>r. (ct_Name (repo_template r), ct_Release (repo_template r))) (w_repos w (a, c))"

text \<open>
  The effects a single migration of cluster \<open>i\<close> (application \<open>a\<close>, cluster name
  \<open>n\<close>) may append to the log, in this order: at most one merge, then at most one
  commit, then, only after the commit, at most one database update.
\<close>

fun commit_then_update :: "string \<Rightarrow> string \<Rightarrow> nat \<Rightarrow> effect list \<Rightarrow> bool" where
  "commit_then_update a n i [] = True"
| "commit_then_update a n i [ECommit a' n' k] = (a' = a \<and> n' = n)"
| "commit_then_update a n i [ECommit a' n' k, EDbUpdate j] = (a' = a \<and> n' = n \<and> j = i)"
| "commit_then_update a n i _ = False"

fun migration_effects :: "string \<Rightarrow> string \<Rightarrow> nat \<Rightarrow> effect list \<Rightarrow> bool" where
  "migration_effects a n i (EMerge a' n' m # es) = (a' = a \<and> n' = n \<and> commit_then_update a n i es)"
| "migration_effects a n i es = commit_then_update a n i es"

subsection \<open>A concrete migration\<close>

text \<open>
  The scenario of spec 8: cluster 1 (\<open>c1\<close>) of application 10 (\<open>demo\<close>) is on
  \<open>javaapp\<close>/\<open>v1\<close>; its GitOps repository holds the \<open>v1\<close> files at commit 100 and
  a restart left the default branch ahead; the upgrade table routes \<open>javaapp\<close> to
  \<open>javaapp\<close>/\<open>v2\<close> with build config \<open>B\<close>.
\<close>

definition demo_cluster1 :: cluster where
  "demo_cluster1 = \<lparr>cluster_ID = 1, cluster_Name = ''c1'', cluster_ApplicationID = 10,
     cluster_EnvironmentRegionID = 1, cluster_Template = ''javaapp'', cluster_TemplateRelease = ''v1''\<rparr>"

definition demo_release_v2 :: template_release where
  "demo_release_v2 = \<lparr>tr_TemplateName = ''javaapp'', tr_Name = ''v2'', tr_GitlabName = ''control'',
     tr_GitlabProject = ''helm-template/javaapp''\<rparr>"

definition demo_world :: world where
  "demo_world = \<lparr>w_clusters = [1 \<mapsto> demo_cluster1], w_apps = [10 \<mapsto> \<lparr>app_ID = 10, app_Name = ''demo''\<rparr>],
     w_releases = [(''javaapp'', ''v2'') \<mapsto> demo_release_v2],
     w_repos = [(''demo'', ''c1'') \<mapsto> \<lparr>repo_template = \<lparr>ct_Name = ''javaapp'', ct_Release = ''v1''\<rparr>,
                                        repo_head = 100, repo_default_ahead = True, repo_conflict = False\<rparr>],
     w_faults = Map.empty, w_log = [], w_next_commit = 101\<rparr>"

definition demo_mapper :: "string \<rightharpoonup> template_target" where
  "demo_mapper = [''javaapp'' \<mapsto> \<lparr>tt_Name = ''javaapp'', tt_Release = ''v2'', tt_BuildConfig = ''B''\<rparr>]"

subsection \<open>Lemmas: what each collaborator writes\<close>

lemma with_fault_Inr [simp]: "with_fault w f r = Inr x \<longleftrightarrow> w_faults w f = None \<and> r = Inr x"
  by (auto simp: with_fault_def split: option.splits)

lemma with_fault_None [simp]: "w_faults w f = None \<Longrightarrow> with_fault w f r = r"
  by (simp add: with_fault_def)

lemma with_fault_Some [simp]: "w_faults w f = Some e \<Longrightarrow> with_fault w f r = Inl e"
  by (simp add: with_fault_def)

lemma merge_Inr:
  assumes "mergeDefaultBranchIntoGitOps w a c = Inr w1"
  shows "w_clusters w1 = w_clusters w \<and> w_faults w1 = w_faults w \<and> w_releases w1 = w_releases w \<and>
         w_apps w1 = w_apps w \<and>
         (\<forall>key. map_option repo_template (w_repos w1 key) = map_option repo_template (w_repos w key)) \<and>
         (w_log w1 = w_log w \<or> w_log w1 = w_log w @ [EMerge a c (w_next_commit w)])"
  using assms by (auto simp: mergeDefaultBranchIntoGitOps_def split: option.splits if_splits)

lemma UpgradeValuesFiles_Inr:
  assumes "UpgradeValuesFiles w p = Inr (k, w2)"
  shows "\<exists>r. w_repos w (up_Application p, up_Cluster p) = Some r \<and> k = w_next_commit w \<and>
           w_repos w2 = (w_repos w)((up_Application p, up_Cluster p) \<mapsto>
              r\<lparr>repo_template := \<lparr>ct_Name = tr_TemplateName (up_TargetRelease p),
                                    ct_Release = tr_Name (up_TargetRelease p)\<rparr>, repo_head := k\<rparr>) \<and>
           w_clusters w2 = w_clusters w \<and> w_faults w2 = w_faults w \<and>
           w_apps w2 = w_apps w \<and> w_releases w2 = w_releases w \<and> w_next_commit w2 = Suc k \<and>
           w_log w2 = w_log w @ [ECommit (up_Application p) (up_Cluster p) k]"
  using assms by (auto simp: UpgradeValuesFiles_def Let_def split: option.splits)

lemma cm_UpdateByID_Inr:
  assumes "cm_UpdateByID w i c = Inr w3"
  shows "w_clusters w3 = (w_clusters w)(i \<mapsto> c) \<and> w_repos w3 = w_repos w \<and>
         w_faults w3 = w_faults w \<and> w_apps w3 = w_apps w \<and> w_releases w3 = w_releases w \<and>
         w_next_commit w3 = w_next_commit w \<and> w_log w3 = w_log w @ [EDbUpdate i]"
  using assms by (auto simp: cm_UpdateByID_def split: option.splits)

lemma cm_GetByID_Inr: "cm_GetByID w i = Inr cl \<Longrightarrow> w_clusters w i = Some cl"
  by (auto simp: cm_GetByID_def split: option.splits)

text \<open>The shape of a successful run, step by step.\<close>

lemma UpgradeToV2_Inr:
  assumes "UpgradeToV2 m w i = (Inr k, w')"
  obtains cl app tf tt tr w1 w2 where
    "cm_GetByID w i = Inr cl" "am_GetByID w (cluster_ApplicationID cl) = Inr app"
    "GetClusterTemplate w (app_Name app) (cluster_Name cl) = Inr tf" "m (ct_Name tf) = Some tt"
    "GetByTemplateNameAndRelease w (tt_Name tt) (tt_Release tt) = Inr tr"
    "mergeDefaultBranchIntoGitOps w (app_Name app) (cluster_Name cl) = Inr w1"
    "UpgradeValuesFiles w1 \<lparr>up_Application = app_Name app, up_Cluster = cluster_Name cl,
        up_Template = tf, up_TargetRelease = tr, up_BuildConfig = tt_BuildConfig tt\<rparr> = Inr (k, w2)"
    "cm_UpdateByID w2 i (cl\<lparr>cluster_Template := tr_TemplateName tr, cluster_TemplateRelease := tr_Name tr\<rparr>) = Inr w'"
  using assms
  by (auto simp: UpgradeToV2_def split: sum.splits option.splits prod.splits)

lemma UpgradeToV2_world:
  assumes "UpgradeToV2 m w i = (res, w')"
  obtains (unchanged) "w' = w"
  | (merged) cl app tf tt tr where "cm_GetByID w i = Inr cl" "am_GetByID w (cluster_ApplicationID cl) = Inr app"
      "GetClusterTemplate w (app_Name app) (cluster_Name cl) = Inr tf" "m (ct_Name tf) = Some tt"
      "GetByTemplateNameAndRelease w (tt_Name tt) (tt_Release tt) = Inr tr"
      "mergeDefaultBranchIntoGitOps w (app_Name app) (cluster_Name cl) = Inr w'"
  | (committed) cl app tf tt tr w1 k e where "cm_GetByID w i = Inr cl"
      "am_GetByID w (cluster_ApplicationID cl) = Inr app"
      "GetClusterTemplate w (app_Name app) (cluster_Name cl) = Inr tf" "m (ct_Name tf) = Some tt"
      "GetByTemplateNameAndRelease w (tt_Name tt) (tt_Release tt) = Inr tr"
      "mergeDefaultBranchIntoGitOps w (app_Name app) (cluster_Name cl) = Inr w1"
      "UpgradeValuesFiles w1 \<lparr>up_Application = app_Name app, up_Cluster = cluster_Name cl,
          up_Template = tf, up_TargetRelease = tr, up_BuildConfig = tt_BuildConfig tt\<rparr> = Inr (k, w')"
      "res = Inl e"
  | (updated) cl app tf tt tr w1 k w2 where "cm_GetByID w i = Inr cl"
      "am_GetByID w (cluster_ApplicationID cl) = Inr app"
      "GetClusterTemplate w (app_Name app) (cluster_Name cl) = Inr tf" "m (ct_Name tf) = Some tt"
      "GetByTemplateNameAndRelease w (tt_Name tt) (tt_Release tt) = Inr tr"
      "mergeDefaultBranchIntoGitOps w (app_Name app) (cluster_Name cl) = Inr w1"
      "UpgradeValuesFiles w1 \<lparr>up_Application = app_Name app, up_Cluster = cluster_Name cl,
          up_Template = tf, up_TargetRelease = tr, up_BuildConfig = tt_BuildConfig tt\<rparr> = Inr (k, w2)"
      "cm_UpdateByID w2 i (cl\<lparr>cluster_Template := tr_TemplateName tr,
                             cluster_TemplateRelease := tr_Name tr\<rparr>) = Inr w'"
      "res = Inr k"
  using assms unfolding UpgradeToV2_def
  by (auto split: sum.splits option.splits prod.splits intro: that)

lemma commit_then_update_migration:
  "commit_then_update a n i es \<Longrightarrow> migration_effects a n i es"
  by (cases "(a, n, i, es)" rule: commit_then_update.cases) auto

lemma am_GetByID_Inr: "am_GetByID w i = Inr a \<Longrightarrow> w_apps w i = Some a"
  by (auto simp: am_GetByID_def split: option.splits)

lemma GetClusterTemplate_Inr:
  "GetClusterTemplate w a c = Inr t \<Longrightarrow> map_option repo_template (w_repos w (a, c)) = Some t"
  by (auto simp: GetClusterTemplate_def split: option.splits)

lemma GetByTemplateNameAndRelease_Inr:
  "GetByTemplateNameAndRelease w t r = Inr tr \<Longrightarrow> w_releases w (t, r) = Some tr"
  by (auto simp: GetByTemplateNameAndRelease_def split: option.splits)

lemma merge_Inr_repo:
  assumes "mergeDefaultBranchIntoGitOps w a c = Inr w1"
  shows "\<exists>r1. w_repos w1 (a, c) = Some r1 \<and> \<not> repo_default_ahead r1 \<and>
              map_option repo_template (w_repos w (a, c)) = Some (repo_template r1)"
  using assms by (auto simp: mergeDefaultBranchIntoGitOps_def split: option.splits if_splits)

lemma with_fault_Inr_None: "with_fault w f r = Inr x \<Longrightarrow> w_faults w f = None"
  by simp

lemma fault_cases: "(\<forall>f. P f) \<longleftrightarrow> P FGetCluster \<and> P FGetApplication \<and> P FGetClusterTemplate \<and>
    P FGetRelease \<and> P FMerge \<and> P FUpgradeValuesFiles \<and> P FUpdateCluster"
  by (metis fault.exhaust)

text \<open>What a successful migration leaves behind.\<close>

lemma UpgradeToV2_success_state:
  assumes "UpgradeToV2 m w i = (Inr k, w')"
  obtains cl app and tf :: cluster_template and tt tr r' where "w_clusters w i = Some cl" "w_apps w (cluster_ApplicationID cl) = Some app"
    "m (ct_Name tf) = Some tt" "w_releases w (tt_Name tt, tt_Release tt) = Some tr"
    "w_faults w = Map.empty" "w_faults w' = Map.empty" "w_apps w' = w_apps w" "w_releases w' = w_releases w"
    "w_next_commit w' = Suc k"
    "w_clusters w' i = Some (cl\<lparr>cluster_Template := tr_TemplateName tr, cluster_TemplateRelease := tr_Name tr\<rparr>)"
    "w_repos w' (app_Name app, cluster_Name cl) = Some r'"
    "repo_template r' = \<lparr>ct_Name = tr_TemplateName tr, ct_Release = tr_Name tr\<rparr>" "\<not> repo_default_ahead r'"
proof -
  from assms obtain cl app tf tt tr w1 w2 where
    s1: "cm_GetByID w i = Inr cl" and s2: "am_GetByID w (cluster_ApplicationID cl) = Inr app"
    and s3: "GetClusterTemplate w (app_Name app) (cluster_Name cl) = Inr tf" and s4: "m (ct_Name tf) = Some tt"
    and s5: "GetByTemplateNameAndRelease w (tt_Name tt) (tt_Release tt) = Inr tr"
    and s6: "mergeDefaultBranchIntoGitOps w (app_Name app) (cluster_Name cl) = Inr w1"
    and s7: "UpgradeValuesFiles w1 \<lparr>up_Application = app_Name app, up_Cluster = cluster_Name cl,
        up_Template = tf, up_TargetRelease = tr, up_BuildConfig = tt_BuildConfig tt\<rparr> = Inr (k, w2)"
    and s8: "cm_UpdateByID w2 i (cl\<lparr>cluster_Template := tr_TemplateName tr, cluster_TemplateRelease := tr_Name tr\<rparr>) = Inr w'"
    by (rule UpgradeToV2_Inr)
  note mg = merge_Inr [OF s6] and mr = merge_Inr_repo [OF s6]
    and u = UpgradeValuesFiles_Inr [OF s7] and d = cm_UpdateByID_Inr [OF s8]
  have faults1: "w_faults w1 = w_faults w" using mg by simp
  have nofault: "w_faults w = Map.empty"
    unfolding fun_eq_iff fault_cases
    using s1 s2 s3 s5 s6 s7 s8 faults1 u
    by (auto simp: cm_GetByID_def am_GetByID_def GetClusterTemplate_def GetByTemplateNameAndRelease_def
                   mergeDefaultBranchIntoGitOps_def UpgradeValuesFiles_def cm_UpdateByID_def)
  from mr obtain r1 where r1: "w_repos w1 (app_Name app, cluster_Name cl) = Some r1" "\<not> repo_default_ahead r1"
    by blast
  let ?r' = "r1\<lparr>repo_template := \<lparr>ct_Name = tr_TemplateName tr, ct_Release = tr_Name tr\<rparr>, repo_head := k\<rparr>"
  show ?thesis
  proof (rule that)
    show "w_clusters w i = Some cl" by (rule cm_GetByID_Inr [OF s1])
    show "w_apps w (cluster_ApplicationID cl) = Some app" by (rule am_GetByID_Inr [OF s2])
    show "m (ct_Name tf) = Some tt" by (rule s4)
    show "w_releases w (tt_Name tt, tt_Release tt) = Some tr" by (rule GetByTemplateNameAndRelease_Inr [OF s5])
    show "w_faults w = Map.empty" by (rule nofault)
    show "w_faults w' = Map.empty" using nofault faults1 u d by auto
    show "w_apps w' = w_apps w" using mg u d by auto
    show "w_releases w' = w_releases w" using mg u d by auto
    show "w_next_commit w' = Suc k" using u d by auto
    show "w_clusters w' i = Some (cl\<lparr>cluster_Template := tr_TemplateName tr, cluster_TemplateRelease := tr_Name tr\<rparr>)"
      using d by simp
    show "w_repos w' (app_Name app, cluster_Name cl) = Some ?r'" using u d r1 by auto
    show "repo_template ?r' = \<lparr>ct_Name = tr_TemplateName tr, ct_Release = tr_Name tr\<rparr>" by simp
    show "\<not> repo_default_ahead ?r'" using r1 by simp
  qed
qed

subsection \<open>Properties of the migration\<close>

text \<open>
  C1. A successful migration leaves Git and the database in agreement (refinement of
  the contract of spec 4.4): the template read from the cluster's GitOps repository was
  in the upgrade table, its target release exists, and afterwards both the database row
  of the cluster and the committed values files name the target release, and the
  returned commit is the head of the GitOps branch.
\<close>

theorem UpgradeToV2_consistent:
  assumes "UpgradeToV2 m w i = (Inr k, w')"
  shows "\<exists>cl app (tf :: cluster_template) tt tr. w_clusters w i = Some cl \<and> w_apps w (cluster_ApplicationID cl) = Some app \<and>
           git_template w (app_Name app) (cluster_Name cl) = Some (ct_Name tf, ct_Release tf) \<and>
           m (ct_Name tf) = Some tt \<and> w_releases w (tt_Name tt, tt_Release tt) = Some tr \<and>
           db_template w' i = Some (tr_TemplateName tr, tr_Name tr) \<and>
           git_template w' (app_Name app) (cluster_Name cl) = Some (tr_TemplateName tr, tr_Name tr) \<and>
           map_option repo_head (w_repos w' (app_Name app, cluster_Name cl)) = Some k"
proof -
  from assms obtain cl app tf tt tr w1 w2 where
    s1: "cm_GetByID w i = Inr cl" and s2: "am_GetByID w (cluster_ApplicationID cl) = Inr app"
    and s3: "GetClusterTemplate w (app_Name app) (cluster_Name cl) = Inr tf" and s4: "m (ct_Name tf) = Some tt"
    and s5: "GetByTemplateNameAndRelease w (tt_Name tt) (tt_Release tt) = Inr tr"
    and s6: "mergeDefaultBranchIntoGitOps w (app_Name app) (cluster_Name cl) = Inr w1"
    and s7: "UpgradeValuesFiles w1 \<lparr>up_Application = app_Name app, up_Cluster = cluster_Name cl,
        up_Template = tf, up_TargetRelease = tr, up_BuildConfig = tt_BuildConfig tt\<rparr> = Inr (k, w2)"
    and s8: "cm_UpdateByID w2 i (cl\<lparr>cluster_Template := tr_TemplateName tr, cluster_TemplateRelease := tr_Name tr\<rparr>) = Inr w'"
    by (rule UpgradeToV2_Inr)
  note u = UpgradeValuesFiles_Inr [OF s7] and d = cm_UpdateByID_Inr [OF s8]
  have "db_template w' i = Some (tr_TemplateName tr, tr_Name tr)"
    using d by (simp add: db_template_def)
  moreover have "git_template w' (app_Name app) (cluster_Name cl) = Some (tr_TemplateName tr, tr_Name tr)
      \<and> map_option repo_head (w_repos w' (app_Name app, cluster_Name cl)) = Some k"
    using d u by (auto simp: git_template_def)
  moreover have "git_template w (app_Name app) (cluster_Name cl) = Some (ct_Name tf, ct_Release tf)"
    using GetClusterTemplate_Inr [OF s3]
    by (cases "w_repos w (app_Name app, cluster_Name cl)") (auto simp: git_template_def)
  ultimately show ?thesis
    using cm_GetByID_Inr [OF s1] am_GetByID_Inr [OF s2] s4 GetByTemplateNameAndRelease_Inr [OF s5]
    by (intro exI [of _ cl] exI [of _ app] exI [of _ tf] exI [of _ tt] exI [of _ tr]) simp
qed

text \<open>
  C2. The order of durable effects (spec 4.4 steps 5 to 7): whatever the outcome, a
  migration appends to the log at most one merge of the default branch, then at most
  one commit of the rewritten values files, then, only after that commit, at most one
  update of the cluster's row; all of them for the cluster being migrated.
\<close>

theorem UpgradeToV2_effects_ordered:
  assumes "UpgradeToV2 m w i = (res, w')"
  shows "\<exists>es. w_log w' = w_log w @ es \<and>
           (es = [] \<or> (\<exists>cl app. w_clusters w i = Some cl \<and> w_apps w (cluster_ApplicationID cl) = Some app \<and>
                                migration_effects (app_Name app) (cluster_Name cl) i es))"
  using assms
proof (cases rule: UpgradeToV2_world)
  case unchanged
  then show ?thesis by simp
next
  case (merged cl app tf tt tr)
  from merge_Inr [OF merged(6)] cm_GetByID_Inr [OF merged(1)] am_GetByID_Inr [OF merged(2)]
  show ?thesis by (auto intro: commit_then_update_migration)
next
  case (committed cl app tf tt tr w1 k e)
  let ?a = "app_Name app" and ?n = "cluster_Name cl"
  from UpgradeValuesFiles_Inr [OF committed(7)]
  have log: "w_log w' = w_log w1 @ [ECommit ?a ?n k]" by auto
  from merge_Inr [OF committed(6)] log cm_GetByID_Inr [OF committed(1)] am_GetByID_Inr [OF committed(2)]
  show ?thesis by (auto intro: commit_then_update_migration)
next
  case (updated cl app tf tt tr w1 k w2)
  let ?a = "app_Name app" and ?n = "cluster_Name cl"
  from UpgradeValuesFiles_Inr [OF updated(7)] cm_UpdateByID_Inr [OF updated(8)]
  have log: "w_log w' = w_log w1 @ [ECommit ?a ?n k, EDbUpdate i]" by auto
  from merge_Inr [OF updated(6)] log cm_GetByID_Inr [OF updated(1)] am_GetByID_Inr [OF updated(2)]
  show ?thesis by (auto intro: commit_then_update_migration)
qed

text \<open>
  C3. A failed migration never writes the database (spec 4.4 steps 6 and 7): whenever
  \<open>UpgradeToV2\<close> returns an error, the cluster table is as it was, so the database
  never names a template the committed configuration does not have.
\<close>

theorem UpgradeToV2_failure_keeps_db:
  assumes "UpgradeToV2 m w i = (Inl e, w')"
  shows "w_clusters w' = w_clusters w"
  using assms
proof (cases rule: UpgradeToV2_world)
  case (merged cl app tf tt tr)
  then show ?thesis by (auto dest!: merge_Inr)
next
  case (committed cl app tf tt tr w1 k e)
  then show ?thesis by (auto dest!: merge_Inr UpgradeValuesFiles_Inr)
qed simp_all

lemmas demo_world_defs = demo_world_def demo_cluster1_def demo_release_v2_def demo_mapper_def

lemmas upgrade_step_defs = UpgradeToV2_def cm_GetByID_def am_GetByID_def GetClusterTemplate_def
  GetByTemplateNameAndRelease_def mergeDefaultBranchIntoGitOps_def UpgradeValuesFiles_def
  cm_UpdateByID_def with_fault_def

theorem UpgradeToV2_consistent_witness:
  "UpgradeToV2 demo_mapper demo_world 1 = (Inr 102, snd (UpgradeToV2 demo_mapper demo_world 1)) \<and>
   db_template (snd (UpgradeToV2 demo_mapper demo_world 1)) 1 = Some (''javaapp'', ''v2'')"
proof -
  have run: "UpgradeToV2 demo_mapper demo_world 1 = (Inr 102, snd (UpgradeToV2 demo_mapper demo_world 1))"
    by (simp add: upgrade_step_defs demo_world_defs Let_def)
  from UpgradeToV2_consistent [OF run] run show ?thesis
    by (auto simp: demo_world_defs split: if_splits)
qed

theorem UpgradeToV2_effects_ordered_witness:
  "UpgradeToV2 demo_mapper demo_world 1 = (Inr 102, snd (UpgradeToV2 demo_mapper demo_world 1)) \<and>
   migration_effects ''demo'' ''c1'' 1 [EMerge ''demo'' ''c1'' 101, ECommit ''demo'' ''c1'' 102, EDbUpdate 1]"
proof -
  have run: "UpgradeToV2 demo_mapper demo_world 1 = (Inr 102, snd (UpgradeToV2 demo_mapper demo_world 1))"
    by (simp add: upgrade_step_defs demo_world_defs Let_def)
  from UpgradeToV2_effects_ordered [OF run] run show ?thesis by simp
qed

theorem UpgradeToV2_failure_keeps_db_witness:
  "UpgradeToV2 demo_mapper (demo_world\<lparr>w_faults := [FUpdateCluster \<mapsto> Text ''db unavailable'']\<rparr>) 1 =
     (Inl (Text ''db unavailable''), snd (UpgradeToV2 demo_mapper (demo_world\<lparr>w_faults := [FUpdateCluster \<mapsto> Text ''db unavailable'']\<rparr>) 1)) \<and>
   w_clusters (snd (UpgradeToV2 demo_mapper (demo_world\<lparr>w_faults := [FUpdateCluster \<mapsto> Text ''db unavailable'']\<rparr>) 1)) =
     w_clusters demo_world"
proof -
  let ?w = "demo_world\<lparr>w_faults := [FUpdateCluster \<mapsto> Text ''db unavailable'']\<rparr>"
  have run: "UpgradeToV2 demo_mapper ?w 1 = (Inl (Text ''db unavailable''), snd (UpgradeToV2 demo_mapper ?w 1))"
    by (simp add: upgrade_step_defs demo_world_defs Let_def)
  from UpgradeToV2_failure_keeps_db [OF run] run show ?thesis by simp
qed

text \<open>
  C20. Migration is opt-in per template (spec 4.4 step 3): when the template committed
  in the cluster's GitOps repository has no entry in the upgrade table, \<open>UpgradeToV2\<close>
  fails with \<open>ErrParamInvalid\<close> naming that template, and the world is unchanged.
\<close>

theorem UpgradeToV2_unsupported:
  assumes "cm_GetByID w i = Inr cl" "am_GetByID w (cluster_ApplicationID cl) = Inr app"
    "GetClusterTemplate w (app_Name app) (cluster_Name cl) = Inr tf" "m (ct_Name tf) = None"
  shows "UpgradeToV2 m w i = (Inl (Wrapf ErrParamInvalid (unsupported_msg (ct_Name tf))), w)"
  using assms by (simp add: UpgradeToV2_def)

theorem UpgradeToV2_unsupported_witness:
  "UpgradeToV2 Map.empty demo_world 1 = (Inl (Wrapf ErrParamInvalid ''cluster template javaapp does not support upgrade''), demo_world)"
proof -
  have "cm_GetByID demo_world 1 = Inr demo_cluster1"
    and "am_GetByID demo_world (cluster_ApplicationID demo_cluster1) = Inr \<lparr>app_ID = 10, app_Name = ''demo''\<rparr>"
    and "GetClusterTemplate demo_world (app_Name \<lparr>app_ID = 10, app_Name = ''demo''\<rparr>) (cluster_Name demo_cluster1) =
           Inr \<lparr>ct_Name = ''javaapp'', ct_Release = ''v1''\<rparr>"
    and "(Map.empty :: string \<rightharpoonup> template_target) (ct_Name \<lparr>ct_Name = ''javaapp'', ct_Release = ''v1''\<rparr>) = None"
    by (simp_all add: upgrade_step_defs demo_world_defs)
  from UpgradeToV2_unsupported [where m = Map.empty, OF this] show ?thesis by (simp add: unsupported_msg_def)
qed

text \<open>
  C21. A merge conflict is fatal and leaves no trace (spec 4.4 step 5): when the default
  branch is ahead of the GitOps branch and merging it conflicts, \<open>UpgradeToV2\<close> fails
  before any rewrite, and the world, Git and database alike, is unchanged.
\<close>

theorem UpgradeToV2_merge_conflict:
  assumes "cm_GetByID w i = Inr cl" "am_GetByID w (cluster_ApplicationID cl) = Inr app"
    "GetClusterTemplate w (app_Name app) (cluster_Name cl) = Inr tf" "m (ct_Name tf) = Some tt"
    "GetByTemplateNameAndRelease w (tt_Name tt) (tt_Release tt) = Inr tr"
    "w_faults w FMerge = None" "w_repos w (app_Name app, cluster_Name cl) = Some r"
    "repo_default_ahead r" "repo_conflict r"
  shows "UpgradeToV2 m w i = (Inl (Text ''merge default branch into gitops branch: conflict''), w)"
  using assms by (simp add: UpgradeToV2_def mergeDefaultBranchIntoGitOps_def)

theorem UpgradeToV2_merge_conflict_witness:
  "UpgradeToV2 demo_mapper (demo_world\<lparr>w_repos := [(''demo'', ''c1'') \<mapsto> \<lparr>repo_template = \<lparr>ct_Name = ''javaapp'', ct_Release = ''v1''\<rparr>,
        repo_head = 100, repo_default_ahead = True, repo_conflict = True\<rparr>]\<rparr>) 1 =
   (Inl (Text ''merge default branch into gitops branch: conflict''),
    demo_world\<lparr>w_repos := [(''demo'', ''c1'') \<mapsto> \<lparr>repo_template = \<lparr>ct_Name = ''javaapp'', ct_Release = ''v1''\<rparr>,
        repo_head = 100, repo_default_ahead = True, repo_conflict = True\<rparr>]\<rparr>)"
proof -
  let ?r = "\<lparr>repo_template = \<lparr>ct_Name = ''javaapp'', ct_Release = ''v1''\<rparr>,
        repo_head = 100, repo_default_ahead = True, repo_conflict = True\<rparr>"
  let ?w = "demo_world\<lparr>w_repos := [(''demo'', ''c1'') \<mapsto> ?r]\<rparr>"
  have "cm_GetByID ?w 1 = Inr demo_cluster1"
    and "am_GetByID ?w (cluster_ApplicationID demo_cluster1) = Inr \<lparr>app_ID = 10, app_Name = ''demo''\<rparr>"
    and "GetClusterTemplate ?w (app_Name \<lparr>app_ID = 10, app_Name = ''demo''\<rparr>) (cluster_Name demo_cluster1) =
           Inr \<lparr>ct_Name = ''javaapp'', ct_Release = ''v1''\<rparr>"
    and "demo_mapper (ct_Name \<lparr>ct_Name = ''javaapp'', ct_Release = ''v1''\<rparr>) =
           Some \<lparr>tt_Name = ''javaapp'', tt_Release = ''v2'', tt_BuildConfig = ''B''\<rparr>"
    and "GetByTemplateNameAndRelease ?w (tt_Name \<lparr>tt_Name = ''javaapp'', tt_Release = ''v2'', tt_BuildConfig = ''B''\<rparr>)
           (tt_Release \<lparr>tt_Name = ''javaapp'', tt_Release = ''v2'', tt_BuildConfig = ''B''\<rparr>) = Inr demo_release_v2"
    and "w_faults ?w FMerge = None"
    and "w_repos ?w (app_Name \<lparr>app_ID = 10, app_Name = ''demo''\<rparr>, cluster_Name demo_cluster1) = Some ?r"
    and "repo_default_ahead ?r" and "repo_conflict ?r"
    by (simp_all add: upgrade_step_defs demo_world_defs)
  from UpgradeToV2_merge_conflict [where m = demo_mapper, OF this] show ?thesis .
qed

text \<open>
  C15. A failed migration does not say whether it committed (spec 7 asks that a partial
  failure report whether a durable Git commit already happened): whenever the
  migration has committed the rewritten files and the update of the cluster row then
  fails with a database error \<open>e\<close>, \<open>UpgradeToV2\<close> returns \<open>e\<close> itself, unwrapped and
  with nothing naming the commit, which stays in Git; and the same error met when the
  cluster is first loaded is returned in the same form with nothing written.
\<close>

theorem UpgradeToV2_error_hides_commit:
  assumes "cm_GetByID w i = Inr cl" "am_GetByID w (cluster_ApplicationID cl) = Inr app"
    "GetClusterTemplate w (app_Name app) (cluster_Name cl) = Inr tf" "m (ct_Name tf) = Some tt"
    "GetByTemplateNameAndRelease w (tt_Name tt) (tt_Release tt) = Inr tr"
    "mergeDefaultBranchIntoGitOps w (app_Name app) (cluster_Name cl) = Inr w1"
    "UpgradeValuesFiles w1 \<lparr>up_Application = app_Name app, up_Cluster = cluster_Name cl,
        up_Template = tf, up_TargetRelease = tr, up_BuildConfig = tt_BuildConfig tt\<rparr> = Inr (k, w2)"
    "w_faults w FUpdateCluster = Some e"
  shows "UpgradeToV2 m w i = (Inl e, w2) \<and>
         ECommit (app_Name app) (cluster_Name cl) k \<in> set (w_log w2) \<and> w_clusters w2 = w_clusters w \<and>
         UpgradeToV2 m (w\<lparr>w_faults := (w_faults w)(FGetCluster \<mapsto> e)\<rparr>) i =
           (Inl e, w\<lparr>w_faults := (w_faults w)(FGetCluster \<mapsto> e)\<rparr>)"
proof -
  have w1: "w_faults w1 = w_faults w" "w_clusters w1 = w_clusters w" using merge_Inr [OF assms(6)] by auto
  have w2: "w_faults w2 = w_faults w1" "w_clusters w2 = w_clusters w1"
    "ECommit (app_Name app) (cluster_Name cl) k \<in> set (w_log w2)"
    using UpgradeValuesFiles_Inr [OF assms(7)] by auto
  have "cm_UpdateByID w2 i (cl\<lparr>cluster_Template := tr_TemplateName tr, cluster_TemplateRelease := tr_Name tr\<rparr>) = Inl e"
    using assms(8) w1 w2 by (simp add: cm_UpdateByID_def)
  then have "UpgradeToV2 m w i = (Inl e, w2)"
    using assms(1-7) by (simp add: UpgradeToV2_def)
  moreover have "UpgradeToV2 m (w\<lparr>w_faults := (w_faults w)(FGetCluster \<mapsto> e)\<rparr>) i =
                   (Inl e, w\<lparr>w_faults := (w_faults w)(FGetCluster \<mapsto> e)\<rparr>)"
    by (simp add: UpgradeToV2_def cm_GetByID_def)
  ultimately show ?thesis using w1 w2 by simp
qed

text \<open>
  C14. Migration is not idempotent (spec 8 asks that a second migration of an already
  migrated cluster fail or detect it and write nothing): after a successful migration,
  when the upgrade table maps every target to itself and the release table is keyed by
  template name, running \<open>UpgradeToV2\<close> again on the same cluster succeeds again, with
  a new commit id, and appends a second commit and a second database update.
\<close>

theorem UpgradeToV2_rerun_commits_again:
  assumes first: "UpgradeToV2 m w i = (Inr k, w1)"
    and self: "\<And>t tt. m t = Some tt \<Longrightarrow> m (tt_Name tt) = Some tt"
    and keyed: "\<And>t r tr. w_releases w (t, r) = Some tr \<Longrightarrow> tr_TemplateName tr = t"
  shows "\<exists>w2. UpgradeToV2 m w1 i = (Inr (Suc k), w2) \<and>
           (\<exists>a n. w_log w2 = w_log w1 @ [ECommit a n (Suc k), EDbUpdate i])"
proof -
  from first obtain cl app and tf :: cluster_template and tt tr r' where
    c: "w_clusters w i = Some cl" and a: "w_apps w (cluster_ApplicationID cl) = Some app"
    and mt: "m (ct_Name tf) = Some tt" and rel: "w_releases w (tt_Name tt, tt_Release tt) = Some tr"
    and f0: "w_faults w = Map.empty" and f: "w_faults w1 = Map.empty"
    and ap: "w_apps w1 = w_apps w" and rl: "w_releases w1 = w_releases w"
    and nc: "w_next_commit w1 = Suc k"
    and c1: "w_clusters w1 i = Some (cl\<lparr>cluster_Template := tr_TemplateName tr, cluster_TemplateRelease := tr_Name tr\<rparr>)"
    and r: "w_repos w1 (app_Name app, cluster_Name cl) = Some r'"
    and rt: "repo_template r' = \<lparr>ct_Name = tr_TemplateName tr, ct_Release = tr_Name tr\<rparr>"
    and nd: "\<not> repo_default_ahead r'"
    by (rule UpgradeToV2_success_state)
  have tn: "tr_TemplateName tr = tt_Name tt" by (rule keyed [OF rel])
  have mt2: "m (tt_Name tt) = Some tt" by (rule self [OF mt])
  show ?thesis
    using c1 a ap rl f nc r rt nd tn mt2 rel
    by (simp add: upgrade_step_defs Let_def)
qed

theorem UpgradeToV2_rerun_commits_again_witness:
  "UpgradeToV2 demo_mapper demo_world 1 = (Inr 102, snd (UpgradeToV2 demo_mapper demo_world 1)) \<and>
   fst (UpgradeToV2 demo_mapper (snd (UpgradeToV2 demo_mapper demo_world 1)) 1) = Inr 103"
proof -
  have run: "UpgradeToV2 demo_mapper demo_world 1 = (Inr 102, snd (UpgradeToV2 demo_mapper demo_world 1))"
    by (simp add: upgrade_step_defs demo_world_defs Let_def)
  have "\<exists>w2. UpgradeToV2 demo_mapper (snd (UpgradeToV2 demo_mapper demo_world 1)) 1 = (Inr (Suc 102), w2) \<and>
           (\<exists>a n. w_log w2 = w_log (snd (UpgradeToV2 demo_mapper demo_world 1)) @ [ECommit a n (Suc 102), EDbUpdate 1])"
    by (rule UpgradeToV2_rerun_commits_again [OF run])
       (auto simp: demo_mapper_def demo_world_def demo_release_v2_def split: if_splits)
  with run show ?thesis by auto
qed

theorem UpgradeToV2_error_hides_commit_witness:
  "\<exists>w2. UpgradeToV2 demo_mapper (demo_world\<lparr>w_faults := [FUpdateCluster \<mapsto> Text ''connection reset'']\<rparr>) 1 =
          (Inl (Text ''connection reset''), w2) \<and> ECommit ''demo'' ''c1'' 102 \<in> set (w_log w2)"
proof -
  let ?w = "demo_world\<lparr>w_faults := [FUpdateCluster \<mapsto> Text ''connection reset'']\<rparr>"
  let ?app = "\<lparr>app_ID = 10, app_Name = ''demo''\<rparr>"
  let ?tf = "\<lparr>ct_Name = ''javaapp'', ct_Release = ''v1''\<rparr>"
  let ?tt = "\<lparr>tt_Name = ''javaapp'', tt_Release = ''v2'', tt_BuildConfig = ''B''\<rparr>"
  have "\<exists>w1. mergeDefaultBranchIntoGitOps ?w ''demo'' ''c1'' = Inr w1"
    by (simp add: upgrade_step_defs demo_world_defs)
  then obtain w1 where m1: "mergeDefaultBranchIntoGitOps ?w ''demo'' ''c1'' = Inr w1" by blast
  have "\<exists>w2. UpgradeValuesFiles w1 \<lparr>up_Application = ''demo'', up_Cluster = ''c1'',
          up_Template = ?tf, up_TargetRelease = demo_release_v2, up_BuildConfig = ''B''\<rparr> = Inr (102, w2)"
    using m1 by (auto simp: upgrade_step_defs demo_world_defs Let_def)
  then obtain w2 where u: "UpgradeValuesFiles w1 \<lparr>up_Application = ''demo'', up_Cluster = ''c1'',
          up_Template = ?tf, up_TargetRelease = demo_release_v2, up_BuildConfig = ''B''\<rparr> = Inr (102, w2)" by blast
  have h: "cm_GetByID ?w 1 = Inr demo_cluster1"
    "am_GetByID ?w (cluster_ApplicationID demo_cluster1) = Inr ?app"
    "GetClusterTemplate ?w (app_Name ?app) (cluster_Name demo_cluster1) = Inr ?tf"
    "demo_mapper (ct_Name ?tf) = Some ?tt"
    "GetByTemplateNameAndRelease ?w (tt_Name ?tt) (tt_Release ?tt) = Inr demo_release_v2"
    "w_faults ?w FUpdateCluster = Some (Text ''connection reset'')"
    by (simp_all add: upgrade_step_defs demo_world_defs)
  have "mergeDefaultBranchIntoGitOps ?w (app_Name ?app) (cluster_Name demo_cluster1) = Inr w1"
    using m1 by (simp add: demo_cluster1_def)
  moreover have "UpgradeValuesFiles w1 \<lparr>up_Application = app_Name ?app, up_Cluster = cluster_Name demo_cluster1,
        up_Template = ?tf, up_TargetRelease = demo_release_v2, up_BuildConfig = tt_BuildConfig ?tt\<rparr> = Inr (102, w2)"
    using u by (simp add: demo_cluster1_def)
  ultimately have "UpgradeToV2 demo_mapper ?w 1 = (Inl (Text ''connection reset''), w2) \<and>
      ECommit (app_Name ?app) (cluster_Name demo_cluster1) 102 \<in> set (w_log w2)"
    using UpgradeToV2_error_hides_commit [where m = demo_mapper, OF h(1-5) _ _ h(6)] by blast
  then show ?thesis by (auto simp: demo_cluster1_def)
qed

end
