(* ===== verification/Schema.thy ===== *)
theory Schema
  imports Models
begin

text \<open>
  The template-schema getter (\<open>src/pkg/templaterelease/schema/schema.go\<close>), the one
  place where the orchestrator fans out concurrent I/O. \<open>GetTemplateSchema\<close> resolves
  a template release, reads four schema files with four goroutines joined by a
  \<open>sync.WaitGroup\<close>, checks their error slots in a fixed order, then parses the four
  files with four more goroutines and a second join.

  The goroutines and the WaitGroup are an inductive step relation \<open>fanout_step\<close> on an
  explicit state (the main thread's spawn counter, each goroutine's program point, the
  shared value and error slots, the WaitGroup counter), with an executable interpreter
  \<open>fanout_exec\<close> of the same steps. The getter itself is written over the sequential
  join \<open>fanout_join\<close>, and the lemmas show that every interleaving that gets past
  \<open>Wait\<close> has exactly the slots of that join, and that \<open>Wait\<close> always returns.
\<close>

subsection \<open>Collaborators and data\<close>

text \<open>
  The GitLab library (\<open>GetFile project ref path\<close>), the GitLab factory and the
  template-release manager, whose \<open>GetByTemplateNameAndRelease\<close> answers a nil
  pointer (\<open>None\<close>) without an error for a missing release, as the test's mock does.
  A parsed JSON object has the type parameter \<open>'j\<close>; a nil map is \<open>None\<close>.
\<close>

record gitlab_lib =
  gl_GetFile :: "string \<Rightarrow> string \<Rightarrow> string \<Rightarrow> bytes result"

record gitlab_factory =
  GetByName :: "string \<Rightarrow> gitlab_lib result"

record getter =
  gitlabFactory :: gitlab_factory
  templateReleaseMgr :: "string \<Rightarrow> string \<Rightarrow> template_release option result"

record 'j schema =
  JSONSchema :: "'j option"
  UISchema :: "'j option"

record 'j schemas =
  sc_Application :: "'j schema"
  sc_Pipeline :: "'j schema"

definition pipelineSchemaPath :: string where
  "pipelineSchemaPath = ''schema/pipeline.schema.json''"

definition applicationSchemaPath :: string where
  "applicationSchemaPath = ''schema/application.schema.json''"

definition pipelineUISchemaPath :: string where
  "pipelineUISchemaPath = ''schema/pipeline.ui.schema.json''"

definition applicationUISchemaPath :: string where
  "applicationUISchemaPath = ''schema/application.ui.schema.json''"

text \<open>The four files in the order of the goroutines and of the error slots.\<close>

definition schema_paths :: "string list" where
  "schema_paths = [pipelineSchemaPath, applicationSchemaPath, pipelineUISchemaPath, applicationUISchemaPath]"

definition errCodeReleaseNotFound :: string where
  "errCodeReleaseNotFound = ''ReleaseNotFound''"

definition op_getTemplateSchema :: string where
  "op_getTemplateSchema = ''template service: getTemplateSchema''"

definition release_not_found_msg :: "string \<Rightarrow> string \<Rightarrow> string" where
  "release_not_found_msg releaseName templateName =
     ''the release '' @ releaseName @ '' of template '' @ templateName @ '' is not found''"

subsection \<open>Goroutines joined by a WaitGroup\<close>

text \<open>
  Goroutine \<open>i\<close> runs task \<open>i\<close>, whose outcome is a value and an optional error; it
  writes the value slot, then the error slot (through \<open>wr\<close>: \<open>*err = e\<close> in
  \<open>readFile\<close>, \<open>if e != nil { *err = e }\<close> in \<open>unmarshal\<close>), then calls \<open>Done\<close>.
  The main thread has called \<open>Add(n)\<close> and spawns the goroutines in order.
\<close>

datatype gstate = GNew | GStarted | GWroteValue | GWroteErr | GDone

record ('v, 'e) fanout =
  fo_spawned :: nat
  fo_g :: "gstate list"
  fo_val :: "'v list"
  fo_err :: "'e option list"
  fo_wg :: nat

definition fanout_init :: "'v list \<Rightarrow> 'e option list \<Rightarrow> ('v, 'e) fanout" where
  "fanout_init v0 e0 = \<lparr>fo_spawned = 0, fo_g = map (\<lambda>_. GNew) v0, fo_val = v0,
                        fo_err = e0, fo_wg = length v0\<rparr>"

inductive fanout_step ::
  "('v \<times> 'e option) list \<Rightarrow> ('e option \<Rightarrow> 'e option \<Rightarrow> 'e option) \<Rightarrow>
   ('v, 'e) fanout \<Rightarrow> ('v, 'e) fanout \<Rightarrow> bool"
  for tasks wr where
  spawn: "fo_spawned s < length tasks \<Longrightarrow>
    fanout_step tasks wr s (s\<lparr>fo_spawned := Suc (fo_spawned s),
                              fo_g := (fo_g s)[fo_spawned s := GStarted]\<rparr>)"
| write_val: "i < length tasks \<Longrightarrow> fo_g s ! i = GStarted \<Longrightarrow>
    fanout_step tasks wr s (s\<lparr>fo_val := (fo_val s)[i := fst (tasks ! i)],
                              fo_g := (fo_g s)[i := GWroteValue]\<rparr>)"
| write_err: "i < length tasks \<Longrightarrow> fo_g s ! i = GWroteValue \<Longrightarrow>
    fanout_step tasks wr s (s\<lparr>fo_err := (fo_err s)[i := wr (fo_err s ! i) (snd (tasks ! i))],
                              fo_g := (fo_g s)[i := GWroteErr]\<rparr>)"
| wg_done: "i < length tasks \<Longrightarrow> fo_g s ! i = GWroteErr \<Longrightarrow>
    fanout_step tasks wr s (s\<lparr>fo_wg := fo_wg s - 1, fo_g := (fo_g s)[i := GDone]\<rparr>)"

inductive_cases fanout_stepE: "fanout_step tasks wr s s'"

text \<open>The same steps as an executable interpreter, one event per step.\<close>

datatype fo_event = Spawn | WriteVal nat | WriteErr nat | Done nat

fun fanout_exec ::
  "('v \<times> 'e option) list \<Rightarrow> ('e option \<Rightarrow> 'e option \<Rightarrow> 'e option) \<Rightarrow> fo_event \<Rightarrow>
   ('v, 'e) fanout \<Rightarrow> ('v, 'e) fanout option" where
  "fanout_exec tasks wr Spawn s =
     (if fo_spawned s < length tasks
      then Some (s\<lparr>fo_spawned := Suc (fo_spawned s), fo_g := (fo_g s)[fo_spawned s := GStarted]\<rparr>)
      else None)"
| "fanout_exec tasks wr (WriteVal i) s =
     (if i < length tasks \<and> fo_g s ! i = GStarted
      then Some (s\<lparr>fo_val := (fo_val s)[i := fst (tasks ! i)], fo_g := (fo_g s)[i := GWroteValue]\<rparr>)
      else None)"
| "fanout_exec tasks wr (WriteErr i) s =
     (if i < length tasks \<and> fo_g s ! i = GWroteValue
      then Some (s\<lparr>fo_err := (fo_err s)[i := wr (fo_err s ! i) (snd (tasks ! i))],
                   fo_g := (fo_g s)[i := GWroteErr]\<rparr>)
      else None)"
| "fanout_exec tasks wr (Done i) s =
     (if i < length tasks \<and> fo_g s ! i = GWroteErr
      then Some (s\<lparr>fo_wg := fo_wg s - 1, fo_g := (fo_g s)[i := GDone]\<rparr>)
      else None)"

fun fanout_run ::
  "('v \<times> 'e option) list \<Rightarrow> ('e option \<Rightarrow> 'e option \<Rightarrow> 'e option) \<Rightarrow> fo_event list \<Rightarrow>
   ('v, 'e) fanout \<Rightarrow> ('v, 'e) fanout option" where
  "fanout_run tasks wr [] s = Some s"
| "fanout_run tasks wr (ev # evs) s =
     (case fanout_exec tasks wr ev s of None \<Rightarrow> None | Some s' \<Rightarrow> fanout_run tasks wr evs s')"

text \<open>\<open>Wait\<close> returns once all goroutines are spawned and the counter is zero.\<close>

definition fanout_waited :: "('v \<times> 'e option) list \<Rightarrow> ('v, 'e) fanout \<Rightarrow> bool" where
  "fanout_waited tasks s \<longleftrightarrow> fo_spawned s = length tasks \<and> fo_wg s = 0"

text \<open>The sequential meaning of a fan-out: the slots as if the tasks ran one by one.\<close>

definition fanout_join ::
  "('v \<times> 'e option) list \<Rightarrow> ('e option \<Rightarrow> 'e option \<Rightarrow> 'e option) \<Rightarrow> 'e option list \<Rightarrow>
   'v list \<times> 'e option list" where
  "fanout_join tasks wr e0 = (map fst tasks, map2 wr e0 (map snd tasks))"

subsection \<open>The getter\<close>

text \<open>
  What one \<open>readFile\<close> goroutine computes: \<open>GetFile\<close> on the release's GitLab project
  at the release's name (nil bytes with the error on failure), and what one
  \<open>unmarshal\<close> goroutine computes with the JSON decoder \<open>dec\<close> (an error, or the
  decoded map, \<open>None\<close> for a JSON \<open>null\<close>).
\<close>

definition readFile_task :: "gitlab_lib \<Rightarrow> template_release \<Rightarrow> string \<Rightarrow> bytes \<times> error option" where
  "readFile_task lib tr filePath =
     (case gl_GetFile lib (tr_GitlabProject tr) (tr_Name tr) filePath of
        Inl e \<Rightarrow> ([], Some e)
      | Inr b \<Rightarrow> (b, None))"

definition unmarshal_task :: "(bytes \<Rightarrow> 'j option result) \<Rightarrow> bytes \<Rightarrow> 'j option \<times> error option" where
  "unmarshal_task dec b = (case dec b of Inl e \<Rightarrow> (None, Some e) | Inr m \<Rightarrow> (m, None))"

text \<open>\<open>*err = e\<close> and \<open>if e != nil { *err = e }\<close>.\<close>

definition wr_set :: "'e option \<Rightarrow> 'e option \<Rightarrow> 'e option" where
  "wr_set old e = e"

definition wr_keep :: "'e option \<Rightarrow> 'e option \<Rightarrow> 'e option" where
  "wr_keep old e = (case e of None \<Rightarrow> old | Some _ \<Rightarrow> e)"

text \<open>\<open>for _, err := range []error{err1, err2, err3, err4} { if err != nil { return nil, err } }\<close>\<close>

fun first_err :: "'e option list \<Rightarrow> 'e option" where
  "first_err [] = None"
| "first_err (Some e # _) = Some e"
| "first_err (None # es) = first_err es"

definition GetTemplateSchema ::
  "getter \<Rightarrow> (bytes \<Rightarrow> 'j option result) \<Rightarrow> string \<Rightarrow> string \<Rightarrow> 'j schemas result" where
  "GetTemplateSchema g dec templateName releaseName =
     (case templateReleaseMgr g templateName releaseName of
        Inl e \<Rightarrow> Inl e
      | Inr None \<Rightarrow> Inl (HttpErr op_getTemplateSchema 404 errCodeReleaseNotFound
                          (release_not_found_msg releaseName templateName))
      | Inr (Some tr) \<Rightarrow>
     (case GetByName (gitlabFactory g) (tr_GitlabName tr) of
        Inl e \<Rightarrow> Inl e
      | Inr gitlabLib \<Rightarrow>
     (let (bs, errs) = fanout_join (map (readFile_task gitlabLib tr) schema_paths) wr_set
                                   (replicate 4 None)
      in case first_err errs of
        Some e \<Rightarrow> Inl e
      | None \<Rightarrow>
     (let (ms, errs2) = fanout_join (map (unmarshal_task dec) bs) wr_keep errs
      in case first_err errs2 of
        Some e \<Rightarrow> Inl e
      | None \<Rightarrow> Inr \<lparr>sc_Application = \<lparr>JSONSchema = ms ! 1, UISchema = ms ! 3\<rparr>,
                     sc_Pipeline = \<lparr>JSONSchema = ms ! 0, UISchema = ms ! 2\<rparr>\<rparr>))))"

text \<open>
  The template controller's \<open>GetTemplateSchema\<close> (\<open>src/core/controller/template\<close>)
  delegates to the getter and converts the result with \<open>toSchemas\<close>, whose body is not
  in the sources and is a parameter here.
\<close>

definition tc_GetTemplateSchema ::
  "(string \<Rightarrow> string \<Rightarrow> 'j schemas result) \<Rightarrow> ('j schemas \<Rightarrow> 'c) \<Rightarrow> string \<Rightarrow> string \<Rightarrow> 'c result" where
  "tc_GetTemplateSchema getSchema toSchemas templateName releaseName =
     (case getSchema templateName releaseName of Inl e \<Rightarrow> Inl e | Inr s \<Rightarrow> Inr (toSchemas s))"

subsection \<open>The fan-out invariant\<close>

text \<open>
  The proof device for the fan-out: the WaitGroup counter counts the goroutines that
  have not called \<open>Done\<close>, and each slot holds either its initial value or the value
  its own goroutine wrote; no slot is written by another goroutine. \<open>g_rank\<close> counts
  the steps a goroutine has left, so the sum of ranks falls by one at every step.
\<close>

fun g_rank :: "gstate \<Rightarrow> nat" where
  "g_rank GNew = 4"
| "g_rank GStarted = 3"
| "g_rank GWroteValue = 2"
| "g_rank GWroteErr = 1"
| "g_rank GDone = 0"

definition g_pending :: "gstate \<Rightarrow> nat" where
  "g_pending g = (if g = GDone then 0 else 1)"

definition fo_measure :: "('v, 'e) fanout \<Rightarrow> nat" where
  "fo_measure s = sum_list (map g_rank (fo_g s))"

definition fanout_inv ::
  "('v \<times> 'e option) list \<Rightarrow> ('e option \<Rightarrow> 'e option \<Rightarrow> 'e option) \<Rightarrow> 'v list \<Rightarrow> 'e option list \<Rightarrow>
   ('v, 'e) fanout \<Rightarrow> bool" where
  "fanout_inv tasks wr v0 e0 s \<longleftrightarrow>
     length (fo_g s) = length tasks \<and> length (fo_val s) = length tasks \<and>
     length (fo_err s) = length tasks \<and> fo_spawned s \<le> length tasks \<and>
     fo_wg s = sum_list (map g_pending (fo_g s)) \<and>
     (\<forall>i < length tasks. (fo_g s ! i = GNew \<longleftrightarrow> fo_spawned s \<le> i) \<and>
        fo_val s ! i = (if fo_g s ! i \<in> {GNew, GStarted} then v0 ! i else fst (tasks ! i)) \<and>
        fo_err s ! i = (if fo_g s ! i \<in> {GWroteErr, GDone} then wr (e0 ! i) (snd (tasks ! i))
                        else e0 ! i))"

subsection \<open>Concrete inputs\<close>

text \<open>
  Four tasks of which the second and the fourth fail, and an interleaving in which the
  goroutines finish out of order (the fourth first), with spawns interleaved with work.
\<close>

definition demo_tasks :: "(string \<times> error option) list" where
  "demo_tasks = [(''p'', None), (''a'', Some (Text ''gitlab: 500'')), (''pu'', None),
                 (''au'', Some (Text ''gitlab: 404''))]"

definition demo_schedule :: "fo_event list" where
  "demo_schedule = [Spawn, WriteVal 0, Spawn, Spawn, Spawn, WriteVal 3, WriteErr 3, Done 3,
                    WriteVal 1, WriteVal 2, WriteErr 1, WriteErr 2, Done 1, WriteErr 0, Done 2, Done 0]"

text \<open>
  The getter of \<open>schema_test.go\<close>: release \<open>v1.0.0\<close> of \<open>javaapp\<close> lives in GitLab
  \<open>control\<close>, project \<open>helm-template/javaapp\<close>, and each of its four files holds
  \<open>{"type": "object"}\<close>; \<open>release-not-exists\<close> is answered by a nil release. The
  decoder stands for \<open>json.Unmarshal\<close> and keeps the text of a non-empty file.
\<close>

definition test_json :: bytes where
  "test_json = ''{\"type\": \"object\"}''"

definition test_release :: template_release where
  "test_release = \<lparr>tr_TemplateName = ''javaapp'', tr_Name = ''v1.0.0'', tr_GitlabName = ''control'',
                    tr_GitlabProject = ''helm-template/javaapp''\<rparr>"

definition test_lib :: gitlab_lib where
  "test_lib = \<lparr>gl_GetFile = (\<lambda>proj ref path.
     if proj = ''helm-template/javaapp'' \<and> ref = ''v1.0.0'' \<and> path \<in> set schema_paths
     then Inr test_json else Inl (Text ''404 File Not Found''))\<rparr>"

definition test_lib_missing :: gitlab_lib where
  "test_lib_missing = \<lparr>gl_GetFile = (\<lambda>proj ref path.
     if path \<in> {applicationSchemaPath, applicationUISchemaPath}
     then Inl (Text (''404 File Not Found: '' @ path)) else gl_GetFile test_lib proj ref path)\<rparr>"

definition test_getter :: "gitlab_lib \<Rightarrow> getter" where
  "test_getter lib = \<lparr>gitlabFactory = \<lparr>GetByName = (\<lambda>n. if n = ''control'' then Inr lib
                                                       else Inl (Text ''gitlab not found''))\<rparr>,
                  templateReleaseMgr = (\<lambda>t r. if t = ''javaapp'' \<and> r = ''v1.0.0'' then Inr (Some test_release)
                                              else Inr None)\<rparr>"

definition test_dec :: "bytes \<Rightarrow> bytes option result" where
  "test_dec b = (if b = [] then Inl (Text ''unexpected end of JSON input'') else Inr (Some b))"

subsection \<open>Lemmas on the fan-out\<close>

lemma sum_list_map_update:
  fixes f :: "'a \<Rightarrow> nat"
  assumes "i < length xs"
  shows "sum_list (map f (xs[i := x])) = sum_list (map f xs) + f x - f (xs ! i)"
  using assms by (simp add: map_update sum_list_update)

lemma sum_list_map_ge:
  fixes f :: "'a \<Rightarrow> nat"
  assumes "i < length xs"
  shows "f (xs ! i) \<le> sum_list (map f xs)"
  using assms elem_le_sum_list [of i "map f xs"] by simp

lemma fanout_init_inv:
  "length v0 = length tasks \<Longrightarrow> length e0 = length tasks \<Longrightarrow>
   fanout_inv tasks wr v0 e0 (fanout_init v0 e0)"
  by (simp add: fanout_inv_def fanout_init_def g_pending_def comp_def sum_list_triv)

lemmas fanout_inv_simps = fanout_inv_def nth_list_update sum_list_map_update g_pending_def

lemma fanout_step_inv:
  assumes "fanout_step tasks wr s s'" and "fanout_inv tasks wr v0 e0 s"
  shows "fanout_inv tasks wr v0 e0 s'"
  using assms(1) by cases (use assms(2) in \<open>auto simp: fanout_inv_simps\<close>)+

lemma fanout_reach_inv:
  assumes "(fanout_step tasks wr)\<^sup>*\<^sup>* (fanout_init v0 e0) s"
    and "length v0 = length tasks" and "length e0 = length tasks"
  shows "fanout_inv tasks wr v0 e0 s"
  using assms(1)
  by induction (auto intro: fanout_step_inv fanout_init_inv [OF assms(2,3)])

lemma g_rank_0 [simp]: "g_rank g = 0 \<longleftrightarrow> g = GDone"
  by (cases g) auto

lemma rank_update:
  assumes "i < length xs" and "Suc (g_rank x) = g_rank (xs ! i)"
  shows "Suc (sum_list (map g_rank (xs[i := x]))) = sum_list (map g_rank xs)"
  using sum_list_map_update [OF assms(1), of g_rank x] sum_list_map_ge [OF assms(1), of g_rank] assms(2)
  by simp

text \<open>Every step lowers the rank sum by exactly one.\<close>

lemma fanout_step_measure:
  assumes "fanout_step tasks wr s s'" and "fanout_inv tasks wr v0 e0 s"
  shows "Suc (fo_measure s') = fo_measure s"
  using assms(1)
  by cases (use assms(2) in \<open>auto simp: fo_measure_def fanout_inv_def intro!: rank_update\<close>)+

lemma fanout_relpow_measure:
  assumes "(fanout_step tasks wr ^^ k) s s'" and "fanout_inv tasks wr v0 e0 s"
  shows "k + fo_measure s' = fo_measure s \<and> fanout_inv tasks wr v0 e0 s'"
  using assms(1)
proof (induction k arbitrary: s')
  case 0
  then show ?case using assms(2) by simp
next
  case (Suc k)
  then obtain s1 where s1: "(fanout_step tasks wr ^^ k) s s1" and st: "fanout_step tasks wr s1 s'"
    by auto
  from Suc.IH [OF s1] have m: "k + fo_measure s1 = fo_measure s" and inv: "fanout_inv tasks wr v0 e0 s1"
    by blast+
  show ?case
    using m fanout_step_measure [OF st inv] fanout_step_inv [OF st inv] by simp
qed

lemma fanout_init_measure: "fo_measure (fanout_init v0 e0) = 4 * length v0"
  by (simp add: fo_measure_def fanout_init_def comp_def sum_list_triv)

text \<open>A state with no rank left has passed \<open>Wait\<close>; any other state can take a step.\<close>

lemma fanout_measure_0_waited:
  assumes "fanout_inv tasks wr v0 e0 s" and "fo_measure s = 0"
  shows "fanout_waited tasks s" and "\<forall>i < length tasks. fo_g s ! i = GDone"
proof -
  have gdone: "fo_g s ! i = GDone" if "i < length tasks" for i
    using that assms by (auto simp: fanout_inv_def fo_measure_def sum_list_eq_0_iff)
  then show "\<forall>i < length tasks. fo_g s ! i = GDone" by blast
  have "fo_wg s = 0"
    using assms(1) gdone by (auto simp: fanout_inv_def g_pending_def in_set_conv_nth)
  moreover have "fo_spawned s = length tasks"
  proof (rule ccontr)
    assume "fo_spawned s \<noteq> length tasks"
    with assms(1) have "fo_spawned s < length tasks" by (simp add: fanout_inv_def)
    with assms(1) gdone show False by (auto simp: fanout_inv_def)
  qed
  ultimately show "fanout_waited tasks s" by (simp add: fanout_waited_def)
qed

lemma fanout_progress:
  assumes "fanout_inv tasks wr v0 e0 s" and "fo_measure s \<noteq> 0"
  obtains s' where "fanout_step tasks wr s s'"
proof -
  from assms(2) obtain g where "g \<in> set (fo_g s)" "g_rank g \<noteq> 0"
    by (auto simp: fo_measure_def sum_list_eq_0_iff)
  then obtain i where i: "i < length tasks" "fo_g s ! i \<noteq> GDone"
    using assms(1) by (auto simp: fanout_inv_def in_set_conv_nth)
  show ?thesis
  proof (cases "fo_g s ! i")
    case GNew
    with assms(1) i have "fo_spawned s < length tasks" by (auto simp: fanout_inv_def)
    then show ?thesis by (rule that [OF spawn])
  next
    case GStarted with i show ?thesis by (blast intro: that write_val)
  next
    case GWroteValue with i show ?thesis by (blast intro: that write_err)
  next
    case GWroteErr with i show ?thesis by (blast intro: that wg_done)
  next
    case GDone with i show ?thesis by simp
  qed
qed

lemma fanout_waited_all_done:
  assumes "fanout_inv tasks wr v0 e0 s" and "fanout_waited tasks s" and "i < length tasks"
  shows "fo_g s ! i = GDone"
proof -
  from assms(1,2) have "sum_list (map g_pending (fo_g s)) = 0"
    by (simp add: fanout_inv_def fanout_waited_def)
  moreover have "g_pending (fo_g s ! i) \<le> sum_list (map g_pending (fo_g s))"
    using assms(1,3) by (intro sum_list_map_ge) (simp add: fanout_inv_def)
  ultimately have "g_pending (fo_g s ! i) = 0" by linarith
  then show ?thesis by (simp add: g_pending_def split: if_splits)
qed

lemma fanout_waited_measure:
  assumes "fanout_inv tasks wr v0 e0 s"
  shows "fanout_waited tasks s \<longleftrightarrow> fo_measure s = 0"
proof
  assume "fanout_waited tasks s"
  with fanout_waited_all_done [OF assms] have "\<forall>g \<in> set (fo_g s). g = GDone"
    using assms by (auto simp: fanout_inv_def in_set_conv_nth)
  then show "fo_measure s = 0" by (simp add: fo_measure_def sum_list_eq_0_iff)
next
  assume "fo_measure s = 0"
  then show "fanout_waited tasks s" by (rule fanout_measure_0_waited [OF assms])
qed

text \<open>The interpreter and the step relation agree.\<close>

lemma fanout_exec_step: "fanout_exec tasks wr ev s = Some s' \<Longrightarrow> fanout_step tasks wr s s'"
  by (cases ev) (auto split: if_splits intro: fanout_step.intros fanout_step.wg_done [simplified])

lemma fanout_step_exec: "fanout_step tasks wr s s' \<Longrightarrow> \<exists>ev. fanout_exec tasks wr ev s = Some s'"
proof (induction rule: fanout_step.induct)
  case (spawn s)
  then show ?case by (intro exI [of _ Spawn]) simp
next
  case (write_val i s)
  then show ?case by (intro exI [of _ "WriteVal i"]) simp
next
  case (write_err i s)
  then show ?case by (intro exI [of _ "WriteErr i"]) simp
next
  case (wg_done i s)
  then show ?case by (intro exI [of _ "Done i"]) simp
qed

lemma fanout_run_relpow:
  "fanout_run tasks wr evs s = Some s' \<Longrightarrow> (fanout_step tasks wr ^^ length evs) s s'"
proof (induction evs arbitrary: s)
  case Nil
  then show ?case by simp
next
  case (Cons ev evs)
  then obtain s1 where "fanout_exec tasks wr ev s = Some s1" and "fanout_run tasks wr evs s1 = Some s'"
    by (auto split: option.splits)
  with Cons.IH show ?case by (metis fanout_exec_step relpowp_Suc_I2 length_Cons)
qed

lemma fanout_run_steps: "fanout_run tasks wr evs s = Some s' \<Longrightarrow> (fanout_step tasks wr)\<^sup>*\<^sup>* s s'"
  by (rule relpowp_imp_rtranclp [OF fanout_run_relpow])

lemmas demo_fanout_defs = demo_schedule_def demo_tasks_def fanout_init_def fanout_waited_def

subsection \<open>Lemmas on the getter\<close>

lemma first_err_None_iff [simp]: "first_err xs = None \<longleftrightarrow> (\<forall>x \<in> set xs. x = None)"
  by (induction xs rule: first_err.induct) auto

lemma first_err_nth:
  assumes "k < length xs" and "xs ! k = Some e" and "\<forall>j < k. xs ! j = None"
  shows "first_err xs = Some e"
  using assms
proof (induction xs arbitrary: k)
  case Nil
  then show ?case by simp
next
  case (Cons x xs)
  show ?case
  proof (cases k)
    case 0
    with Cons.prems show ?thesis by simp
  next
    case (Suc k')
    with Cons.prems(3) have "x = None" by auto
    moreover have "first_err xs = Some e"
    proof (rule Cons.IH)
      show "k' < length xs" "xs ! k' = Some e" using Cons.prems Suc by simp_all
      show "\<forall>j < k'. xs ! j = None"
        using Cons.prems(3) Suc by (metis Suc_mono nth_Cons_Suc)
    qed
    ultimately show ?thesis by simp
  qed
qed

lemma wr_keep_None [simp]: "wr_keep None e = e"
  by (simp add: wr_keep_def split: option.splits)

lemma map2_wr_set: "length e0 = length xs \<Longrightarrow> map2 wr_set e0 xs = xs"
  by (induction e0 xs rule: list_induct2) (simp_all add: wr_set_def)

lemma map2_wr_keep: "length e0 = length xs \<Longrightarrow> \<forall>x \<in> set e0. x = None \<Longrightarrow> map2 wr_keep e0 xs = xs"
  by (induction e0 xs rule: list_induct2) (auto simp: wr_keep_def split: option.splits)

lemma readFile_task_Inl: "gl_GetFile lib (tr_GitlabProject tr) (tr_Name tr) p = Inl e \<Longrightarrow>
    readFile_task lib tr p = ([], Some e)"
  by (simp add: readFile_task_def)

text \<open>Once the release and the GitLab library are found, the getter is the two joins.\<close>

lemma GetTemplateSchema_found:
  assumes "templateReleaseMgr g tn rn = Inr (Some tr)"
    and "GetByName (gitlabFactory g) (tr_GitlabName tr) = Inr lib"
  shows "GetTemplateSchema g dec tn rn =
     (let errs = map (snd \<circ> readFile_task lib tr) schema_paths in
      case first_err errs of
        Some e \<Rightarrow> Inl e
      | None \<Rightarrow>
     (let ms = map (fst \<circ> unmarshal_task dec \<circ> fst \<circ> readFile_task lib tr) schema_paths;
          errs2 = map (snd \<circ> unmarshal_task dec \<circ> fst \<circ> readFile_task lib tr) schema_paths
      in case first_err errs2 of
        Some e \<Rightarrow> Inl e
      | None \<Rightarrow> Inr \<lparr>sc_Application = \<lparr>JSONSchema = ms ! 1, UISchema = ms ! 3\<rparr>,
                     sc_Pipeline = \<lparr>JSONSchema = ms ! 0, UISchema = ms ! 2\<rparr>\<rparr>))"
  using assms
  by (auto simp: GetTemplateSchema_def fanout_join_def map2_wr_set map2_wr_keep schema_paths_def
           split: option.splits)

subsection \<open>Properties of the fan-out\<close>

text \<open>
  C6. The join is race-free (spec 5 and 9, refinement of the sequential fan-out):
  in every interleaving of the goroutines from the state after \<open>Add(n)\<close>, once
  \<open>Wait\<close> returns, the value slots and the error slots are exactly those of running
  the tasks one after the other; each slot was written only by its own goroutine.
\<close>

theorem fanout_wait_join:
  assumes "(fanout_step tasks wr)\<^sup>*\<^sup>* (fanout_init v0 e0) s"
    and "length v0 = length tasks" and "length e0 = length tasks"
    and "fanout_waited tasks s"
  shows "(fo_val s, fo_err s) = fanout_join tasks wr e0"
proof -
  have inv: "fanout_inv tasks wr v0 e0 s" by (rule fanout_reach_inv [OF assms(1-3)])
  then have "fo_val s ! i = fst (tasks ! i) \<and> fo_err s ! i = wr (e0 ! i) (snd (tasks ! i))"
    if "i < length tasks" for i
    using fanout_waited_all_done [OF inv assms(4) that] that by (simp add: fanout_inv_def)
  with inv assms(3) show ?thesis
    by (auto simp: fanout_join_def fanout_inv_def intro: nth_equalityI)
qed

text \<open>
  C18. \<open>Wait\<close> always returns (liveness of the join barrier): from every state an
  interleaving can reach, some continuation of it reaches a state where every
  goroutine has been spawned and the WaitGroup counter is zero.
\<close>

theorem fanout_wait_returns:
  assumes "(fanout_step tasks wr)\<^sup>*\<^sup>* (fanout_init v0 e0) s"
    and "length v0 = length tasks" and "length e0 = length tasks"
  shows "\<exists>s'. (fanout_step tasks wr)\<^sup>*\<^sup>* s s' \<and> fanout_waited tasks s'"
proof -
  have "fanout_inv tasks wr v0 e0 s" by (rule fanout_reach_inv [OF assms])
  then show ?thesis
  proof (induction "fo_measure s" arbitrary: s rule: less_induct)
    case less
    show ?case
    proof (cases "fo_measure s = 0")
      case True
      with less.prems show ?thesis by (auto simp: fanout_waited_measure)
    next
      case False
      then obtain s1 where st: "fanout_step tasks wr s s1" by (rule fanout_progress [OF less.prems])
      have "fo_measure s1 < fo_measure s" using fanout_step_measure [OF st less.prems] by simp
      with less.hyps fanout_step_inv [OF st less.prems]
      obtain s' where "(fanout_step tasks wr)\<^sup>*\<^sup>* s1 s'" "fanout_waited tasks s'" by blast
      with st show ?thesis by (blast intro: converse_rtranclp_into_rtranclp)
    qed
  qed
qed

text \<open>
  C19. Every schedule is finite (termination of the fan-out): an interleaving of \<open>n\<close>
  goroutines takes at most \<open>4 n\<close> steps, and it has passed the join exactly when it
  has taken all \<open>4 n\<close> of them.
\<close>

theorem fanout_schedules_bounded:
  assumes "(fanout_step tasks wr ^^ k) (fanout_init v0 e0) s"
    and "length v0 = length tasks" and "length e0 = length tasks"
  shows "k \<le> 4 * length tasks \<and> (k = 4 * length tasks \<longleftrightarrow> fanout_waited tasks s)"
proof -
  from fanout_relpow_measure [OF assms(1) fanout_init_inv [OF assms(2,3)]]
  have "k + fo_measure s = 4 * length tasks" "fanout_inv tasks wr v0 e0 s"
    using assms(2) by (simp_all add: fanout_init_measure)
  then show ?thesis by (auto simp: fanout_waited_measure)
qed

theorem fanout_wait_join_witness:
  "\<exists>s. (fanout_step demo_tasks wr_set)\<^sup>*\<^sup>* (fanout_init [[], [], [], []] [None, None, None, None]) s \<and>
       fanout_waited demo_tasks s \<and>
       (fo_val s, fo_err s) = fanout_join demo_tasks wr_set [None, None, None, None] \<and>
       fo_err s = [None, Some (Text ''gitlab: 500''), None, Some (Text ''gitlab: 404'')]"
proof -
  obtain s where run: "fanout_run demo_tasks wr_set demo_schedule
                         (fanout_init [[], [], [], []] [None, None, None, None]) = Some s"
    and w: "fanout_waited demo_tasks s"
    by (simp add: demo_fanout_defs)
  have reach: "(fanout_step demo_tasks wr_set)\<^sup>*\<^sup>* (fanout_init [[], [], [], []] [None, None, None, None]) s"
    by (rule fanout_run_steps [OF run])
  have "(fo_val s, fo_err s) = fanout_join demo_tasks wr_set [None, None, None, None]"
    by (rule fanout_wait_join [OF reach _ _ w]) (simp_all add: demo_tasks_def)
  with reach w show ?thesis by (auto simp: fanout_join_def demo_tasks_def wr_set_def)
qed

theorem fanout_wait_returns_witness:
  "\<exists>s. (fanout_step demo_tasks wr_set)\<^sup>*\<^sup>* (fanout_init [[], [], [], []] [None, None, None, None]) s \<and>
       \<not> fanout_waited demo_tasks s \<and>
       (\<exists>s'. (fanout_step demo_tasks wr_set)\<^sup>*\<^sup>* s s' \<and> fanout_waited demo_tasks s')"
proof -
  obtain s where run: "fanout_run demo_tasks wr_set (take 7 demo_schedule)
                         (fanout_init [[], [], [], []] [None, None, None, None]) = Some s"
    and nw: "\<not> fanout_waited demo_tasks s"
    by (simp add: demo_fanout_defs)
  have reach: "(fanout_step demo_tasks wr_set)\<^sup>*\<^sup>* (fanout_init [[], [], [], []] [None, None, None, None]) s"
    by (rule fanout_run_steps [OF run])
  have "\<exists>s'. (fanout_step demo_tasks wr_set)\<^sup>*\<^sup>* s s' \<and> fanout_waited demo_tasks s'"
    by (rule fanout_wait_returns [OF reach]) (simp_all add: demo_tasks_def)
  with reach nw show ?thesis by blast
qed

theorem fanout_schedules_bounded_witness:
  "\<exists>s. (fanout_step demo_tasks wr_set ^^ 16) (fanout_init [[], [], [], []] [None, None, None, None]) s \<and>
       16 \<le> 4 * length demo_tasks \<and> fanout_waited demo_tasks s"
proof -
  obtain s where run: "fanout_run demo_tasks wr_set demo_schedule
                         (fanout_init [[], [], [], []] [None, None, None, None]) = Some s"
    by (simp add: demo_fanout_defs)
  have k: "(fanout_step demo_tasks wr_set ^^ 16) (fanout_init [[], [], [], []] [None, None, None, None]) s"
  proof -
    have len: "length demo_schedule = 16" by (simp add: demo_schedule_def)
    show ?thesis using fanout_run_relpow [OF run] unfolding len .
  qed
  have "16 \<le> 4 * length demo_tasks \<and> (16 = 4 * length demo_tasks \<longleftrightarrow> fanout_waited demo_tasks s)"
    by (rule fanout_schedules_bounded [OF k]) (simp_all add: demo_tasks_def)
  with k show ?thesis by (auto simp: demo_tasks_def)
qed

subsection \<open>Properties of the getter\<close>

text \<open>
  C5. No partial schemas (spec 5 and 8): when the release and its GitLab library are
  found and the fetch of file \<open>k\<close> fails while the files before it in slot order
  (pipeline, application, pipeline UI, application UI) were fetched, \<open>GetTemplateSchema\<close>
  fails with the error of file \<open>k\<close>, whatever the later fetches returned.
\<close>

theorem GetTemplateSchema_fetch_error:
  assumes "templateReleaseMgr g tn rn = Inr (Some tr)"
    and "GetByName (gitlabFactory g) (tr_GitlabName tr) = Inr lib"
    and "k < 4" and "gl_GetFile lib (tr_GitlabProject tr) (tr_Name tr) (schema_paths ! k) = Inl e"
    and "\<forall>j < k. \<exists>b. gl_GetFile lib (tr_GitlabProject tr) (tr_Name tr) (schema_paths ! j) = Inr b"
  shows "GetTemplateSchema g dec tn rn = Inl e"
proof -
  let ?errs = "map (snd \<circ> readFile_task lib tr) schema_paths"
  have len: "length schema_paths = 4" by (simp add: schema_paths_def)
  have "first_err ?errs = Some e"
  proof (rule first_err_nth)
    show "k < length ?errs" using assms(3) len by simp
    show "?errs ! k = Some e" using assms(3,4) len by (simp add: readFile_task_Inl)
    show "\<forall>j < k. ?errs ! j = None"
      using assms(3,5) len by (auto simp: readFile_task_def)
  qed
  then show ?thesis by (simp add: GetTemplateSchema_found [OF assms(1,2)])
qed

text \<open>
  C28. The schemas are wired to the right files (functional behaviour of the success
  path): when the four files are fetched and parse, the application schema is the
  parsed \<open>application.schema.json\<close> with UI schema \<open>application.ui.schema.json\<close>,
  and the pipeline schema is \<open>pipeline.schema.json\<close> with \<open>pipeline.ui.schema.json\<close>.
\<close>

theorem GetTemplateSchema_ok:
  assumes "templateReleaseMgr g tn rn = Inr (Some tr)"
    and "GetByName (gitlabFactory g) (tr_GitlabName tr) = Inr lib"
    and "\<forall>p \<in> set schema_paths. gl_GetFile lib (tr_GitlabProject tr) (tr_Name tr) p = Inr (f p)"
    and "\<forall>p \<in> set schema_paths. dec (f p) = Inr (js p)"
  shows "GetTemplateSchema g dec tn rn =
    Inr \<lparr>sc_Application = \<lparr>JSONSchema = js applicationSchemaPath, UISchema = js applicationUISchemaPath\<rparr>,
         sc_Pipeline = \<lparr>JSONSchema = js pipelineSchemaPath, UISchema = js pipelineUISchemaPath\<rparr>\<rparr>"
  using assms(3,4)
  by (simp add: GetTemplateSchema_found [OF assms(1,2)] schema_paths_def readFile_task_def
                unmarshal_task_def)

text \<open>
  C29. A missing release is a typed 404 (the second half of \<open>schema_test.go\<close>): when the
  release manager answers a nil release, \<open>GetTemplateSchema\<close> fails with HTTP status
  404, error code \<open>ReleaseNotFound\<close> and a message naming release and template.
\<close>

theorem GetTemplateSchema_release_not_found:
  assumes "templateReleaseMgr g tn rn = Inr None"
  shows "GetTemplateSchema g dec tn rn =
           Inl (HttpErr op_getTemplateSchema 404 errCodeReleaseNotFound (release_not_found_msg rn tn))"
  using assms by (simp add: GetTemplateSchema_def)

lemmas test_getter_defs = test_getter_def test_lib_def test_lib_missing_def test_release_def test_dec_def
  test_json_def schema_paths_def pipelineSchemaPath_def applicationSchemaPath_def
  pipelineUISchemaPath_def applicationUISchemaPath_def

theorem GetTemplateSchema_fetch_error_witness:
  "GetTemplateSchema (test_getter test_lib_missing) test_dec ''javaapp'' ''v1.0.0'' =
     Inl (Text ''404 File Not Found: schema/application.schema.json'')"
  by (rule GetTemplateSchema_fetch_error [where k = 1]) (auto simp: test_getter_defs less_Suc_eq)

theorem GetTemplateSchema_ok_witness:
  "GetTemplateSchema (test_getter test_lib) test_dec ''javaapp'' ''v1.0.0'' =
     Inr \<lparr>sc_Application = \<lparr>JSONSchema = Some test_json, UISchema = Some test_json\<rparr>,
          sc_Pipeline = \<lparr>JSONSchema = Some test_json, UISchema = Some test_json\<rparr>\<rparr>"
  by (rule GetTemplateSchema_ok [where f = "\<lambda>_. test_json" and js = "\<lambda>_. Some test_json"])
     (auto simp: test_getter_defs)

theorem GetTemplateSchema_release_not_found_witness:
  "GetTemplateSchema (test_getter test_lib) test_dec ''javaapp'' ''release-not-exists'' =
     Inl (HttpErr op_getTemplateSchema 404 ''ReleaseNotFound''
            ''the release release-not-exists of template javaapp is not found'')"
  using GetTemplateSchema_release_not_found [of "test_getter test_lib" "''javaapp''" "''release-not-exists''"]
  by (simp add: test_getter_def errCodeReleaseNotFound_def release_not_found_msg_def)

end
