(* ===== verification/TemplateController.thy ===== *)
theory TemplateController
  imports Schema
begin

text \<open>
  The template controller (\<open>src/core/controller/template/controller.go\<close>) and the
  construction of the schema getter it holds (\<open>newSchemaGetter\<close> in
  \<open>src/pkg/templaterelease/schema/schema.go\<close>). The controller holds the template
  manager, the template-release manager and the schema getter; each of its three
  methods calls one of them and converts a successful answer with \<open>toTemplates\<close>,
  \<open>toReleases\<close> or \<open>toSchemas\<close>, whose bodies are not in the sources and are parameters.
  The managers' answers are values of the model (\<open>'t\<close>, \<open>'r\<close> for their rows), the
  JSON decoder of the getter is the parameter \<open>dec\<close> of theory \<open>Schema\<close>.
\<close>

subsection \<open>The schema getter\<close>

text \<open>The \<open>Getter\<close> interface: its one method \<open>GetTemplateSchema\<close>.\<close>

type_synonym 'j Getter = "string \<Rightarrow> string \<Rightarrow> 'j schemas result"

text \<open>\<open>newSchemaGetter()\<close> over the process-wide GitLab factory and release manager.\<close>

definition newSchemaGetter ::
  "gitlab_factory \<Rightarrow> (string \<Rightarrow> string \<Rightarrow> template_release option result) \<Rightarrow> getter" where
  "newSchemaGetter Fty Mgr = \<lparr>gitlabFactory = Fty, templateReleaseMgr = Mgr\<rparr>"

subsection \<open>The controller\<close>

record ('t, 'r, 'j) template_controller =
  templateMgr_List :: "'t list result"
  templateReleaseMgr_ListByTemplateName :: "string \<Rightarrow> 'r list result"
  templateSchemaGetter :: "'j Getter"

text \<open>
  \<open>NewController()\<close>: the template manager \<open>tmanager.Mgr\<close> (its \<open>List\<close>), the release
  manager \<open>trmanager.Mgr\<close> (its \<open>ListByTemplateName\<close>), and \<open>templateschema.Gtr\<close>, the
  getter \<open>newSchemaGetter\<close> builds over the GitLab factory and the release manager's
  \<open>GetByTemplateNameAndRelease\<close>.
\<close>

definition tc_NewController ::
  "'t list result \<Rightarrow> (string \<Rightarrow> 'r list result) \<Rightarrow> gitlab_factory \<Rightarrow>
   (string \<Rightarrow> string \<Rightarrow> template_release option result) \<Rightarrow> (bytes \<Rightarrow> 'j option result) \<Rightarrow>
   ('t, 'r, 'j) template_controller" where
  "tc_NewController tmList trList Fty trGet dec =
     \<lparr>templateMgr_List = tmList, templateReleaseMgr_ListByTemplateName = trList,
      templateSchemaGetter = GetTemplateSchema (newSchemaGetter Fty trGet) dec\<rparr>"

definition ListTemplate :: "('t, 'r, 'j) template_controller \<Rightarrow> ('t list \<Rightarrow> 'ts) \<Rightarrow> 'ts result" where
  "ListTemplate c toTemplates =
     (case templateMgr_List c of
        Inl err \<Rightarrow> Inl err
      | Inr templateModels \<Rightarrow> Inr (toTemplates templateModels))"

definition ListTemplateRelease ::
  "('t, 'r, 'j) template_controller \<Rightarrow> ('r list \<Rightarrow> 'rs) \<Rightarrow> string \<Rightarrow> 'rs result" where
  "ListTemplateRelease c toReleases templateName =
     (case templateReleaseMgr_ListByTemplateName c templateName of
        Inl err \<Rightarrow> Inl err
      | Inr templateReleaseModels \<Rightarrow> Inr (toReleases templateReleaseModels))"

text \<open>The controller's \<open>GetTemplateSchema\<close> method, through \<open>tc_GetTemplateSchema\<close>.\<close>

definition ctl_GetTemplateSchema ::
  "('t, 'r, 'j) template_controller \<Rightarrow> ('j schemas \<Rightarrow> 'c) \<Rightarrow> string \<Rightarrow> string \<Rightarrow> 'c result" where
  "ctl_GetTemplateSchema c toSchemas templateName releaseName =
     tc_GetTemplateSchema (templateSchemaGetter c) toSchemas templateName releaseName"

text \<open>
  The \<open>Controller\<close> interface, a record of its three methods (the converters fixed),
  and the assertion \<open>var _ Controller = (*controller)(nil)\<close>: the methods above are
  its implementation.
\<close>

record ('ts, 'rs, 'c) template_Controller =
  TC_ListTemplate :: "'ts result"
  TC_ListTemplateRelease :: "string \<Rightarrow> 'rs result"
  TC_GetTemplateSchema :: "string \<Rightarrow> string \<Rightarrow> 'c result"

definition template_controller_Controller ::
  "('t, 'r, 'j) template_controller \<Rightarrow> ('t list \<Rightarrow> 'ts) \<Rightarrow> ('r list \<Rightarrow> 'rs) \<Rightarrow> ('j schemas \<Rightarrow> 'c) \<Rightarrow>
   ('ts, 'rs, 'c) template_Controller" where
  "template_controller_Controller c toTemplates toReleases toSchemas =
     \<lparr>TC_ListTemplate = ListTemplate c toTemplates,
      TC_ListTemplateRelease = ListTemplateRelease c toReleases,
      TC_GetTemplateSchema = ctl_GetTemplateSchema c toSchemas\<rparr>"

subsection \<open>Lemmas\<close>

text \<open>
  The schema method of the controller \<open>tc_NewController\<close> builds is the getter of
  theory \<open>Schema\<close> followed by \<open>toSchemas\<close>: the getter's error passes unchanged, so a
  missing release is the getter's 404 error.
\<close>

lemma ctl_GetTemplateSchema_result:
  "ctl_GetTemplateSchema (tc_NewController tmList trList Fty trGet dec) toSchemas t r =
   map_sum id toSchemas (GetTemplateSchema \<lparr>gitlabFactory = Fty, templateReleaseMgr = trGet\<rparr> dec t r)"
  by (simp add: ctl_GetTemplateSchema_def tc_GetTemplateSchema_def tc_NewController_def newSchemaGetter_def
      split: sum.split)

lemma ctl_GetTemplateSchema_release_not_found:
  "trGet t r = Inr None \<Longrightarrow>
   ctl_GetTemplateSchema (tc_NewController tmList trList Fty trGet dec) toSchemas t r =
     Inl (HttpErr op_getTemplateSchema 404 errCodeReleaseNotFound (release_not_found_msg r t))"
  by (simp add: ctl_GetTemplateSchema_result GetTemplateSchema_def)

end
