(* ===== verification/Config.thy ===== *)
theory Config
  imports Prelude
begin

text \<open>
  The configuration loader (\<open>src/core/config/config.go\<close>). \<open>LoadConfig\<close> reads the file,
  decodes it as YAML, and then rewrites the Argo CD and Tekton mappers: a key such as
  \<open>"test,reg"\<close> is split at commas and every part maps to the key's value. The
  expansion ranges over a Go map, whose iteration order the runtime chooses; here an
  iteration of a map is any list of its entries with distinct keys, and \<open>LoadConfig\<close>
  takes the order the runtime picked for each of the two maps. The lemmas show that
  \<open>strings.Split\<close> and joining are inverse, that the expansion gives each part the value
  of its key and maps nothing else when no part occurs in two keys, so that the loaded
  configuration does not depend on the iteration order, and that whenever two keys
  share a part with different values it does.
\<close>

subsection \<open>\<open>strings.Split\<close> with a one-character separator\<close>

fun Split :: "string \<Rightarrow> char \<Rightarrow> string list" where
  "Split [] sep = [[]]"
| "Split (x # xs) sep =
     (if x = sep then [] # Split xs sep
      else (case Split xs sep of w # ws \<Rightarrow> (x # w) # ws | [] \<Rightarrow> [[x]]))"

text \<open>\<open>strings.Join\<close>, the inverse used to state the round trip.\<close>

fun Join :: "string list \<Rightarrow> char \<Rightarrow> string" where
  "Join [] sep = []"
| "Join [w] sep = w"
| "Join (w # ws) sep = w @ sep # Join ws sep"

subsection \<open>Mapper expansion\<close>

text \<open>
  \<open>for i := 0; i < len(ks); i++ { newMapper[ks[i]] = v }\<close> for one entry, and the
  range over all entries in iteration order, starting from the empty map.
\<close>

definition expand_key :: "string \<Rightarrow> 'v \<Rightarrow> (string \<rightharpoonup> 'v) \<Rightarrow> (string \<rightharpoonup> 'v)" where
  "expand_key key v m = fold (\<lambda>k m. m(k \<mapsto> v)) (Split key CHR '','') m"

definition expand_mapper :: "(string \<times> 'v) list \<Rightarrow> (string \<rightharpoonup> 'v)" where
  "expand_mapper entries = fold (\<lambda>(key, v). expand_key key v) entries Map.empty"

text \<open>A list is an iteration of a Go map when it lists each entry once.\<close>

definition is_iteration :: "(string \<rightharpoonup> 'v) \<Rightarrow> (string \<times> 'v) list \<Rightarrow> bool" where
  "is_iteration m es \<longleftrightarrow> distinct (map fst es) \<and> map_of es = m"

text \<open>No comma-separated part occurs in two keys of the map.\<close>

definition parts_disjoint :: "(string \<rightharpoonup> 'v) \<Rightarrow> bool" where
  "parts_disjoint m \<longleftrightarrow>
     (\<forall>k1 \<in> dom m. \<forall>k2 \<in> dom m. k1 \<noteq> k2 \<longrightarrow> set (Split k1 CHR '','') \<inter> set (Split k2 CHR '','') = {})"

subsection \<open>\<open>LoadConfig\<close>\<close>

text \<open>
  The fields of \<open>Config\<close> that \<open>LoadConfig\<close> rewrites; the others are carried by the
  record's extension. \<open>ReadFile\<close> and the YAML decoder are parameters, as are the
  iteration orders \<open>iterA\<close> and \<open>iterT\<close> of the two maps.
\<close>

record ('a, 't) config =
  ArgoCDMapper :: "string \<rightharpoonup> 'a"
  TektonMapper :: "string \<rightharpoonup> 't"

definition LoadConfig ::
  "(string \<Rightarrow> bytes result) \<Rightarrow> (bytes \<Rightarrow> ('a, 't, 'z) config_scheme result) \<Rightarrow>
   ((string \<rightharpoonup> 'a) \<Rightarrow> (string \<times> 'a) list) \<Rightarrow> ((string \<rightharpoonup> 't) \<Rightarrow> (string \<times> 't) list) \<Rightarrow>
   string \<Rightarrow> ('a, 't, 'z) config_scheme result" where
  "LoadConfig ReadFile yamlUnmarshal iterA iterT configFilePath =
     (case ReadFile configFilePath of
        Inl err \<Rightarrow> Inl err
      | Inr data \<Rightarrow>
     (case yamlUnmarshal data of
        Inl err \<Rightarrow> Inl err
      | Inr config \<Rightarrow>
     (let config = config\<lparr>ArgoCDMapper := expand_mapper (iterA (ArgoCDMapper config))\<rparr>;
          config = config\<lparr>TektonMapper := expand_mapper (iterT (TektonMapper config))\<rparr>
      in Inr config)))"

text \<open>An iteration order is valid when it lists every map it is given.\<close>

definition valid_order :: "((string \<rightharpoonup> 'v) \<Rightarrow> (string \<times> 'v) list) \<Rightarrow> (string \<rightharpoonup> 'v) \<Rightarrow> bool" where
  "valid_order iter m \<longleftrightarrow> is_iteration m (iter m)"

subsection \<open>Concrete inputs\<close>

text \<open>
  A Tekton mapper with the overlapping keys \<open>"dev,test"\<close> and \<open>"test,reg"\<close>, and one
  iteration of it; and a mapper with disjoint keys.
\<close>

definition overlap_mapper :: "string \<rightharpoonup> nat" where
  "overlap_mapper = [''dev,test'' \<mapsto> 1, ''test,reg'' \<mapsto> 2]"

definition overlap_order1 :: "(string \<times> nat) list" where
  "overlap_order1 = [(''dev,test'', 1), (''test,reg'', 2)]"

definition disjoint_mapper :: "string \<rightharpoonup> nat" where
  "disjoint_mapper = [''dev,test'' \<mapsto> 1, ''reg'' \<mapsto> 2]"

definition demo_read :: "string \<Rightarrow> bytes result" where
  "demo_read path = (if path = ''config.yaml'' then Inr ''tektonMapper: ...'' else Inl (Text ''no such file''))"

definition demo_yaml :: "(string \<rightharpoonup> nat) \<Rightarrow> bytes \<Rightarrow> (nat, nat) config result" where
  "demo_yaml tm data = Inr \<lparr>ArgoCDMapper = Map.empty, TektonMapper = tm\<rparr>"

definition fixed_order :: "(string \<times> nat) list \<Rightarrow> (string \<rightharpoonup> nat) \<Rightarrow> (string \<times> nat) list" where
  "fixed_order es m = es"

subsection \<open>Lemmas on splitting\<close>

lemma Split_not_Nil [simp]: "Split s sep \<noteq> []"
  by (induction s sep rule: Split.induct) (auto split: list.splits)

lemma Split_Cons_other:
  "x \<noteq> sep \<Longrightarrow> Split (x # xs) sep = (x # hd (Split xs sep)) # tl (Split xs sep)"
  by (cases "Split xs sep") auto

lemma Join_Split: "Join (Split s sep) sep = s"
proof (induction s)
  case Nil
  then show ?case by simp
next
  case (Cons x xs)
  then show ?case
    by (cases "Split xs sep"; cases "tl (Split xs sep)") (auto simp: Split_Cons_other)
qed

lemma Split_append_sep:
  "sep \<notin> set w \<Longrightarrow> Split (w @ sep # rest) sep = w # Split rest sep"
  by (induction w) (auto simp: Split_Cons_other)

lemma Split_no_sep: "sep \<notin> set w \<Longrightarrow> Split w sep = [w]"
  by (induction w) (auto simp: Split_Cons_other)

lemma Split_Join:
  "ws \<noteq> [] \<Longrightarrow> \<forall>w \<in> set ws. sep \<notin> set w \<Longrightarrow> Split (Join ws sep) sep = ws"
  by (induction ws sep rule: Join.induct) (auto simp: Split_append_sep Split_no_sep)

subsection \<open>Lemmas on the expansion\<close>

lemma fold_upd_lookup:
  "fold (\<lambda>k m. m(k \<mapsto> v)) ks m n = (if n \<in> set ks then Some v else m n)"
  by (induction ks arbitrary: m) auto

lemma expand_key_lookup:
  "expand_key key v m n = (if n \<in> set (Split key CHR '','') then Some v else m n)"
  by (simp add: expand_key_def fold_upd_lookup)

text \<open>The last entry (in iteration order) whose key has the part wins.\<close>

lemma fold_expand_lookup:
  "fold (\<lambda>(key, v). expand_key key v) es m n =
     (case filter (\<lambda>(key, v). n \<in> set (Split key CHR '','')) es of
        [] \<Rightarrow> m n
      | fs \<Rightarrow> Some (snd (last fs)))"
  by (induction es arbitrary: m)
     (auto simp: expand_key_lookup split: list.splits prod.splits)

lemma distinct_set_singleton:
  assumes "distinct xs" and "set xs = {x}"
  shows "xs = [x]"
proof (cases xs)
  case Nil
  with assms show ?thesis by simp
next
  case (Cons y ys)
  with assms have y: "y = x" and sub: "set ys \<subseteq> {x}" and nin: "y \<notin> set ys" by auto
  then have "set ys = {}" using subset_singletonD [OF sub] by auto
  with Cons y show ?thesis by simp
qed

lemma filter_single_key:
  assumes "is_iteration m es" and "parts_disjoint m" and "m key = Some v"
    and "n \<in> set (Split key CHR '','')"
  shows "filter (\<lambda>(key, v). n \<in> set (Split key CHR '','')) es = [(key, v)]"
proof -
  have dist: "distinct (map fst es)" and mo: "map_of es = m"
    using assms(1) by (simp_all add: is_iteration_def)
  have kv: "(key, v) \<in> set es"
    using assms(3) mo by (auto intro: map_of_SomeD)
  have other: "k = key" if "(k, w) \<in> set es" "n \<in> set (Split k CHR '','')" for k w
  proof (rule ccontr)
    assume ne: "k \<noteq> key"
    have "m k = Some w" using map_of_is_SomeI [OF dist that(1)] mo by simp
    then have "k \<in> dom m" "key \<in> dom m" using assms(3) by blast+
    then have "set (Split k CHR '','') \<inter> set (Split key CHR '','') = {}"
      using assms(2) [unfolded parts_disjoint_def, rule_format] ne by blast
    with that(2) assms(4) show False by blast
  qed
  have "set (filter (\<lambda>(key, v). n \<in> set (Split key CHR '','')) es) = {(key, v)}"
  proof (intro equalityI subsetI)
    fix x assume xin: "x \<in> set (filter (\<lambda>(key, v). n \<in> set (Split key CHR '','')) es)"
    obtain k w where x1: "x = (k, w)" by (cases x)
    with xin have x: "x = (k, w)" "(k, w) \<in> set es" "n \<in> set (Split k CHR '','')"
      by simp_all
    then have "k = key" using other by blast
    with x kv dist have "w = v" using eq_key_imp_eq_value by metis
    with x \<open>k = key\<close> show "x \<in> {(key, v)}" by simp
  next
    fix x assume "x \<in> {(key, v)}"
    with kv assms(4) show "x \<in> set (filter (\<lambda>(key, v). n \<in> set (Split key CHR '','')) es)" by auto
  qed
  moreover have "distinct (filter (\<lambda>(key, v). n \<in> set (Split key CHR '','')) es)"
    using dist by (simp add: distinct_map)
  ultimately show ?thesis by (intro distinct_set_singleton)
qed

lemma expand_mapper_part:
  assumes "is_iteration m es" and "parts_disjoint m" and "m key = Some v"
    and "n \<in> set (Split key CHR '','')"
  shows "expand_mapper es n = Some v"
  using filter_single_key [OF assms] by (simp add: expand_mapper_def fold_expand_lookup)

lemma expand_mapper_no_part:
  assumes "is_iteration m es" and "\<forall>key \<in> dom m. n \<notin> set (Split key CHR '','')"
  shows "expand_mapper es n = None"
proof -
  have "filter (\<lambda>(key, v). n \<in> set (Split key CHR '','')) es = []"
  proof (rule filter_False, clarify)
    fix k w assume "(k, w) \<in> set es" "n \<in> set (Split k CHR '','')"
    moreover have "m k = Some w"
      using assms(1) \<open>(k, w) \<in> set es\<close> map_of_is_SomeI by (fastforce simp: is_iteration_def)
    ultimately show False using assms(2) by blast
  qed
  then show ?thesis by (simp add: expand_mapper_def fold_expand_lookup)
qed

text \<open>With disjoint parts, the expansion does not depend on the iteration.\<close>

lemma expand_mapper_iterations_eq:
  assumes "is_iteration m es1" and "is_iteration m es2" and "parts_disjoint m"
  shows "expand_mapper es1 = expand_mapper es2"
proof
  fix n
  show "expand_mapper es1 n = expand_mapper es2 n"
  proof (cases "\<exists>key \<in> dom m. n \<in> set (Split key CHR '','')")
    case True
    then obtain key v where "m key = Some v" "n \<in> set (Split key CHR '','')" by blast
    then show ?thesis using expand_mapper_part assms by metis
  next
    case False
    then show ?thesis using expand_mapper_no_part assms(1,2) by metis
  qed
qed

lemma LoadConfig_Inr:
  assumes "ReadFile path = Inr data" and "yamlUnmarshal data = Inr c"
  shows "LoadConfig ReadFile yamlUnmarshal iterA iterT path =
           Inr (c\<lparr>ArgoCDMapper := expand_mapper (iterA (ArgoCDMapper c)),
                  TektonMapper := expand_mapper (iterT (TektonMapper c))\<rparr>)"
  using assms by (simp add: LoadConfig_def)

text \<open>Moving two entries of an iteration to its end gives an iteration of the same map.\<close>

lemma map_of_filter_keys:
  "map_of (filter (\<lambda>e. P (fst e)) xs) x = (if P x then map_of xs x else None)"
  by (induction xs) auto

lemma is_iteration_move_last:
  assumes "is_iteration m es" and "m k1 = Some v1" and "m k2 = Some v2" and "k1 \<noteq> k2"
  shows "is_iteration m (filter (\<lambda>e. fst e \<noteq> k1 \<and> fst e \<noteq> k2) es @ [(k1, v1), (k2, v2)])"
proof -
  have d: "distinct (map fst es)" and mo: "map_of es = m" using assms(1) by (simp_all add: is_iteration_def)
  have "distinct (map fst (filter (\<lambda>e. fst e \<noteq> k1 \<and> fst e \<noteq> k2) es))"
    using d by (simp add: distinct_map_filter)
  moreover have "map_of (filter (\<lambda>e. fst e \<noteq> k1 \<and> fst e \<noteq> k2) es @ [(k1, v1), (k2, v2)]) x = m x" for x
    using map_of_filter_keys [of "\<lambda>k. k \<noteq> k1 \<and> k \<noteq> k2" es x] mo assms(2-4)
    by (auto simp: map_add_def split: option.split)
  ultimately show ?thesis using assms(4) by (auto simp: is_iteration_def)
qed

lemmas config_demo_defs = overlap_mapper_def overlap_order1_def disjoint_mapper_def
  demo_read_def demo_yaml_def fixed_order_def valid_order_def is_iteration_def

subsection \<open>Properties of the loader\<close>

text \<open>
  C31. What \<open>LoadConfig\<close> loads, and that it does not depend on the iteration orders
  when no comma-separated part occurs in two keys of a mapper: the load succeeds; the
  configuration is the decoded one with its two mappers expanded; every part of every
  key maps to the key's value and nothing else is mapped; and any other pair of
  iteration orders the Go runtime may choose loads the same configuration.
\<close>

theorem LoadConfig_order_independent:
  assumes "ReadFile path = Inr data" and "yamlUnmarshal data = Inr c"
    and "valid_order iterA (ArgoCDMapper c)" and "valid_order iterT (TektonMapper c)"
    and "parts_disjoint (ArgoCDMapper c)" and "parts_disjoint (TektonMapper c)"
  shows "\<exists>c'. LoadConfig ReadFile yamlUnmarshal iterA iterT path = Inr c' \<and>
           c'\<lparr>ArgoCDMapper := ArgoCDMapper c, TektonMapper := TektonMapper c\<rparr> = c \<and>
           (\<forall>k v n. ArgoCDMapper c k = Some v \<longrightarrow> n \<in> set (Split k CHR '','') \<longrightarrow> ArgoCDMapper c' n = Some v) \<and>
           (\<forall>n. (\<forall>k \<in> dom (ArgoCDMapper c). n \<notin> set (Split k CHR '','')) \<longrightarrow> ArgoCDMapper c' n = None) \<and>
           (\<forall>k v n. TektonMapper c k = Some v \<longrightarrow> n \<in> set (Split k CHR '','') \<longrightarrow> TektonMapper c' n = Some v) \<and>
           (\<forall>n. (\<forall>k \<in> dom (TektonMapper c). n \<notin> set (Split k CHR '','')) \<longrightarrow> TektonMapper c' n = None) \<and>
           (\<forall>iterA' iterT'. valid_order iterA' (ArgoCDMapper c) \<longrightarrow> valid_order iterT' (TektonMapper c) \<longrightarrow>
              LoadConfig ReadFile yamlUnmarshal iterA' iterT' path = Inr c')"
proof -
  have A: "is_iteration (ArgoCDMapper c) (iterA (ArgoCDMapper c))"
    and T: "is_iteration (TektonMapper c) (iterT (TektonMapper c))"
    using assms(3,4) by (simp_all add: valid_order_def)
  let ?c' = "c\<lparr>ArgoCDMapper := expand_mapper (iterA (ArgoCDMapper c)),
                TektonMapper := expand_mapper (iterT (TektonMapper c))\<rparr>"
  have "\<forall>iterA' iterT'. valid_order iterA' (ArgoCDMapper c) \<longrightarrow> valid_order iterT' (TektonMapper c) \<longrightarrow>
          LoadConfig ReadFile yamlUnmarshal iterA' iterT' path = Inr ?c'"
    using expand_mapper_iterations_eq [OF A _ assms(5)] expand_mapper_iterations_eq [OF T _ assms(6)]
    by (simp add: LoadConfig_Inr [where ReadFile = ReadFile and yamlUnmarshal = yamlUnmarshal, OF assms(1,2)] valid_order_def)
  moreover have "LoadConfig ReadFile yamlUnmarshal iterA iterT path = Inr ?c'"
    by (rule LoadConfig_Inr [where ReadFile = ReadFile and yamlUnmarshal = yamlUnmarshal, OF assms(1,2)])
  ultimately show ?thesis
    using expand_mapper_part [OF A assms(5)] expand_mapper_no_part [OF A]
      expand_mapper_part [OF T assms(6)] expand_mapper_no_part [OF T]
    by (intro exI [of _ ?c']) simp
qed

text \<open>
  C30. With overlapping keys the loaded configuration depends on the map's iteration
  order: whenever two keys of the decoded Tekton mapper share a part and have
  different values, there are two iterations of the map the Go runtime may choose
  under which the part is mapped to one value and to the other: the key iterated last
  wins.
\<close>

theorem LoadConfig_order_dependent:
  assumes "ReadFile path = Inr data" and "yamlUnmarshal data = Inr c"
    and "valid_order iterT (TektonMapper c)"
    and "TektonMapper c k1 = Some v1" and "TektonMapper c k2 = Some v2" and "k1 \<noteq> k2" and "v1 \<noteq> v2"
    and "p \<in> set (Split k1 CHR '','')" and "p \<in> set (Split k2 CHR '','')"
  shows "\<exists>iter1 iter2. valid_order iter1 (TektonMapper c) \<and> valid_order iter2 (TektonMapper c) \<and>
           map_sum id (\<lambda>c. TektonMapper c p) (LoadConfig ReadFile yamlUnmarshal iterA iter1 path) = Inr (Some v2) \<and>
           map_sum id (\<lambda>c. TektonMapper c p) (LoadConfig ReadFile yamlUnmarshal iterA iter2 path) = Inr (Some v1)"
proof -
  let ?m = "TektonMapper c"
  let ?rest = "filter (\<lambda>e. fst e \<noteq> k1 \<and> fst e \<noteq> k2) (iterT ?m)"
  have T: "is_iteration ?m (iterT ?m)" using assms(3) by (simp add: valid_order_def)
  have it1: "is_iteration ?m (?rest @ [(k1, v1), (k2, v2)])"
    and it2: "is_iteration ?m (?rest @ [(k2, v2), (k1, v1)])"
    using is_iteration_move_last [OF T assms(4,5,6)] is_iteration_move_last [OF T assms(5,4)] assms(6)
    by (simp_all add: conj_commute)
  have e1: "expand_mapper (?rest @ [(k1, v1), (k2, v2)]) p = Some v2"
    and e2: "expand_mapper (?rest @ [(k2, v2), (k1, v1)]) p = Some v1"
    using assms(8,9) by (simp_all only: expand_mapper_def fold_expand_lookup) (simp_all add: list.case_eq_if)
  show ?thesis
    using it1 it2 e1 e2
    by (intro exI [of _ "\<lambda>_. ?rest @ [(k1, v1), (k2, v2)]"] exI [of _ "\<lambda>_. ?rest @ [(k2, v2), (k1, v1)]"])
       (simp add: valid_order_def LoadConfig_Inr [where ReadFile = ReadFile and yamlUnmarshal = yamlUnmarshal, OF assms(1,2)])
qed

text \<open>
  \<open>strings.Split\<close> round trip: joining the parts of any string with the separator
  gives the string back, and splitting a join of separator-free words gives the words.
\<close>

theorem Split_Join_roundtrip:
  "Join (Split s sep) sep = s \<and>
   (ws \<noteq> [] \<longrightarrow> (\<forall>w \<in> set ws. sep \<notin> set w) \<longrightarrow> Split (Join ws sep) sep = ws)"
  by (simp add: Join_Split Split_Join)

theorem LoadConfig_order_independent_witness:
  "\<exists>c'. LoadConfig demo_read (demo_yaml disjoint_mapper) (fixed_order [])
          (fixed_order [(''dev,test'', 1), (''reg'', 2)]) ''config.yaml'' = Inr c' \<and>
        TektonMapper c' ''dev'' = Some 1 \<and> TektonMapper c' ''test'' = Some 1 \<and> TektonMapper c' ''prod'' = None \<and>
        LoadConfig demo_read (demo_yaml disjoint_mapper) (fixed_order [])
          (fixed_order [(''reg'', 2), (''dev,test'', 1)]) ''config.yaml'' = Inr c'"
proof -
  let ?c = "\<lparr>ArgoCDMapper = Map.empty, TektonMapper = disjoint_mapper\<rparr> :: (nat, nat) config"
  have dom: "dom disjoint_mapper = {''dev,test'', ''reg''}" by (auto simp: disjoint_mapper_def)
  have h: "demo_read ''config.yaml'' = Inr ''tektonMapper: ...''"
    "demo_yaml disjoint_mapper ''tektonMapper: ...'' = Inr ?c"
    "valid_order (fixed_order []) (ArgoCDMapper ?c)"
    "valid_order (fixed_order [(''dev,test'', 1), (''reg'', 2)]) (TektonMapper ?c)"
    "parts_disjoint (ArgoCDMapper ?c)" "parts_disjoint (TektonMapper ?c)"
    "valid_order (fixed_order [(''reg'', 2), (''dev,test'', 1)]) (TektonMapper ?c)"
    by (simp_all add: demo_read_def demo_yaml_def fixed_order_def valid_order_def is_iteration_def
          parts_disjoint_def dom disjoint_mapper_def fun_eq_iff)
  from LoadConfig_order_independent [where ReadFile = demo_read and yamlUnmarshal = "demo_yaml disjoint_mapper",
      OF h(1-6)] obtain c' where
    c': "LoadConfig demo_read (demo_yaml disjoint_mapper) (fixed_order [])
           (fixed_order [(''dev,test'', 1), (''reg'', 2)]) ''config.yaml'' = Inr c'"
    and part: "\<forall>k v n. TektonMapper ?c k = Some v \<longrightarrow> n \<in> set (Split k CHR '','') \<longrightarrow> TektonMapper c' n = Some v"
    and none: "\<forall>n. (\<forall>k \<in> dom (TektonMapper ?c). n \<notin> set (Split k CHR '','')) \<longrightarrow> TektonMapper c' n = None"
    and other: "\<forall>iterA' iterT'. valid_order iterA' (ArgoCDMapper ?c) \<longrightarrow> valid_order iterT' (TektonMapper ?c) \<longrightarrow>
              LoadConfig demo_read (demo_yaml disjoint_mapper) iterA' iterT' ''config.yaml'' = Inr c'"
    by blast
  have "TektonMapper c' ''dev'' = Some 1" "TektonMapper c' ''test'' = Some 1"
    using part [rule_format, of "''dev,test''" 1] by (simp_all add: disjoint_mapper_def)
  moreover have "TektonMapper c' ''prod'' = None"
    using none by (simp add: dom)
  ultimately show ?thesis using c' other h(3,7) by blast
qed

theorem LoadConfig_order_dependent_witness:
  "\<exists>iter1 iter2. valid_order iter1 overlap_mapper \<and> valid_order iter2 overlap_mapper \<and>
     map_sum id (\<lambda>c. TektonMapper c ''test'')
       (LoadConfig demo_read (demo_yaml overlap_mapper) (fixed_order []) iter1 ''config.yaml'') = Inr (Some 2) \<and>
     map_sum id (\<lambda>c. TektonMapper c ''test'')
       (LoadConfig demo_read (demo_yaml overlap_mapper) (fixed_order []) iter2 ''config.yaml'') = Inr (Some 1)"
proof -
  let ?c = "\<lparr>ArgoCDMapper = Map.empty, TektonMapper = overlap_mapper\<rparr> :: (nat, nat) config"
  have h: "demo_read ''config.yaml'' = Inr ''tektonMapper: ...''"
    "demo_yaml overlap_mapper ''tektonMapper: ...'' = Inr ?c"
    "valid_order (fixed_order overlap_order1) (TektonMapper ?c)"
    "TektonMapper ?c ''dev,test'' = Some 1" "TektonMapper ?c ''test,reg'' = Some 2"
    "''dev,test'' \<noteq> ''test,reg''" "(1::nat) \<noteq> 2"
    "''test'' \<in> set (Split ''dev,test'' CHR '','')" "''test'' \<in> set (Split ''test,reg'' CHR '','')"
    by (simp_all add: config_demo_defs fun_eq_iff)
  from LoadConfig_order_dependent [where ReadFile = demo_read and yamlUnmarshal = "demo_yaml overlap_mapper"
      and iterA = "fixed_order []", OF h] show ?thesis by simp
qed

theorem Split_Join_roundtrip_witness:
  "Join (Split ''dev,test,reg'' CHR '','') CHR '','' = ''dev,test,reg'' \<and>
   Split (Join [''dev'', ''test''] CHR '','') CHR '','' = [''dev'', ''test'']"
  using Split_Join_roundtrip [of "''dev,test,reg''" "CHR '',''" "[''dev'', ''test'']"] by simp

end
