(* ===== verification/HttpApi.thy ===== *)
theory HttpApi
  imports Prelude "HOL-Library.Word"
begin

text \<open>
  The HTTP handlers of the cluster-tag and template-schema-tag APIs
  (\<open>src/core/http/api/v1/clustertag/apis.go\<close>, \<open>.../templateschematag/apis.go\<close>).
  Each handler reads the \<open>clusterID\<close> path parameter with
  \<open>strconv.ParseUint(s, 10, 0)\<close>, binds the JSON body where it has one, calls its
  controller and turns the outcome into a response. \<open>ParseUint\<close> is modelled digit by
  digit on \<open>64 word\<close> (\<open>uint\<close> is 64 bits wide), with Go's cut-off and wrap-around
  checks written out, so that the lemmas can show exactly which strings it accepts and
  that it never wraps. A response is a value of \<open>response\<close>; the text
  \<open>err.Error()\<close> of an error is kept as the error value itself (\<open>ErrorText\<close>).
\<close>

subsection \<open>\<open>strconv.ParseUint\<close> in base 10 at 64 bits\<close>

abbreviation ErrSyntax :: error where
  "ErrSyntax \<equiv> Sentinel ''invalid syntax''"

abbreviation ErrRange :: error where
  "ErrRange \<equiv> Sentinel ''value out of range''"

definition is_digit :: "char \<Rightarrow> bool" where
  "is_digit c \<longleftrightarrow> (48 :: nat) \<le> of_char c \<and> (of_char c :: nat) \<le> 57"

definition digit_val :: "char \<Rightarrow> nat" where
  "digit_val c = of_char c - 48"

text \<open>\<open>cutoff = maxUint64/10 + 1\<close>, the smallest value whose product with 10 overflows.\<close>

definition cutoff10 :: "64 word" where
  "cutoff10 = - 1 div 10 + 1"

text \<open>
  The digit loop: a character that is not a decimal digit is a syntax error (letters are
  digits of value at least 10, refused for base 10); \<open>n \<ge> cutoff\<close> and a sum smaller
  than its operand are range errors. \<open>s0\<close> is the whole input, named in the error.
\<close>

fun parse_digits :: "string \<Rightarrow> string \<Rightarrow> 64 word \<Rightarrow> 64 word result" where
  "parse_digits s0 [] n = Inr n"
| "parse_digits s0 (c # cs) n =
     (if \<not> is_digit c then Inl (NumError ''ParseUint'' s0 ErrSyntax)
      else if cutoff10 \<le> n then Inl (NumError ''ParseUint'' s0 ErrRange)
      else (let n' = n * 10; n1 = n' + of_nat (digit_val c)
            in if n1 < n' then Inl (NumError ''ParseUint'' s0 ErrRange)
               else parse_digits s0 cs n1))"

definition ParseUint :: "string \<Rightarrow> 64 word result" where
  "ParseUint s = (if s = [] then Inl (NumError ''ParseUint'' s ErrSyntax) else parse_digits s s 0)"

text \<open>The decimal value of a digit string, on unbounded naturals.\<close>

definition dec_val :: "string \<Rightarrow> nat" where
  "dec_val s = foldl (\<lambda>n c. 10 * n + digit_val c) 0 s"

text \<open>
  The reference meaning of \<open>ParseUint(s, 10, 0)\<close>: the empty string is a syntax error;
  otherwise the digit prefix of \<open>s\<close> is read on unbounded naturals; a prefix of value
  \<open>2^64\<close> or more is a range error (met before the first non-digit), a non-digit after
  it a syntax error, and a string of digits below \<open>2^64\<close> its value.
\<close>

definition ParseUint_ref :: "string \<Rightarrow> 64 word result" where
  "ParseUint_ref s =
     (if s = [] then Inl (NumError ''ParseUint'' s ErrSyntax)
      else (let p = takeWhile is_digit s in
            if 2 ^ 64 \<le> dec_val p then Inl (NumError ''ParseUint'' s ErrRange)
            else if p = s then Inr (word_of_nat (dec_val s))
            else Inl (NumError ''ParseUint'' s ErrSyntax)))"

subsection \<open>Responses\<close>

text \<open>
  \<open>response.Success\<close>, \<open>SuccessWithData\<close>, \<open>AbortWithRequestError(c, code, msg)\<close>,
  \<open>AbortWithError(c, err)\<close> and \<open>AbortWithRPCError(c, rpcerror.X.WithErrMsg(msg))\<close>.
  A message is a literal, or a literal followed by \<open>err.Error()\<close>.
\<close>

datatype msg = Str string | ErrorText string error

datatype rpc_kind = ParamError | InternalError

datatype 'a response =
    Success
  | SuccessWithData 'a
  | AbortWithRequestError string msg
  | AbortWithError error
  | AbortWithRPCError rpc_kind msg

definition InvalidRequestParam :: string where
  "InvalidRequestParam = ''InvalidRequestParam''"

definition InvalidRequestBody :: string where
  "InvalidRequestBody = ''InvalidRequestBody''"

subsection \<open>The cluster-tag API\<close>

text \<open>
  The controllers are functions of the parsed id; \<open>uint(clusterID)\<close> is the identity
  on 64-bit words. \<open>ShouldBindJSON(&request)\<close> on a \<open>*UpdateRequest\<close> is \<open>bind\<close>: an
  error, or the request pointer, \<open>None\<close> for a JSON \<open>null\<close> body.
\<close>

definition clustertag_List :: "(64 word \<Rightarrow> 'a result) \<Rightarrow> string \<Rightarrow> 'a response" where
  "clustertag_List ctlList clusterIDStr =
     (case ParseUint clusterIDStr of
        Inl err \<Rightarrow> AbortWithRequestError InvalidRequestParam (ErrorText [] err)
      | Inr clusterID \<Rightarrow>
     (case ctlList clusterID of
        Inl err \<Rightarrow> AbortWithError err
      | Inr resp \<Rightarrow> SuccessWithData resp))"

definition clustertag_Update ::
  "(64 word \<Rightarrow> 'r option \<Rightarrow> unit result) \<Rightarrow> (bytes \<Rightarrow> 'r option result) \<Rightarrow> string \<Rightarrow> bytes \<Rightarrow>
   'a response" where
  "clustertag_Update ctlUpdate bind clusterIDStr body =
     (case ParseUint clusterIDStr of
        Inl err \<Rightarrow> AbortWithRequestError InvalidRequestParam (ErrorText [] err)
      | Inr clusterID \<Rightarrow>
     (case bind body of
        Inl err \<Rightarrow> AbortWithRequestError InvalidRequestBody (ErrorText ''request body is invalid, err: '' err)
      | Inr request \<Rightarrow>
     (case ctlUpdate clusterID request of
        Inl err \<Rightarrow> AbortWithError err
      | Inr _ \<Rightarrow> Success)))"

subsection \<open>The template-schema-tag API\<close>

text \<open>
  Controller errors are classified by their cause: \<open>ErrParamInvalid\<close> is a parameter
  error, anything else an internal error (the log line is not modelled).
\<close>

definition rpc_of_error :: "error \<Rightarrow> 'a response" where
  "rpc_of_error err =
     (if Cause err = ErrParamInvalid then AbortWithRPCError ParamError (ErrorText [] err)
      else AbortWithRPCError InternalError (ErrorText [] err))"

definition invalid_id_msg :: "string \<Rightarrow> msg" where
  "invalid_id_msg clusterIDStr = Str (''invalid cluster id: '' @ clusterIDStr)"

definition templateschematag_List :: "(64 word \<Rightarrow> 'a result) \<Rightarrow> string \<Rightarrow> 'a response" where
  "templateschematag_List ctlList clusterIDStr =
     (case ParseUint clusterIDStr of
        Inl err \<Rightarrow> AbortWithRPCError ParamError (invalid_id_msg clusterIDStr)
      | Inr clusterID \<Rightarrow>
     (case ctlList clusterID of
        Inl err \<Rightarrow> rpc_of_error err
      | Inr resp \<Rightarrow> SuccessWithData resp))"

definition templateschematag_Update ::
  "(64 word \<Rightarrow> 'r option \<Rightarrow> unit result) \<Rightarrow> (bytes \<Rightarrow> 'r option result) \<Rightarrow> string \<Rightarrow> bytes \<Rightarrow>
   'a response" where
  "templateschematag_Update ctlUpdate bind clusterIDStr body =
     (case ParseUint clusterIDStr of
        Inl err \<Rightarrow> AbortWithRPCError ParamError (invalid_id_msg clusterIDStr)
      | Inr clusterID \<Rightarrow>
     (case bind body of
        Inl err \<Rightarrow> AbortWithRPCError ParamError (ErrorText (''invalid body: '' @ clusterIDStr @ '', err: '') err)
      | Inr request \<Rightarrow>
     (case ctlUpdate clusterID request of
        Inl err \<Rightarrow> rpc_of_error err
      | Inr _ \<Rightarrow> Success)))"

subsection \<open>The API objects and their routes\<close>

text \<open>
  A request's \<open>gin.Context\<close> as far as the handlers read it: the path parameters and
  the body. Each API package names its path parameter \<open>_clusterIDParam\<close>; its \<open>API\<close>
  struct holds the controller, a record of the controller interface's two methods
  (\<open>List\<close> and \<open>Update\<close>, whose implementations are not in the sources), and
  \<open>NewAPI\<close> stores the controller it is given. The methods \<open>(a *API) List(c)\<close> and
  \<open>(a *API) Update(c)\<close> read the path parameter and call the handlers above.
\<close>

record gin_context =
  gin_Param :: "string \<Rightarrow> string"
  gin_Body :: bytes

record ('l, 'r) tag_controller =
  ctl_List :: "64 word \<Rightarrow> 'l result"
  ctl_Update :: "64 word \<Rightarrow> 'r option \<Rightarrow> unit result"

definition clustertag_clusterIDParam :: string where
  "clustertag_clusterIDParam = ''clusterID''"

record ('l, 'r) clustertag_API =
  clusterTagCtl :: "('l, 'r) tag_controller"

definition clustertag_NewAPI :: "('l, 'r) tag_controller \<Rightarrow> ('l, 'r) clustertag_API" where
  "clustertag_NewAPI ctl = \<lparr>clusterTagCtl = ctl\<rparr>"

definition clustertag_API_List :: "('l, 'r) clustertag_API \<Rightarrow> gin_context \<Rightarrow> 'l response" where
  "clustertag_API_List a c =
     clustertag_List (ctl_List (clusterTagCtl a)) (gin_Param c clustertag_clusterIDParam)"

definition clustertag_API_Update ::
  "('l, 'r) clustertag_API \<Rightarrow> (bytes \<Rightarrow> 'r option result) \<Rightarrow> gin_context \<Rightarrow> 'l response" where
  "clustertag_API_Update a bind c =
     clustertag_Update (ctl_Update (clusterTagCtl a)) bind (gin_Param c clustertag_clusterIDParam) (gin_Body c)"

definition templateschematag_clusterIDParam :: string where
  "templateschematag_clusterIDParam = ''clusterID''"

record ('l, 'r) templateschematag_API =
  templateSchemaTagCtl :: "('l, 'r) tag_controller"

definition templateschematag_NewAPI :: "('l, 'r) tag_controller \<Rightarrow> ('l, 'r) templateschematag_API" where
  "templateschematag_NewAPI tagCtl = \<lparr>templateSchemaTagCtl = tagCtl\<rparr>"

definition templateschematag_API_List :: "('l, 'r) templateschematag_API \<Rightarrow> gin_context \<Rightarrow> 'l response" where
  "templateschematag_API_List a c =
     templateschematag_List (ctl_List (templateSchemaTagCtl a)) (gin_Param c templateschematag_clusterIDParam)"

definition templateschematag_API_Update ::
  "('l, 'r) templateschematag_API \<Rightarrow> (bytes \<Rightarrow> 'r option result) \<Rightarrow> gin_context \<Rightarrow> 'l response" where
  "templateschematag_API_Update a bind c =
     templateschematag_Update (ctl_Update (templateSchemaTagCtl a)) bind
       (gin_Param c templateschematag_clusterIDParam) (gin_Body c)"

subsection \<open>Lemmas on \<open>ParseUint\<close>\<close>

lemma unat_lt_2p64: "unat (n :: 64 word) < 2 ^ 64"
  using unsigned_less [of n] by simp

lemma unat_cutoff10: "unat cutoff10 = 1844674407370955162"
  by (simp add: cutoff10_def)

lemma cutoff10_le_iff: "cutoff10 \<le> n \<longleftrightarrow> 2 ^ 64 \<le> 10 * unat n"
proof -
  have "(2 :: nat) ^ 64 = 18446744073709551616" by simp
  then show ?thesis unfolding word_le_nat_alt unat_cutoff10 by arith
qed

lemma unat_times10: "\<not> cutoff10 \<le> n \<Longrightarrow> unat (n * 10) = 10 * unat n"
  by (simp add: cutoff10_le_iff unat_mult_lem [THEN iffD1])

lemma unat_digit: "unat (word_of_nat (digit_val c) :: 64 word) = digit_val c" if "is_digit c"
proof -
  have "digit_val c < 10" using that unfolding is_digit_def digit_val_def by linarith
  then show ?thesis by (simp add: unat_of_nat)
qed

lemma digit_add_overflow:
  fixes n' :: "64 word"
  assumes "is_digit c"
  shows "n' + word_of_nat (digit_val c) < n' \<longleftrightarrow> 2 ^ 64 \<le> unat n' + digit_val c"
proof -
  have "n' \<le> n' + word_of_nat (digit_val c) \<longleftrightarrow> unat n' + digit_val c < 2 ^ 64"
    using no_olen_add_nat [of n' "word_of_nat (digit_val c) :: 64 word"] unat_digit [OF assms] by simp
  then show ?thesis by (metis not_le)
qed

lemma digit_add_unat:
  fixes n' :: "64 word"
  assumes "is_digit c" and "unat n' + digit_val c < 2 ^ 64"
  shows "unat (n' + word_of_nat (digit_val c) :: 64 word) = unat n' + digit_val c"
  using assms by (simp add: unat_add_lem [THEN iffD1] unat_digit)

lemma foldl_dec_ge: "a \<le> foldl (\<lambda>n c. 10 * n + digit_val c) a cs"
proof (induction cs arbitrary: a)
  case Nil
  then show ?case by simp
next
  case (Cons c cs)
  have "a \<le> 10 * a + digit_val c" by simp
  also have "\<dots> \<le> foldl (\<lambda>n c. 10 * n + digit_val c) (10 * a + digit_val c) cs" by (rule Cons.IH)
  finally show ?case by simp
qed

text \<open>The digit loop against the reference, from any accumulator.\<close>

lemma parse_digits_ref:
  "parse_digits s0 cs n =
     (let p = takeWhile is_digit cs; v = foldl (\<lambda>n c. 10 * n + digit_val c) (unat n) p in
      if 2 ^ 64 \<le> v then Inl (NumError ''ParseUint'' s0 ErrRange)
      else if p = cs then Inr (word_of_nat v)
      else Inl (NumError ''ParseUint'' s0 ErrSyntax))"
proof (induction cs arbitrary: n)
  case Nil
  show ?case using unat_lt_2p64 [of n] by (simp add: Let_def)
next
  case (Cons c cs)
  let ?f = "\<lambda>n c. 10 * n + digit_val c"
  show ?case
  proof (cases "is_digit c")
    case False
    then show ?thesis using unat_lt_2p64 [of n] by (simp add: Let_def)
  next
    case dig: True
    have ge: "10 * unat n + digit_val c \<le> foldl ?f (10 * unat n + digit_val c) (takeWhile is_digit cs)"
      by (rule foldl_dec_ge)
    show ?thesis
    proof (cases "cutoff10 \<le> n")
      case True
      with dig ge show ?thesis by (simp add: cutoff10_le_iff Let_def)
    next
      case nc: False
      show ?thesis
      proof (cases "2 ^ 64 \<le> 10 * unat n + digit_val c")
        case True
        with dig nc ge show ?thesis
          by (simp add: Let_def digit_add_overflow unat_times10)
      next
        case False
        with dig nc have "unat (n * 10 + word_of_nat (digit_val c)) = 10 * unat n + digit_val c"
          by (simp add: digit_add_unat unat_times10)
        with dig nc False show ?thesis
          by (simp add: Let_def digit_add_overflow unat_times10 Cons.IH)
      qed
    qed
  qed
qed

lemma takeWhile_all: "\<forall>x \<in> set xs. P x \<Longrightarrow> takeWhile P xs = xs"
  by (simp add: takeWhile_eq_all_conv)

lemmas parseuint_unfold = ParseUint_def parse_digits_ref dec_val_def Let_def takeWhile_all

subsection \<open>Properties of \<open>ParseUint\<close>\<close>

text \<open>
  C32. The digit loop of \<open>strconv.ParseUint(s, 10, 0)\<close> with Go's cut-off and
  wrap-around tests is equivalent to its reference meaning on unbounded naturals: the
  value of the digit prefix decides a range error, a later non-digit a syntax error.
\<close>

theorem ParseUint_eq_ref: "ParseUint s = ParseUint_ref s"
  by (simp add: parseuint_unfold ParseUint_ref_def)

text \<open>
  C33. Bounds (no wrap-around): \<open>ParseUint\<close> accepts exactly the non-empty digit
  strings whose value is below \<open>2^64\<close>, and its result is that value; a digit string of
  value \<open>2^64\<close> or more is a range error, never a wrapped-around id.
\<close>

theorem ParseUint_bounds:
  "(ParseUint s = Inr w \<longleftrightarrow>
      s \<noteq> [] \<and> (\<forall>c \<in> set s. is_digit c) \<and> dec_val s < 2 ^ 64 \<and> unat w = dec_val s) \<and>
   (s \<noteq> [] \<longrightarrow> (\<forall>c \<in> set s. is_digit c) \<longrightarrow> 2 ^ 64 \<le> dec_val s \<longrightarrow>
      ParseUint s = Inl (NumError ''ParseUint'' s ErrRange))"
proof -
  have "ParseUint s = Inr w \<longleftrightarrow>
      s \<noteq> [] \<and> (\<forall>c \<in> set s. is_digit c) \<and> dec_val s < 2 ^ 64 \<and> unat w = dec_val s"
  proof
    assume "ParseUint s = Inr w"
    then show "s \<noteq> [] \<and> (\<forall>c \<in> set s. is_digit c) \<and> dec_val s < 2 ^ 64 \<and> unat w = dec_val s"
      by (auto simp: parseuint_unfold unat_of_nat split: if_splits)
  next
    assume h: "s \<noteq> [] \<and> (\<forall>c \<in> set s. is_digit c) \<and> dec_val s < 2 ^ 64 \<and> unat w = dec_val s"
    moreover have "word_of_nat (unat w) = w" by simp
    ultimately have "w = word_of_nat (dec_val s)" by simp
    with h show "ParseUint s = Inr w"
      by (simp add: parseuint_unfold not_le)
  qed
  moreover have "s \<noteq> [] \<longrightarrow> (\<forall>c \<in> set s. is_digit c) \<longrightarrow> 2 ^ 64 \<le> dec_val s \<longrightarrow>
      ParseUint s = Inl (NumError ''ParseUint'' s ErrRange)"
    by (simp add: parseuint_unfold)
  ultimately show ?thesis by blast
qed

subsection \<open>Properties of the handlers\<close>

text \<open>
  C34. Error classification of the template-schema-tag API: \<open>List\<close> answers with a
  parameter error exactly when the path parameter is not a valid id, or the controller
  fails with an error whose cause (through any number of \<open>Wrapf\<close> layers) is
  \<open>ErrParamInvalid\<close>; every other controller failure is an internal error.
\<close>

theorem templateschematag_List_param_error:
  "(\<exists>m. templateschematag_List ctl s = AbortWithRPCError ParamError m) \<longleftrightarrow>
   (\<forall>w. ParseUint s \<noteq> Inr w) \<or> (\<exists>w e. ParseUint s = Inr w \<and> ctl w = Inl e \<and> Cause e = ErrParamInvalid)"
  by (cases "ParseUint s"; cases "ctl (projr (ParseUint s))")
     (auto simp: templateschematag_List_def rpc_of_error_def)

theorem ParseUint_bounds_witness:
  "ParseUint ''18446744073709551615'' = Inr 18446744073709551615 \<and>
   ParseUint ''18446744073709551616'' = Inl (NumError ''ParseUint'' ''18446744073709551616'' ErrRange)"
proof -
  have "ParseUint ''18446744073709551615'' = Inr 18446744073709551615"
    using ParseUint_bounds [of "''18446744073709551615''" 18446744073709551615]
    by (simp add: dec_val_def is_digit_def digit_val_def)
  moreover have "ParseUint ''18446744073709551616'' = Inl (NumError ''ParseUint'' ''18446744073709551616'' ErrRange)"
    using ParseUint_bounds [of "''18446744073709551616''"]
    by (simp add: dec_val_def is_digit_def digit_val_def)
  ultimately show ?thesis ..
qed

theorem templateschematag_List_param_error_witness:
  "templateschematag_List (\<lambda>w. Inl (Wrapf (Wrapf ErrParamInvalid ''tag key invalid'') ''list'') :: unit result) ''42''
     = AbortWithRPCError ParamError (ErrorText [] (Wrapf (Wrapf ErrParamInvalid ''tag key invalid'') ''list'')) \<and>
   (\<exists>m. templateschematag_List (\<lambda>w. Inl (Wrapf (Wrapf ErrParamInvalid ''tag key invalid'') ''list'') :: unit result) ''42''
          = AbortWithRPCError ParamError m)"
proof -
  have p: "ParseUint ''42'' = Inr 42" by (simp add: parseuint_unfold is_digit_def digit_val_def)
  have "\<exists>m. templateschematag_List (\<lambda>w. Inl (Wrapf (Wrapf ErrParamInvalid ''tag key invalid'') ''list'') :: unit result) ''42''
          = AbortWithRPCError ParamError m"
    using templateschematag_List_param_error [of "\<lambda>w. Inl (Wrapf (Wrapf ErrParamInvalid ''tag key invalid'') ''list'') :: unit result" "''42''"]
    by (simp add: p)
  then show ?thesis by (simp add: templateschematag_List_def rpc_of_error_def p)
qed

end
