(* ===== verification/MemberDao.thy ===== *)
theory MemberDao
  imports Prelude
begin

text \<open>
  The member DAO (\<open>src/pkg/member/dao/dao.go\<close>): membership rows of resources
  (groups, applications, clusters) with a role, stored in one table with soft deletion
  (\<open>deleted_ts\<close>, zero while the row is live). The SQL texts the DAO runs
  (\<open>common.MemberSingleQuery\<close>, \<open>MemberQueryByID\<close>, \<open>MemberSingleDelete\<close>, ...) are not
  in the sources; their meaning is the one their names give: queries see live rows
  only (\<open>deleted_ts = 0\<close>), and a delete sets \<open>deleted_ts\<close> of the row with the id.
  \<open>db.Create\<close> is GORM's insert of the struct as given: a zero id is replaced by the
  table's auto-increment counter, a used id is MySQL's duplicate-key error. The table and the users' e-mail
  addresses are an explicit store; database failures are injected per statement
  through \<open>mdb_faults\<close>; the request context carries the ORM handle, the current user
  and the optional e-mail filter. Each operation returns its result and the new store.
\<close>

subsection \<open>Rows, store and context\<close>

record member =
  m_ID :: nat
  m_ResourceType :: string
  m_ResourceID :: nat
  m_Role :: string
  m_MemberType :: nat
  m_MemberInfo :: nat
  m_GrantedBy :: nat
  m_DeletedTs :: nat

text \<open>\<open>MemberTypeUser\<close>: the member is a user (its \<open>MemberInfo\<close> is a user id).\<close>

definition MemberTypeUser :: nat where
  "MemberTypeUser = 0"

datatype mfault = FCreate | FQuery | FSave | FExec

record member_db =
  mdb_rows :: "member list"
  mdb_next :: nat
  mdb_emails :: "nat \<rightharpoonup> string"
  mdb_faults :: "mfault \<rightharpoonup> error"

record mctx =
  ctx_has_db :: bool
  ctx_user :: "nat option"
  ctx_emails :: "string list option"
  ctx_now :: nat

definition errNoDB :: error where
  "errNoDB = Text ''cannot get the db from context''"

definition errNoUser :: error where
  "errNoUser = Text ''cannot get the user from context''"

text \<open>\<open>orm.FromContext(ctx)\<close> and a statement that may fail.\<close>

definition FromContext :: "mctx \<Rightarrow> unit result" where
  "FromContext ctx = (if ctx_has_db ctx then Inr () else Inl errNoDB)"

definition stmt :: "member_db \<Rightarrow> mfault \<Rightarrow> 'a \<Rightarrow> 'a result" where
  "stmt db f x = (case mdb_faults db f of Some e \<Rightarrow> Inl e | None \<Rightarrow> Inr x)"

text \<open>The live rows, and the meaning of the queries over them.\<close>

definition live :: "member_db \<Rightarrow> member list" where
  "live db = filter (\<lambda>m. m_DeletedTs m = 0) (mdb_rows db)"

definition MemberSingleQuery :: "member_db \<Rightarrow> string \<Rightarrow> nat \<Rightarrow> nat \<Rightarrow> nat \<Rightarrow> member option" where
  "MemberSingleQuery db rt rid mt mi =
     find (\<lambda>m. m_ResourceType m = rt \<and> m_ResourceID m = rid \<and> m_MemberType m = mt \<and> m_MemberInfo m = mi)
          (live db)"

definition MemberQueryByID :: "member_db \<Rightarrow> nat \<Rightarrow> member option" where
  "MemberQueryByID db i = find (\<lambda>m. m_ID m = i) (live db)"

definition MemberSelectAll :: "member_db \<Rightarrow> string \<Rightarrow> nat \<Rightarrow> member list" where
  "MemberSelectAll db rt rid = filter (\<lambda>m. m_ResourceType m = rt \<and> m_ResourceID m = rid) (live db)"

definition MemberSelectByUserEmails :: "member_db \<Rightarrow> string \<Rightarrow> nat \<Rightarrow> string list \<Rightarrow> member list" where
  "MemberSelectByUserEmails db rt rid emails =
     filter (\<lambda>m. m_ResourceType m = rt \<and> m_ResourceID m = rid \<and> m_MemberType m = MemberTypeUser \<and>
                 (case mdb_emails db (m_MemberInfo m) of Some e \<Rightarrow> e \<in> set emails | None \<Rightarrow> False))
            (live db)"

definition MemberListResource :: "member_db \<Rightarrow> string \<Rightarrow> nat \<Rightarrow> nat list" where
  "MemberListResource db rt mi =
     map m_ResourceID (filter (\<lambda>m. m_ResourceType m = rt \<and> m_MemberInfo m = mi) (live db))"

text \<open>Writing one row back by id (\<open>tx.Save\<close>), and stamping it (\<open>MemberSingleDelete\<close>).\<close>

definition save_row :: "member \<Rightarrow> member_db \<Rightarrow> member_db" where
  "save_row r db = db\<lparr>mdb_rows := map (\<lambda>m. if m_ID m = m_ID r then r else m) (mdb_rows db)\<rparr>"

definition MemberSingleDelete :: "nat \<Rightarrow> nat \<Rightarrow> member_db \<Rightarrow> member_db" where
  "MemberSingleDelete ts i db =
     db\<lparr>mdb_rows := map (\<lambda>m. if m_ID m = i then m\<lparr>m_DeletedTs := ts\<rparr> else m) (mdb_rows db)\<rparr>"

subsection \<open>The DAO\<close>

text \<open>
  The row \<open>db.Create(member)\<close> inserts: the member as given, its zero id replaced by
  the auto-increment counter \<open>mdb_next\<close>; an insert under an id some row (live or
  deleted) already has fails with the duplicate-key error.
\<close>

definition auto_id :: "member_db \<Rightarrow> member \<Rightarrow> member" where
  "auto_id db mem = (if m_ID mem = 0 then mem\<lparr>m_ID := mdb_next db\<rparr> else mem)"

definition errDuplicateEntry :: error where
  "errDuplicateEntry = Text ''Error 1062: Duplicate entry for key PRIMARY''"

text \<open>
  \<open>Create\<close>: after the insert the counter is above every id inserted (MySQL moves it
  past an explicit id). Go returns the member together with \<open>result.Error\<close>; the
  model's failure carries the error only.
\<close>

definition Create :: "mctx \<Rightarrow> member \<Rightarrow> member_db \<Rightarrow> member result \<times> member_db" where
  "Create ctx mem db =
     (case FromContext ctx of
        Inl err \<Rightarrow> (Inl err, db)
      | Inr _ \<Rightarrow>
     (case stmt db FCreate () of
        Inl err \<Rightarrow> (Inl err, db)
      | Inr _ \<Rightarrow>
          (let m = auto_id db mem
           in if m_ID m \<in> set (map m_ID (mdb_rows db)) then (Inl errDuplicateEntry, db)
              else (Inr m, db\<lparr>mdb_rows := mdb_rows db @ [m], mdb_next := max (mdb_next db) (Suc (m_ID m))\<rparr>))))"

text \<open>\<open>Get\<close> and \<open>GetByID\<close> answer \<open>nil, nil\<close> (\<open>Inr None\<close>) when no row is affected.\<close>

definition Get :: "mctx \<Rightarrow> string \<Rightarrow> nat \<Rightarrow> nat \<Rightarrow> nat \<Rightarrow> member_db \<Rightarrow> member option result" where
  "Get ctx rt rid mt mi db =
     (case FromContext ctx of
        Inl err \<Rightarrow> Inl err
      | Inr _ \<Rightarrow> stmt db FQuery (MemberSingleQuery db rt rid mt mi))"

definition GetByID :: "mctx \<Rightarrow> nat \<Rightarrow> member_db \<Rightarrow> member option result" where
  "GetByID ctx i db =
     (case FromContext ctx of
        Inl err \<Rightarrow> Inl err
      | Inr _ \<Rightarrow> stmt db FQuery (MemberQueryByID db i))"

definition op_updateByID :: string where
  "op_updateByID = ''member dao: update by ID''"

text \<open>
  \<open>UpdateByID\<close>: inside \<open>db.Transaction\<close>, read the row, set its role and
  \<open>GrantedBy\<close>, and \<open>tx.Save\<close> it; the error of \<open>tx.Save\<close> is not looked at, the
  closure returns \<open>nil\<close>, and the transaction commits.
\<close>

definition UpdateByID :: "mctx \<Rightarrow> nat \<Rightarrow> string \<Rightarrow> member_db \<Rightarrow> member result \<times> member_db" where
  "UpdateByID ctx i role db =
     (case FromContext ctx of
        Inl err \<Rightarrow> (Inl err, db)
      | Inr _ \<Rightarrow>
     (case ctx_user ctx of
        None \<Rightarrow> (Inl errNoUser, db)
      | Some currentUser \<Rightarrow>
     (case stmt db FQuery (MemberQueryByID db i) of
        Inl err \<Rightarrow> (Inl err, db)
      | Inr None \<Rightarrow> (Inl (HttpErr op_updateByID 404 [] []), db)
      | Inr (Some memberInDB) \<Rightarrow>
          (let memberInDB = memberInDB\<lparr>m_Role := role, m_GrantedBy := currentUser\<rparr>;
               db' = (case stmt db FSave () of Inl _ \<Rightarrow> db | Inr _ \<Rightarrow> save_row memberInDB db)
           in (Inr memberInDB, db')))))"

definition Delete :: "mctx \<Rightarrow> nat \<Rightarrow> member_db \<Rightarrow> unit result \<times> member_db" where
  "Delete ctx i db =
     (case FromContext ctx of
        Inl err \<Rightarrow> (Inl err, db)
      | Inr _ \<Rightarrow>
     (case stmt db FExec () of
        Inl err \<Rightarrow> (Inl err, db)
      | Inr _ \<Rightarrow> (Inr (), MemberSingleDelete (ctx_now ctx) i db)))"

definition ListDirectMember :: "mctx \<Rightarrow> string \<Rightarrow> nat \<Rightarrow> member_db \<Rightarrow> member list result" where
  "ListDirectMember ctx rt rid db =
     (case FromContext ctx of
        Inl err \<Rightarrow> Inl err
      | Inr _ \<Rightarrow> stmt db FQuery (MemberSelectAll db rt rid))"

text \<open>Without e-mail addresses in the context the query is skipped and the list is empty.\<close>

definition ListDirectMemberOnCondition :: "mctx \<Rightarrow> string \<Rightarrow> nat \<Rightarrow> member_db \<Rightarrow> member list result" where
  "ListDirectMemberOnCondition ctx rt rid db =
     (case FromContext ctx of
        Inl err \<Rightarrow> Inl err
      | Inr _ \<Rightarrow>
     (case ctx_emails ctx of
        Some emails \<Rightarrow> stmt db FQuery (MemberSelectByUserEmails db rt rid emails)
      | None \<Rightarrow> Inr []))"

definition ListResourceOfMemberInfo :: "mctx \<Rightarrow> string \<Rightarrow> nat \<Rightarrow> member_db \<Rightarrow> nat list result" where
  "ListResourceOfMemberInfo ctx rt mi db =
     (case FromContext ctx of
        Inl err \<Rightarrow> Inl err
      | Inr _ \<Rightarrow> stmt db FQuery (MemberListResource db rt mi))"

subsection \<open>The DAO interface\<close>

text \<open>
  The methods of the \<open>DAO\<close> interface, one constructor per method with its arguments
  after the context, the values they answer, and \<open>New()\<close>'s \<open>dao\<close> as the dispatch of a
  call to its method. The read methods leave the store as it is.
\<close>

datatype member_call =
    CallCreate member
  | CallGet string nat nat nat
  | CallGetByID nat
  | CallDelete nat
  | CallUpdateByID nat string
  | CallListDirectMember string nat
  | CallListDirectMemberOnCondition string nat
  | CallListResourceOfMemberInfo string nat

datatype member_reply =
    RMember member
  | RMemberOpt "member option"
  | RNoValue
  | RMembers "member list"
  | RResourceIDs "nat list"

fun dao_call :: "mctx \<Rightarrow> member_call \<Rightarrow> member_db \<Rightarrow> member_reply result \<times> member_db" where
  "dao_call ctx (CallCreate m) db = apfst (map_sum id RMember) (Create ctx m db)"
| "dao_call ctx (CallGet rt rid mt mi) db = (map_sum id RMemberOpt (Get ctx rt rid mt mi db), db)"
| "dao_call ctx (CallGetByID i) db = (map_sum id RMemberOpt (GetByID ctx i db), db)"
| "dao_call ctx (CallDelete i) db = apfst (map_sum id (\<lambda>_. RNoValue)) (Delete ctx i db)"
| "dao_call ctx (CallUpdateByID i role) db = apfst (map_sum id RMember) (UpdateByID ctx i role db)"
| "dao_call ctx (CallListDirectMember rt rid) db =
     (map_sum id RMembers (ListDirectMember ctx rt rid db), db)"
| "dao_call ctx (CallListDirectMemberOnCondition rt rid) db =
     (map_sum id RMembers (ListDirectMemberOnCondition ctx rt rid db), db)"
| "dao_call ctx (CallListResourceOfMemberInfo rt mi) db =
     (map_sum id RResourceIDs (ListResourceOfMemberInfo ctx rt mi db), db)"

text \<open>A sequence of requests, each with its own context, against one table.\<close>

fun dao_run :: "(mctx \<times> member_call) list \<Rightarrow> member_db \<Rightarrow> member_db" where
  "dao_run [] db = db"
| "dao_run ((ctx, c) # cs) db = dao_run cs (snd (dao_call ctx c db))"

text \<open>
  The table is well formed when no two rows share an id (the primary key) and every id
  is below the next one the auto-increment counter hands out.
\<close>

definition member_db_wf :: "member_db \<Rightarrow> bool" where
  "member_db_wf db \<longleftrightarrow>
     distinct (map m_ID (mdb_rows db)) \<and> (\<forall>i \<in> set (map m_ID (mdb_rows db)). i < mdb_next db)"

subsection \<open>Concrete inputs\<close>

definition demo_member :: member where
  "demo_member = \<lparr>m_ID = 1, m_ResourceType = ''applications'', m_ResourceID = 7, m_Role = ''guest'',
                   m_MemberType = 0, m_MemberInfo = 3, m_GrantedBy = 2, m_DeletedTs = 0\<rparr>"

definition demo_db :: "(mfault \<rightharpoonup> error) \<Rightarrow> member_db" where
  "demo_db fs = \<lparr>mdb_rows = [demo_member], mdb_next = 2, mdb_emails = [3 \<mapsto> ''dev@example.com''],
                 mdb_faults = fs\<rparr>"

definition demo_ctx :: mctx where
  "demo_ctx = \<lparr>ctx_has_db = True, ctx_user = Some 5, ctx_emails = None, ctx_now = 1700000000\<rparr>"

subsection \<open>Lemmas\<close>

lemma stmt_None [simp]: "mdb_faults db f = None \<Longrightarrow> stmt db f x = Inr x"
  by (simp add: stmt_def)

lemma stmt_Some [simp]: "mdb_faults db f = Some e \<Longrightarrow> stmt db f x = Inl e"
  by (simp add: stmt_def)

lemma FromContext_ok [simp]: "ctx_has_db ctx \<Longrightarrow> FromContext ctx = Inr ()"
  by (simp add: FromContext_def)

lemma filter_live_stamp:
  "0 < ts \<Longrightarrow>
   filter (\<lambda>m. m_DeletedTs m = 0) (map (\<lambda>m. if m_ID m = i then m\<lparr>m_DeletedTs := ts\<rparr> else m) xs)
   = filter (\<lambda>m. m_ID m \<noteq> i) (filter (\<lambda>m. m_DeletedTs m = 0) xs)"
  by (induction xs) auto

lemma live_MemberSingleDelete:
  "0 < ts \<Longrightarrow> live (MemberSingleDelete ts i db) = filter (\<lambda>m. m_ID m \<noteq> i) (live db)"
  by (simp add: live_def MemberSingleDelete_def filter_live_stamp del: filter_filter)

lemma Delete_Inr:
  assumes "Delete ctx i db = (Inr u, db')"
  shows "db' = MemberSingleDelete (ctx_now ctx) i db"
  using assms by (auto simp: Delete_def split: sum.splits)

lemma member_wf_same_ids:
  "map m_ID (mdb_rows db') = map m_ID (mdb_rows db) \<Longrightarrow> mdb_next db' = mdb_next db \<Longrightarrow>
   member_db_wf db' = member_db_wf db"
  by (simp only: member_db_wf_def)

lemma member_wf_distinct: "member_db_wf db \<Longrightarrow> distinct (map m_ID (mdb_rows db))"
  by (simp add: member_db_wf_def)

lemma member_wf_fresh: "member_db_wf db \<Longrightarrow> mdb_next db \<notin> m_ID ` set (mdb_rows db)"
  by (auto simp: member_db_wf_def)

lemma map_rows_ids:
  assumes "\<forall>m \<in> set (mdb_rows db). m_ID (f m) = m_ID m"
  shows "map m_ID (map f (mdb_rows db)) = map m_ID (mdb_rows db)"
  using assms by simp

lemma MemberSingleDelete_ids: "map m_ID (mdb_rows (MemberSingleDelete ts i db)) = map m_ID (mdb_rows db)"
  unfolding MemberSingleDelete_def by (simp add: map_rows_ids)

lemma save_row_ids: "map m_ID (mdb_rows (save_row r db)) = map m_ID (mdb_rows db)"
  unfolding save_row_def by (simp add: map_rows_ids)

text \<open>On a well-formed table the auto-increment id is never a used one.\<close>

lemma auto_id_used:
  "member_db_wf db \<Longrightarrow> m_ID (auto_id db mem) \<in> m_ID ` set (mdb_rows db) \<longleftrightarrow>
     m_ID mem \<noteq> 0 \<and> m_ID mem \<in> m_ID ` set (mdb_rows db)"
  by (auto simp: auto_id_def member_db_wf_def)

lemma Create_Inr:
  "ctx_has_db ctx \<Longrightarrow> mdb_faults db FCreate = None \<Longrightarrow> m_ID (auto_id db mem) \<notin> m_ID ` set (mdb_rows db) \<Longrightarrow>
   Create ctx mem db = (Inr (auto_id db mem), db\<lparr>mdb_rows := mdb_rows db @ [auto_id db mem],
                          mdb_next := max (mdb_next db) (Suc (m_ID (auto_id db mem)))\<rparr>)"
  by (simp add: Create_def Let_def)

lemma Create_store:
  "snd (Create ctx mem db) = db \<or>
   (m_ID (auto_id db mem) \<notin> m_ID ` set (mdb_rows db) \<and>
    snd (Create ctx mem db) = db\<lparr>mdb_rows := mdb_rows db @ [auto_id db mem],
                                mdb_next := max (mdb_next db) (Suc (m_ID (auto_id db mem)))\<rparr>)"
  by (simp add: Create_def Let_def split: sum.splits)

lemma UpdateByID_store:
  "snd (UpdateByID ctx i role db) = db \<or>
   (\<exists>r u. MemberQueryByID db i = Some r \<and> snd (UpdateByID ctx i role db) = save_row (r\<lparr>m_Role := role, m_GrantedBy := u\<rparr>) db)"
  by (auto simp: UpdateByID_def stmt_def Let_def split: sum.splits option.splits)

lemma Delete_store: "snd (Delete ctx i db) = db \<or> snd (Delete ctx i db) = MemberSingleDelete (ctx_now ctx) i db"
  by (simp add: Delete_def split: sum.splits)

lemma MemberQueryByID_Some:
  "MemberQueryByID db i = Some r \<Longrightarrow> r \<in> set (mdb_rows db) \<and> m_ID r = i \<and> m_DeletedTs r = 0"
  unfolding MemberQueryByID_def live_def by (auto dest: find_Some_in)

lemma member_wf_id_unique:
  "member_db_wf db \<Longrightarrow> r \<in> set (mdb_rows db) \<Longrightarrow> m \<in> set (mdb_rows db) \<Longrightarrow> m_ID m = m_ID r \<Longrightarrow> m = r"
  using member_wf_distinct by (metis distinct_map inj_onD)

lemma Create_wf:
  assumes "member_db_wf db"
  shows "member_db_wf (snd (Create ctx mem db))"
  using Create_store [of ctx mem db]
proof
  assume "snd (Create ctx mem db) = db"
  then show ?thesis using assms by simp
next
  assume "m_ID (auto_id db mem) \<notin> m_ID ` set (mdb_rows db) \<and>
    snd (Create ctx mem db) = db\<lparr>mdb_rows := mdb_rows db @ [auto_id db mem],
                                mdb_next := max (mdb_next db) (Suc (m_ID (auto_id db mem)))\<rparr>"
  then show ?thesis using assms by (auto simp: member_db_wf_def)
qed

lemma UpdateByID_wf:
  assumes "member_db_wf db"
  shows "member_db_wf (snd (UpdateByID ctx i role db))"
  using UpdateByID_store [of ctx i role db]
proof
  assume "snd (UpdateByID ctx i role db) = db"
  then show ?thesis using assms by simp
next
  assume "\<exists>r u. MemberQueryByID db i = Some r \<and>
            snd (UpdateByID ctx i role db) = save_row (r\<lparr>m_Role := role, m_GrantedBy := u\<rparr>) db"
  then obtain r u where st: "snd (UpdateByID ctx i role db) = save_row (r\<lparr>m_Role := role, m_GrantedBy := u\<rparr>) db"
    by blast
  have "mdb_next (save_row (r\<lparr>m_Role := role, m_GrantedBy := u\<rparr>) db) = mdb_next db"
    by (simp add: save_row_def)
  then show ?thesis
    using member_wf_same_ids [OF save_row_ids] assms by (simp only: st)
qed

lemma Delete_wf:
  assumes "member_db_wf db"
  shows "member_db_wf (snd (Delete ctx i db))"
  using Delete_store [of ctx i db]
proof
  assume "snd (Delete ctx i db) = db"
  then show ?thesis using assms by simp
next
  assume st: "snd (Delete ctx i db) = MemberSingleDelete (ctx_now ctx) i db"
  have "mdb_next (MemberSingleDelete (ctx_now ctx) i db) = mdb_next db"
    by (simp add: MemberSingleDelete_def)
  then show ?thesis
    using member_wf_same_ids [OF MemberSingleDelete_ids] assms by (simp only: st)
qed

text \<open>Every call, and so every run of calls, keeps the table well formed.\<close>

lemma dao_call_wf: "member_db_wf db \<Longrightarrow> member_db_wf (snd (dao_call ctx c db))"
  by (cases c) (simp_all add: Create_wf UpdateByID_wf Delete_wf)

lemma dao_run_wf: "member_db_wf db \<Longrightarrow> member_db_wf (dao_run cs db)"
proof (induction cs arbitrary: db)
  case Nil
  then show ?case by simp
next
  case (Cons c cs)
  obtain ctx call where c: "c = (ctx, call)" by fastforce
  from dao_call_wf [OF Cons.prems] Cons.IH show ?case by (simp add: c)
qed

subsection \<open>Properties of the member DAO\<close>

text \<open>
  C35. \<open>UpdateByID\<close> reports a write that did not happen: when \<open>tx.Save\<close> fails, the
  transaction still commits, \<open>UpdateByID\<close> returns the member with the new role and
  grantor, and the table is unchanged, so a following \<open>GetByID\<close> returns the old row.
\<close>

theorem UpdateByID_save_error_lost:
  assumes "ctx_has_db ctx" and "ctx_user ctx = Some u"
    and "mdb_faults db FQuery = None" and "mdb_faults db FSave = Some e"
    and "MemberQueryByID db i = Some r"
  shows "UpdateByID ctx i role db = (Inr (r\<lparr>m_Role := role, m_GrantedBy := u\<rparr>), db) \<and>
         GetByID ctx i db = Inr (Some r)"
  using assms by (simp add: UpdateByID_def GetByID_def)

text \<open>
  C36. Deletion is soft and exact: a successful \<open>Delete\<close> (at a positive Unix time)
  keeps every row in the table, removes from the live rows exactly those with the
  deleted id, so that \<open>GetByID\<close> then answers not-found and no listing shows the member.
\<close>

theorem Delete_soft:
  assumes "Delete ctx i db = (Inr u, db')" and "0 < ctx_now ctx"
  shows "length (mdb_rows db') = length (mdb_rows db) \<and>
         live db' = filter (\<lambda>m. m_ID m \<noteq> i) (live db) \<and>
         MemberQueryByID db' i = None \<and>
         (\<forall>rt rid. i \<notin> m_ID ` set (MemberSelectAll db' rt rid))"
proof -
  have d: "db' = MemberSingleDelete (ctx_now ctx) i db" by (rule Delete_Inr [OF assms(1)])
  have l: "live db' = filter (\<lambda>m. m_ID m \<noteq> i) (live db)"
    unfolding d by (rule live_MemberSingleDelete [OF assms(2)])
  moreover have "length (mdb_rows db') = length (mdb_rows db)"
    by (simp add: d MemberSingleDelete_def)
  moreover have "MemberQueryByID db' i = None"
    using l by (simp add: MemberQueryByID_def find_None_iff)
  moreover have "\<forall>rt rid. i \<notin> m_ID ` set (MemberSelectAll db' rt rid)"
    using l by (auto simp: MemberSelectAll_def)
  ultimately show ?thesis by blast
qed

theorem UpdateByID_save_error_lost_witness:
  "UpdateByID demo_ctx 1 ''owner'' (demo_db [FSave \<mapsto> Text ''Error 1205: Lock wait timeout exceeded'']) =
     (Inr (demo_member\<lparr>m_Role := ''owner'', m_GrantedBy := 5\<rparr>),
      demo_db [FSave \<mapsto> Text ''Error 1205: Lock wait timeout exceeded'']) \<and>
   GetByID demo_ctx 1 (demo_db [FSave \<mapsto> Text ''Error 1205: Lock wait timeout exceeded'']) =
     Inr (Some demo_member)"
  by (rule UpdateByID_save_error_lost)
     (simp_all add: demo_ctx_def demo_db_def MemberQueryByID_def live_def demo_member_def)

theorem Delete_soft_witness:
  "Delete demo_ctx 1 (demo_db Map.empty) = (Inr (), snd (Delete demo_ctx 1 (demo_db Map.empty))) \<and>
   live (snd (Delete demo_ctx 1 (demo_db Map.empty))) = [] \<and>
   length (mdb_rows (snd (Delete demo_ctx 1 (demo_db Map.empty)))) = 1"
proof -
  have run: "Delete demo_ctx 1 (demo_db Map.empty) = (Inr (), snd (Delete demo_ctx 1 (demo_db Map.empty)))"
    by (simp add: Delete_def demo_ctx_def demo_db_def)
  have "0 < ctx_now demo_ctx" by (simp add: demo_ctx_def)
  from Delete_soft [OF run this] show ?thesis
    using run by (simp add: demo_db_def live_def demo_member_def)
qed

end
