(* ===== verification/MemberSpec.thy ===== *)
theory MemberSpec
  imports MemberDao
begin

text \<open>
  An abstract specification of the member DAO and the refinement of it by the DAO of
  theory \<open>MemberDao\<close>. Abstractly the membership table is a finite map from member id
  to member, holding the live members only, beside the set of ids the table has used
  (live or deleted): \<open>Create\<close> inserts the member under its own id, or under a fresh
  one when its id is zero, refuses an id already used, and shows the member in the
  map only when it is inserted live, \<open>Delete\<close> removes an id, \<open>UpdateByID\<close> sets the role and grantor of a
  present member and answers 404 for an absent one, \<open>GetByID\<close> looks an id up, and
  the other reads leave the map alone (their answers depend on the row order and are
  left open by the specification). The abstraction \<open>members\<close> maps the live rows of a
  table by id. The refinement holds for a well-formed table when the database reports
  no failure; with a failing \<open>tx.Save\<close> it breaks, which is the defect shown by
  \<open>UpdateByID_save_error_lost\<close>.
\<close>

subsection \<open>Abstraction and specification\<close>

definition members :: "member_db \<Rightarrow> nat \<rightharpoonup> member" where
  "members db = map_of (map (\<lambda>m. (m_ID m, m)) (live db))"

text \<open>
  One call on the abstract map: the fresh id \<open>n\<close> a \<open>Create\<close> uses, the set \<open>used\<close> of
  ids taken and the current user \<open>u\<close> are parameters; the answer is \<open>None\<close> where the
  specification leaves it open.
\<close>

fun member_spec ::
  "nat \<Rightarrow> nat set \<Rightarrow> nat \<Rightarrow> member_call \<Rightarrow> (nat \<rightharpoonup> member) \<Rightarrow>
   member_reply result option \<times> (nat \<rightharpoonup> member)" where
  "member_spec n used u (CallCreate mem) M =
     (let m = (if m_ID mem = 0 then mem\<lparr>m_ID := n\<rparr> else mem) in
      if m_ID m \<in> used then (Some (Inl errDuplicateEntry), M)
      else (Some (Inr (RMember m)), if m_DeletedTs m = 0 then M(m_ID m \<mapsto> m) else M))"
| "member_spec n used u (CallGetByID i) M = (Some (Inr (RMemberOpt (M i))), M)"
| "member_spec n used u (CallDelete i) M = (Some (Inr RNoValue), M(i := None))"
| "member_spec n used u (CallUpdateByID i role) M =
     (case M i of
        None \<Rightarrow> (Some (Inl (HttpErr op_updateByID 404 [] [])), M)
      | Some r \<Rightarrow> (let r' = r\<lparr>m_Role := role, m_GrantedBy := u\<rparr> in (Some (Inr (RMember r')), M(i \<mapsto> r'))))"
| "member_spec n used u (CallGet rt rid mt mi) M = (None, M)"
| "member_spec n used u (CallListDirectMember rt rid) M = (None, M)"
| "member_spec n used u (CallListDirectMemberOnCondition rt rid) M = (None, M)"
| "member_spec n used u (CallListResourceOfMemberInfo rt mi) M = (None, M)"

subsection \<open>Lemmas on the abstraction\<close>

lemma map_of_keyed_find: "map_of (map (\<lambda>x. (f x, x)) xs) k = find (\<lambda>x. f x = k) xs"
  by (induction xs) auto

lemma map_of_keyed_filter:
  "map_of (map (\<lambda>x. (f x, x)) (filter (\<lambda>x. f x \<noteq> i) xs)) = (map_of (map (\<lambda>x. (f x, x)) xs))(i := None)"
  by (induction xs) (auto simp: fun_eq_iff)

lemma map_of_keyed_snoc:
  "f y = k \<Longrightarrow> k \<notin> f ` set xs \<Longrightarrow>
   map_of (map (\<lambda>x. (f x, x)) (xs @ [y])) = (map_of (map (\<lambda>x. (f x, x)) xs))(k \<mapsto> y)"
  by (induction xs) (auto simp: fun_eq_iff)

lemma map_of_keyed_replace:
  "f r' = i \<Longrightarrow>
   map_of (map (\<lambda>x. (f x, x)) (map (\<lambda>x. if f x = i then r' else x) xs)) k =
   (if k = i \<and> i \<in> f ` set xs then Some r' else map_of (map (\<lambda>x. (f x, x)) xs) k)"
  by (induction xs) auto

lemma filter_replace:
  "\<forall>m \<in> set xs. f m = i \<longrightarrow> P m \<Longrightarrow> P r' \<Longrightarrow>
   filter P (map (\<lambda>m. if f m = i then r' else m) xs) = map (\<lambda>m. if f m = i then r' else m) (filter P xs)"
  by (induction xs) auto

lemma members_lookup: "members db i = MemberQueryByID db i"
  by (simp add: members_def MemberQueryByID_def map_of_keyed_find)

lemma members_Delete:
  "0 < ts \<Longrightarrow> members (MemberSingleDelete ts i db) = (members db)(i := None)"
  by (simp add: members_def live_MemberSingleDelete map_of_keyed_filter del: filter_filter)

lemma members_Create:
  assumes "m_ID m \<notin> m_ID ` set (mdb_rows db)"
  shows "members (db\<lparr>mdb_rows := mdb_rows db @ [m], mdb_next := N\<rparr>) =
         (if m_DeletedTs m = 0 then (members db)(m_ID m \<mapsto> m) else members db)"
proof (cases "m_DeletedTs m = 0")
  case True
  have l: "live (db\<lparr>mdb_rows := mdb_rows db @ [m], mdb_next := N\<rparr>) = live db @ [m]"
    using True by (simp add: live_def)
  have fresh: "m_ID m \<notin> m_ID ` set (live db)"
    using assms by (auto simp: live_def)
  have "members (db\<lparr>mdb_rows := mdb_rows db @ [m], mdb_next := N\<rparr>) = (members db)(m_ID m \<mapsto> m)"
    unfolding members_def l by (rule map_of_keyed_snoc [OF _ fresh]) simp
  then show ?thesis using True by simp
next
  case False
  then show ?thesis by (simp add: members_def live_def)
qed

lemma members_fresh: "member_db_wf db \<Longrightarrow> members db (mdb_next db) = None"
  using member_wf_fresh by (force simp: members_def live_def map_of_keyed_find find_None_iff)

text \<open>Saving a live row back under its id replaces it in the abstract map.\<close>

lemma members_save_row:
  assumes "member_db_wf db" and "MemberQueryByID db i = Some r" and "m_ID r' = i" and "m_DeletedTs r' = 0"
  shows "members (save_row r' db) = (members db)(i \<mapsto> r')"
proof -
  have r: "r \<in> set (mdb_rows db)" "m_ID r = i" "m_DeletedTs r = 0"
    using MemberQueryByID_Some [OF assms(2)] by auto
  have uniq: "\<forall>m \<in> set (mdb_rows db). m_ID m = i \<longrightarrow> m = r"
    using member_wf_id_unique [OF assms(1) r(1)] r(2) by auto
  have "live (save_row r' db) = map (\<lambda>m. if m_ID m = i then r' else m) (live db)"
    using filter_replace [of "mdb_rows db" m_ID i "\<lambda>m. m_DeletedTs m = 0" r'] uniq r(3) assms(4)
    by (auto simp: live_def save_row_def assms(3))
  moreover have "i \<in> m_ID ` set (live db)"
    using r by (auto simp: live_def)
  ultimately show ?thesis
    using assms(3) by (simp add: members_def map_of_keyed_replace fun_eq_iff del: map_map)
qed


subsection \<open>Refinement\<close>

text \<open>The DAO's operations on a fault-free database, one by one, on the abstraction.\<close>

lemma dao_Create_spec:
  assumes "ctx_has_db ctx" "mdb_faults db = Map.empty"
  shows "members (snd (Create ctx mem db)) =
           snd (member_spec (mdb_next db) (m_ID ` set (mdb_rows db)) u (CallCreate mem) (members db)) \<and>
         Some (map_sum id RMember (fst (Create ctx mem db))) =
           fst (member_spec (mdb_next db) (m_ID ` set (mdb_rows db)) u (CallCreate mem) (members db))"
proof -
  have a: "(if m_ID mem = 0 then mem\<lparr>m_ID := mdb_next db\<rparr> else mem) = auto_id db mem"
    by (simp add: auto_id_def)
  show ?thesis
  proof (cases "m_ID (auto_id db mem) \<in> m_ID ` set (mdb_rows db)")
    case True
    then show ?thesis using assms by (simp add: Create_def a Let_def)
  next
    case False
    then show ?thesis
      using assms by (simp add: Create_Inr members_Create a Let_def)
  qed
qed

lemma dao_UpdateByID_spec:
  assumes "ctx_has_db ctx" "ctx_user ctx = Some u" "mdb_faults db = Map.empty"
  shows "UpdateByID ctx i role db =
           (case MemberQueryByID db i of
              None \<Rightarrow> (Inl (HttpErr op_updateByID 404 [] []), db)
            | Some r \<Rightarrow> (Inr (r\<lparr>m_Role := role, m_GrantedBy := u\<rparr>),
                         save_row (r\<lparr>m_Role := role, m_GrantedBy := u\<rparr>) db))"
  using assms by (simp add: UpdateByID_def Let_def split: option.split)

text \<open>
  C11. Refinement of the abstract membership map (in the style of a map
  specification): on a well-formed table whose database reports no failure, with a
  context holding the ORM handle and the current user and a positive clock, every DAO
  call moves the map of live members by id exactly as the abstract call does, answers
  what the abstract call answers wherever the specification fixes the answer
  (\<open>Create\<close> with its duplicate-key error, \<open>GetByID\<close>, \<open>Delete\<close>, \<open>UpdateByID\<close> with
  its 404), and the id the auto-increment counter hands out is fresh, in the abstract
  map and among all the ids the table has used.
\<close>

theorem dao_call_refines_spec:
  assumes "member_db_wf db" and "ctx_has_db ctx" and "ctx_user ctx = Some u"
    and "mdb_faults db = Map.empty" and "0 < ctx_now ctx"
  shows "members (snd (dao_call ctx c db)) =
           snd (member_spec (mdb_next db) (m_ID ` set (mdb_rows db)) u c (members db)) \<and>
         (\<forall>r. fst (member_spec (mdb_next db) (m_ID ` set (mdb_rows db)) u c (members db)) = Some r \<longrightarrow>
              fst (dao_call ctx c db) = r) \<and>
         members db (mdb_next db) = None \<and> mdb_next db \<notin> m_ID ` set (mdb_rows db)"
proof -
  have fresh: "members db (mdb_next db) = None" by (rule members_fresh [OF assms(1)])
  have fresh': "mdb_next db \<notin> m_ID ` set (mdb_rows db)" by (rule member_wf_fresh [OF assms(1)])
  have "members (snd (dao_call ctx c db)) =
          snd (member_spec (mdb_next db) (m_ID ` set (mdb_rows db)) u c (members db)) \<and>
        (\<forall>r. fst (member_spec (mdb_next db) (m_ID ` set (mdb_rows db)) u c (members db)) = Some r \<longrightarrow>
             fst (dao_call ctx c db) = r)"
  proof (cases c)
    case (CallCreate mem)
    then show ?thesis
      using dao_Create_spec [OF assms(2,4), of mem u] by (auto simp del: member_spec.simps)
  next
    case (CallGetByID i)
    then show ?thesis
      using assms by (simp add: GetByID_def members_lookup)
  next
    case (CallDelete i)
    then show ?thesis
      using assms by (simp add: Delete_def members_Delete)
  next
    case (CallUpdateByID i role)
    show ?thesis
    proof (cases "MemberQueryByID db i")
      case None
      then show ?thesis
        using assms by (simp add: CallUpdateByID dao_UpdateByID_spec members_lookup)
    next
      case (Some r)
      have "m_ID r = i" "m_DeletedTs r = 0" using MemberQueryByID_Some [OF Some] by auto
      then have "members (save_row (r\<lparr>m_Role := role, m_GrantedBy := u\<rparr>) db) =
                 (members db)(i \<mapsto> r\<lparr>m_Role := role, m_GrantedBy := u\<rparr>)"
        by (intro members_save_row [OF assms(1) Some]) simp_all
      then show ?thesis
        using assms Some by (simp add: CallUpdateByID dao_UpdateByID_spec members_lookup Let_def)
    qed
  qed (simp_all add: Get_def ListDirectMember_def ListDirectMemberOnCondition_def
         ListResourceOfMemberInfo_def)
  with fresh fresh' show ?thesis by blast
qed

theorem dao_call_refines_spec_witness:
  "member_db_wf (demo_db Map.empty) \<and> ctx_has_db demo_ctx \<and> ctx_user demo_ctx = Some 5 \<and>
   mdb_faults (demo_db Map.empty) = Map.empty \<and> 0 < ctx_now demo_ctx \<and>
   members (snd (dao_call demo_ctx (CallUpdateByID 1 ''owner'') (demo_db Map.empty))) =
     snd (member_spec 2 {1} 5 (CallUpdateByID 1 ''owner'') (members (demo_db Map.empty)))"
proof -
  have h: "member_db_wf (demo_db Map.empty)" "ctx_has_db demo_ctx" "ctx_user demo_ctx = Some 5"
    "mdb_faults (demo_db Map.empty) = Map.empty" "0 < ctx_now demo_ctx" "mdb_next (demo_db Map.empty) = 2"
    "m_ID ` set (mdb_rows (demo_db Map.empty)) = {1}"
    by (simp_all add: member_db_wf_def demo_db_def demo_member_def demo_ctx_def)
  from dao_call_refines_spec [OF h(1-5), of "CallUpdateByID 1 ''owner''"] h show ?thesis by simp
qed

end
