(* ===== verification/Constants.thy ===== *)
theory Constants
  imports Prelude
begin

text \<open>
  The constants of the core (\<open>src/core/common/cluster.go\<close>): the names of the query
  parameters of the cluster API, two Kubernetes label keys, the status strings a
  cluster row carries, and the Tekton Triggers label of an event id. Go declares them
  as untyped string constants; each is a definition of the same name here. The query
  parameter names are shown pairwise distinct, so that no two options of a request
  share a key.
\<close>

subsection \<open>Query parameters of the cluster API\<close>

definition ClusterQueryEnvironment :: string where "ClusterQueryEnvironment = ''environment''"
definition ClusterQueryName :: string where "ClusterQueryName = ''filter''"
definition ClusterQueryByUser :: string where "ClusterQueryByUser = ''userID''"
definition ClusterQueryByTemplate :: string where "ClusterQueryByTemplate = ''template''"
definition ClusterQueryByRelease :: string where "ClusterQueryByRelease = ''templateRelease''"
definition ClusterQueryByRegion :: string where "ClusterQueryByRegion = ''region''"
definition ClusterQueryTagSelector :: string where "ClusterQueryTagSelector = ''tagSelector''"
definition ClusterQueryScope :: string where "ClusterQueryScope = ''scope''"
definition ClusterQueryMergePatch :: string where "ClusterQueryMergePatch = ''mergePatch''"
definition ClusterQueryInheritConfig :: string where "ClusterQueryInheritConfig = ''inheritConfig''"
definition ClusterQueryTargetBranch :: string where "ClusterQueryTargetBranch = ''targetBranch''"
definition ClusterQueryTargetCommit :: string where "ClusterQueryTargetCommit = ''targetCommit''"
definition ClusterQueryTargetTag :: string where "ClusterQueryTargetTag = ''targetTag''"
definition ClusterQueryContainerName :: string where "ClusterQueryContainerName = ''containerName''"
definition ClusterQueryPodName :: string where "ClusterQueryPodName = ''podName''"
definition ClusterQueryTailLines :: string where "ClusterQueryTailLines = ''tailLines''"
definition ClusterQueryStart :: string where "ClusterQueryStart = ''start''"
definition ClusterQueryEnd :: string where "ClusterQueryEnd = ''end''"
definition ClusterQueryExtraOwner :: string where "ClusterQueryExtraOwner = ''extraOwner''"
definition ClusterQueryHard :: string where "ClusterQueryHard = ''hard''"

text \<open>
  \<open>ClusterQueryIsFavorite\<close> filters the clusters by the current user's favourites,
  \<open>ClusterQueryWithFavorite\<close> asks for the favourite field in each cluster.
\<close>

definition ClusterQueryIsFavorite :: string where "ClusterQueryIsFavorite = ''isFavorite''"
definition ClusterQueryWithFavorite :: string where "ClusterQueryWithFavorite = ''withFavorite''"
definition ClusterQueryAction :: string where "ClusterQueryAction = ''action''"
definition ClusterQueryByGVK :: string where "ClusterQueryByGVK = ''gvk''"
definition ClusterQueryResourceName :: string where "ClusterQueryResourceName = ''resourceName''"

text \<open>The query parameter names of the first \<open>const\<close> block, in the order of the source.\<close>

definition ClusterQueryKeys :: "string list" where
  "ClusterQueryKeys =
     [ClusterQueryEnvironment, ClusterQueryName, ClusterQueryByUser, ClusterQueryByTemplate,
      ClusterQueryByRelease, ClusterQueryByRegion, ClusterQueryTagSelector, ClusterQueryScope,
      ClusterQueryMergePatch, ClusterQueryInheritConfig, ClusterQueryTargetBranch,
      ClusterQueryTargetCommit, ClusterQueryTargetTag, ClusterQueryContainerName,
      ClusterQueryPodName, ClusterQueryTailLines, ClusterQueryStart, ClusterQueryEnd,
      ClusterQueryExtraOwner, ClusterQueryHard, ClusterQueryIsFavorite, ClusterQueryWithFavorite,
      ClusterQueryAction, ClusterQueryByGVK, ClusterQueryResourceName]"

subsection \<open>Label keys\<close>

definition ClusterClusterLabelKey :: string where
  "ClusterClusterLabelKey = ''cloudnative.music.netease.com/cluster''"

definition ClusterRestartTimeKey :: string where
  "ClusterRestartTimeKey = ''cloudnative.music.netease.com/user-restart-time''"

text \<open>
  \<open>TektonTriggersEventIDKey = triggers.GroupName + triggers.EventIDLabelKey\<close>: the two
  operands are constants of the Tekton Triggers library, parameters here.
\<close>

definition TektonTriggersEventIDKey :: "string \<Rightarrow> string \<Rightarrow> string" where
  "TektonTriggersEventIDKey GroupName EventIDLabelKey = GroupName @ EventIDLabelKey"

subsection \<open>Cluster status\<close>

definition ClusterStatusEmpty :: string where "ClusterStatusEmpty = ''''"
definition ClusterStatusFreeing :: string where "ClusterStatusFreeing = ''Freeing''"
definition ClusterStatusFreed :: string where "ClusterStatusFreed = ''Freed''"
definition ClusterStatusDeleting :: string where "ClusterStatusDeleting = ''Deleting''"
definition ClusterStatusCreating :: string where "ClusterStatusCreating = ''Creating''"

text \<open>No two query parameters of the cluster API share a name.\<close>

lemma ClusterQueryKeys_distinct: "distinct ClusterQueryKeys"
  by (simp add: ClusterQueryKeys_def ClusterQueryEnvironment_def ClusterQueryName_def
      ClusterQueryByUser_def ClusterQueryByTemplate_def ClusterQueryByRelease_def
      ClusterQueryByRegion_def ClusterQueryTagSelector_def ClusterQueryScope_def
      ClusterQueryMergePatch_def ClusterQueryInheritConfig_def ClusterQueryTargetBranch_def
      ClusterQueryTargetCommit_def ClusterQueryTargetTag_def ClusterQueryContainerName_def
      ClusterQueryPodName_def ClusterQueryTailLines_def ClusterQueryStart_def ClusterQueryEnd_def
      ClusterQueryExtraOwner_def ClusterQueryHard_def ClusterQueryIsFavorite_def
      ClusterQueryWithFavorite_def ClusterQueryAction_def ClusterQueryByGVK_def
      ClusterQueryResourceName_def)

end
