(* ===== verification/TokenGenerator.thy ===== *)
theory TokenGenerator
  imports Prelude
begin

text \<open>
  The token code generators (\<open>src/pkg/token/generator/generator_types.go\<close>): the input
  of a generator, a token with the HTTP request it is issued for, and the three
  generator interfaces for authorization codes, access tokens and refresh tokens. The
  token model and the request are not in the sources and are type parameters; a nil
  request pointer is \<open>None\<close>. An interface with the single method \<open>Generate\<close> is the
  function type of that method. The implementations are not in the sources.
\<close>

record ('token, 'request) CodeGenerateInfo =
  Token :: 'token
  Request :: "'request option"

type_synonym ('token, 'request) AuthorizationCodeGenerator =
  "('token, 'request) CodeGenerateInfo \<Rightarrow> string"

type_synonym ('token, 'request) AccessTokenCodeGenerator =
  "('token, 'request) CodeGenerateInfo \<Rightarrow> string"

type_synonym ('token, 'request) RefreshTokenCodeGenerator =
  "('token, 'request) CodeGenerateInfo \<Rightarrow> string"

end
