(* ===== verification/Spec2Isabelle.thy ===== *)
theory Spec2Isabelle
  imports PipelineRun PipelinerunController ClusterUpgrade Schema TemplateController Config HttpApi
    MemberSpec Constants TokenGenerator
begin

text \<open>
  \<^bold>\<open>A verification development of the horizon deployment control plane.\<close>

  The sources under \<open>src/\<close> are a slice of a Go service that drives application
  rollout across a relational store, per-cluster GitOps repositories and a Tekton
  pipeline engine. This development translates them into HOL definitions (a shallow
  embedding: a Go struct is a \<open>record\<close>, an enum a \<open>datatype\<close>, an interface a record
  of functions, a nil interface \<open>None\<close>, an error the \<open>Inl\<close> side of
  \<open>'a result = error + 'a\<close>, a mutated store an explicit value passed in and out) and
  proves the properties that make each part correct, together with the places where
  the code departs from its specification.

  \<^bold>\<open>Theories and the code they model.\<close>
  \<^item> \<open>Prelude\<close>: the \<open>error\<close> datatype (sentinels, \<open>perror.Wrapf\<close>, \<open>errors.E\<close>, text,
    panics, \<open>strconv.NumError\<close>), \<open>perror.Cause\<close>, and the \<open>strings\<close> helpers
    \<open>HasPrefix\<close>, \<open>TrimPrefix\<close>, \<open>TrimSuffix\<close>, with the rewrite collection \<open>go_simps\<close>.
  \<^item> \<open>Models\<close>: the entities the controllers read (pipelinerun, cluster, application,
    environment region, template release) and the pipelinerun manager interface. The
    model packages are not in \<open>src/\<close>; their fields are those the code uses. The run
    status order \<open>Created < Pending < Running < {Ok, Failed, Cancelled}\<close> is an
    instance of the \<open>order\<close> class.
  \<^item> \<open>PipelineRun\<close> (\<open>src/pkg/pipelinerun/manager/manager.go\<close>): the run tracker. The
    manager forwards each call to its DAO; the DAO (not in \<open>src/\<close>) is a store of runs
    in creation order with the contract of spec 4.1: monotone status updates,
    \<open>ErrConflict\<close> on a second in-flight run, newest-first queries. \<open>manager_step\<close>
    dispatches one state-changing call, \<open>manager_run\<close> a sequence of calls, and
    \<open>manager_query\<close> one read call.
  \<^item> \<open>PipelinerunController\<close> (\<open>src/core/controller/pipelinerun/controller.go\<close>): the
    log resolver (\<open>GetPrLog\<close>, \<open>GetClusterLatestLog\<close>, \<open>getPrLog\<close>) and the drift
    calculator (\<open>GetDiff\<close> with its two halves \<open>get_code_diff\<close> and
    \<open>get_config_diff\<close>), each handler one definition with all its early returns;
    \<open>controller_Controller\<close> is the controller as its \<open>Controller\<close> interface.
  \<^item> \<open>ClusterUpgrade\<close> (\<open>src/core/controller/cluster/controller_operation_v2.go\<close>): the
    template migration \<open>UpgradeToV2\<close>, over a \<open>world\<close> holding the cluster,
    application and release tables, the GitOps repositories, injectable faults per
    collaborator call and an ordered log of durable effects (merge, commit, database
    update), so that ordering and partial-failure claims are statements about the log.
  \<^item> \<open>Schema\<close> (\<open>src/pkg/templaterelease/schema/schema.go\<close>): the schema getter's
    two concurrent fan-outs. Goroutines and the WaitGroup are the
    inductive relation \<open>fanout_step\<close> with an executable interpreter \<open>fanout_exec\<close>;
    \<open>GetTemplateSchema\<close> is written over the sequential join \<open>fanout_join\<close>.
  \<^item> \<open>TemplateController\<close> (\<open>src/core/controller/template/controller.go\<close>, and
    \<open>newSchemaGetter\<close> of \<open>schema.go\<close>): the controller struct, its constructor over
    the schema getter, and its three methods \<open>ListTemplate\<close>, \<open>ListTemplateRelease\<close>
    and \<open>GetTemplateSchema\<close> (\<open>ctl_GetTemplateSchema\<close>), gathered into its
    \<open>Controller\<close> interface by \<open>template_controller_Controller\<close>.
  \<^item> \<open>Config\<close> (\<open>src/core/config/config.go\<close>): \<open>LoadConfig\<close> and the expansion of
    comma-separated mapper keys, with \<open>strings.Split\<close>; a Go map's iteration order is a
    parameter constrained to list each entry once (\<open>valid_order\<close>).
  \<^item> \<open>HttpApi\<close> (\<open>src/core/http/api/v1/clustertag/apis.go\<close>,
    \<open>.../templateschematag/apis.go\<close>): the four handlers, and
    \<open>strconv.ParseUint(s, 10, 0)\<close> digit by digit on \<open>64 word\<close> with Go's cut-off and
    wrap-around tests written out; the \<open>API\<close> structs, \<open>NewAPI\<close> and the methods
    that read the \<open>clusterID\<close> path parameter from the request context.
  \<^item> \<open>MemberDao\<close> (\<open>src/pkg/member/dao/dao.go\<close>): every DAO method over an explicit
    member table with soft deletion and per-statement fault injection; \<open>db.Create\<close>
    inserts the struct as given (\<open>auto_id\<close>: the auto-increment counter for a zero
    id, \<open>errDuplicateEntry\<close> for a taken one); the \<open>DAO\<close> interface as a datatype of
    calls (\<open>member_call\<close>) with the dispatch \<open>dao_call\<close> and the run of a call
    sequence \<open>dao_run\<close>.
  \<^item> \<open>MemberSpec\<close>: the abstract specification of the member DAO, a map from member id
    to live member beside the set of used ids (\<open>member_spec\<close>), and the abstraction
    \<open>members\<close> of a table.
  \<^item> \<open>Constants\<close> (\<open>src/core/common/cluster.go\<close>): every constant of the file, each a
    definition of the same name.
  \<^item> \<open>TokenGenerator\<close> (\<open>src/pkg/token/generator/generator_types.go\<close>): the generator
    input as a record and the three generator interfaces as function types.
  \<^item> This theory: the properties that span components.

  \<^bold>\<open>How the parts interact.\<close> The controllers reach the run store only through the
  manager interface \<open>pr_manager\<close>; \<open>prMgr_of\<close> is its implementation over the store of
  \<open>PipelineRun\<close>, and the theorem below composes the two: the log returned for a
  cluster is the log of the newest build-deploy run of any store the manager can
  reach. The migration engine, the schema getter and the handlers take their
  collaborators as parameters or as fields of their state record.

  \<^bold>\<open>What the lemma groups show.\<close>
  \<^item> Tracker: status monotonicity along every call sequence, well-formedness of the
    store and ids never handed out again after a delete (invariants by induction over
    the sequence), a refused status regression and idempotent retries, create/lookup
    round trip, newest-first queries.
  \<^item> Log resolver and drift calculator: live and archived logs exclude each other, the
    live session's key, the archive path ignoring the run, the action check coming
    after the lookups, the two diff halves and their guards, no partial diff, and the
    panics of a controller built by \<open>NewController\<close>.
  \<^item> Migration: refinement of the spec's contract (Git and database agree after a
    success), the order of durable effects, no database write on failure, the opt-in
    table, merge conflicts, the bare database error after a commit (indistinguishable
    from the same error before any write) and the non-idempotent rerun.
  \<^item> Fan-out: every interleaving that passes \<open>Wait\<close> has the slots of the sequential
    join (refinement), \<open>Wait\<close> always returns (liveness), every schedule has at most
    \<open>4 n\<close> steps (termination); the getter fails with the first failing file in slot
    order, wires the four files to the right fields and answers a typed 404.
  \<^item> Config: what the expansion maps (every part of a key to the key's value, nothing
    else) and its order independence when no part is shared, order dependence whenever
    two keys share a part with different values, and the \<open>Split\<close>/\<open>Join\<close> round trip.
  \<^item> HTTP: \<open>ParseUint\<close> equals its reference meaning on unbounded naturals, accepts
    exactly the decimal strings below \<open>2^64\<close> (no wrap-around); the
    template-schema-tag handler classifies errors by cause.
  \<^item> Member DAO: along every sequence of calls the table stays well formed (distinct
    ids below the counter; induction over the sequence); on a fault-free database
    every call refines the abstract map specification (functional refinement through
    \<open>members\<close>, one lemma per operation as for a map ADT); a failed \<open>tx.Save\<close> is
    reported as success, which breaks that refinement; deletion is soft and exact.
  \<^item> Constants: the query parameter names are pairwise distinct.
  \<^item> Template controller: its schema method is the getter followed by the converter,
    so the getter's errors, the 404 of a missing release among them, pass unchanged.

  \<^bold>\<open>Bounds and fuel.\<close> No definition needs fuel: every loop of the sources is a
  structural recursion (the digit loop, the key expansion, the run list) or, for the
  goroutines, a step relation whose schedules are proved finite (at most four steps
  per goroutine, \<open>fanout_schedules_bounded\<close>). Integers are \<open>nat\<close> where the code
  cannot overflow (database ids, commit counters) and \<open>64 word\<close> where it can
  (\<open>ParseUint\<close>, Go's \<open>uint\<close> on 64-bit platforms).

  \<^bold>\<open>Not modelled.\<close>
  \<^item> Code outside \<open>src/\<close> that the sources call is modelled from the spec and marked so
    in the manifest: the pipelinerun DAO, the model packages, the collaborators of the
    migration (cluster, application and release managers, the cluster Git repository,
    \<open>mergeDefaultBranchIntoGitOps\<close>), the member SQL texts (from their names: queries
    see rows with \<open>deleted_ts = 0\<close>, the delete sets \<open>deleted_ts\<close> of the row with the
    id), and the constants of
    \<open>core/common\<close> the diff uses (\<open>git_conf\<close>).
  \<^item> \<open>strconv.ParseUint\<close> is Go standard-library code; it is modelled (the handlers'
    behaviour depends on it) but its helper definitions are not mapped to the sources.
  \<^item> JSON and YAML decoding, \<open>ShouldBindJSON\<close>, \<open>toSchemas\<close> and the GitLab, Tekton
    and Git clients are parameters: their behaviour is not in the sources.
  \<^item> \<open>wlog\<close> timing and logging, the gin context beyond its path parameters and body,
    and \<open>err.Error()\<close> texts (kept as the error value) have no effect on the modelled
    results.
  \<^item> \<open>pkg/token/generator\<close> declares interfaces with no implementation, so only their
    types are modelled; \<open>pkg/util/kube/kube_test.go\<close> tests a package that is not
    in the sources; the template managers and the converters \<open>toTemplates\<close>,
    \<open>toReleases\<close>, \<open>toSchemas\<close> are parameters; \<open>GetByClusterID\<close> and
    \<open>GetFirstCanRollbackPipelinerun\<close> of the pipelinerun manager depend on a paging
    and query library (\<open>lib/q\<close>) and a rollback filter that neither the sources nor
    the spec describe, and are left out rather than guessed.
\<close>

subsection \<open>Concrete inputs\<close>

text \<open>
  A store reached by three manager calls: a build-deploy run is created, finishes,
  and a second one is created; and the demo controller reading that store.
\<close>

definition demo_ops :: "pr_op list" where
  "demo_ops = [pr_op.Create demo_run, UpdateStatusByID 1 StatusOK, pr_op.Create demo_run]"

definition demo_store_controller :: controller where
  "demo_store_controller =
     (demo_controller demo_run demo_clusterMgr)\<lparr>prMgr := prMgr_of (manager_run demo_ops empty_store)\<rparr>"

subsection \<open>Properties across components\<close>

lemma empty_store_wf: "pr_store_wf empty_store"
  by (simp add: pr_store_wf_def empty_store_def)

text \<open>
  C9. The cluster log is the newest build-deploy run's (composition of the run
  tracker and the log resolver, spec 4.1 and 4.2): when the controller's manager is
  the tracker over a store reached by any sequence of manager calls and
  \<open>GetClusterLatestLog\<close> returns a log, that log is \<open>getPrLog\<close>'s for a build-deploy
  run of the cluster in the store that no other build-deploy run of the cluster is
  newer than, with the cluster, application and region the controller looked up.
\<close>

theorem GetClusterLatestLog_newest_run:
  assumes "prMgr c = prMgr_of (manager_run ops empty_store)"
    and "GetClusterLatestLog c cid = Inr l"
  shows "\<exists>r cl app er. r \<in> set (runs (manager_run ops empty_store)) \<and>
           pr_ClusterID r = cid \<and> pr_Action r = ActionBuildDeploy \<and>
           (\<forall>r' \<in> set (runs (manager_run ops empty_store)).
              pr_ClusterID r' = cid \<and> pr_Action r' = ActionBuildDeploy \<longrightarrow> pr_ID r' \<le> pr_ID r) \<and>
           clusterMgr c cid = Inr cl \<and> applicationMgr c (cluster_ApplicationID cl) = Inr app \<and>
           envMgr c (cluster_EnvironmentRegionID cl) = Inr er \<and>
           getPrLog c r cl (app_Name app) (er_EnvironmentName er) = Inr l"
proof -
  let ?st = "manager_run ops empty_store"
  have wf: "pr_store_wf ?st" by (rule manager_run_wf [OF empty_store_wf])
  from assms(2) obtain r where
    latest: "dao_GetLatestByClusterIDAndActions ?st cid [ActionBuildDeploy] = Inr (Some r)"
    by (auto simp: GetClusterLatestLog_def assms(1) prMgr_of_def split: sum.splits option.splits)
  from assms(2) latest obtain cl app er where
    "clusterMgr c cid = Inr cl" "applicationMgr c (cluster_ApplicationID cl) = Inr app"
    "envMgr c (cluster_EnvironmentRegionID cl) = Inr er"
    "getPrLog c r cl (app_Name app) (er_EnvironmentName er) = Inr l"
    by (auto simp: GetClusterLatestLog_def assms(1) prMgr_of_def split: sum.splits)
  moreover note dao_GetLatest_Some [OF wf latest]
  ultimately show ?thesis by (intro exI [of _ r] exI [of _ cl] exI [of _ app] exI [of _ er]) auto
qed

theorem GetClusterLatestLog_newest_run_witness:
  "GetClusterLatestLog demo_store_controller 7 =
     Inr \<lparr>LogChannel = Some 2, ErrChannel = Some 3, LogBytes = None\<rparr> \<and>
   (\<exists>r. r \<in> set (runs (manager_run demo_ops empty_store)) \<and> pr_ID r = 2 \<and>
        pr_Action r = ActionBuildDeploy)"
proof -
  have st: "manager_run demo_ops empty_store =
      \<lparr>runs = [demo_run\<lparr>pr_ID := 1, pr_Status := StatusOK\<rparr>, demo_run\<lparr>pr_ID := 2\<rparr>], next_id = 3\<rparr>"
    by (simp add: demo_ops_def demo_run_def empty_store_def manager_apply_def dao_Create_def Let_def
          dao_UpdateStatusByID_def find_run_def update_run_def is_terminal_def less_eq_pipeline_status_def)
  have log: "GetClusterLatestLog demo_store_controller 7 =
               Inr \<lparr>LogChannel = Some 2, ErrChannel = Some 3, LogBytes = None\<rparr>"
    by (simp add: demo_store_controller_def demo_controller_def st demo_run_def
          GetClusterLatestLog_def prMgr_of_def dao_GetLatestByClusterIDAndActions_def
          demo_clusterMgr_def demo_cluster_def getPrLog_def demo_fty_def)
  have "prMgr demo_store_controller = prMgr_of (manager_run demo_ops empty_store)"
    by (simp add: demo_store_controller_def)
  from GetClusterLatestLog_newest_run [OF this log] obtain r :: pipelinerun and cl :: cluster
    and app :: application and er :: environment_region where
    "r \<in> set (runs (manager_run demo_ops empty_store))" "pr_Action r = ActionBuildDeploy"
    "getPrLog demo_store_controller r cl (app_Name app) (er_EnvironmentName er) =
       Inr \<lparr>LogChannel = Some 2, ErrChannel = Some 3, LogBytes = None\<rparr>"
    by blast
  moreover from this(3) have "pr_ID r = 2"
    by (auto simp: getPrLog_def demo_store_controller_def demo_controller_def demo_fty_def
             split: if_splits sum.splits)
  ultimately show ?thesis using log by blast
qed

end
